theory Spec2Isabelle
  imports Main "HOL-Library.Word"
begin

unbundle bit_operations_syntax

section \<open>Common declarations\<close>

text \<open>
  Modelled from the spec: the enumeration SailPixelFormat is declared in the common
  header, which is not among the sources. The tags below are the ones the sources
  name (convert_to_64.c, pcx.c) together with the tag for an unknown format; the
  closed tag set of section 6 of the specification contains all of them.
\<close>

datatype SailPixelFormat =
    SAIL_PIXEL_FORMAT_UNKNOWN
  | SAIL_PIXEL_FORMAT_BPP1_INDEXED
  | SAIL_PIXEL_FORMAT_BPP2_INDEXED
  | SAIL_PIXEL_FORMAT_BPP4_INDEXED
  | SAIL_PIXEL_FORMAT_BPP8_INDEXED
  | SAIL_PIXEL_FORMAT_BPP1_GRAYSCALE
  | SAIL_PIXEL_FORMAT_BPP2_GRAYSCALE
  | SAIL_PIXEL_FORMAT_BPP4_GRAYSCALE
  | SAIL_PIXEL_FORMAT_BPP8_GRAYSCALE
  | SAIL_PIXEL_FORMAT_BPP16_GRAYSCALE
  | SAIL_PIXEL_FORMAT_BPP16_GRAYSCALE_ALPHA
  | SAIL_PIXEL_FORMAT_BPP32_GRAYSCALE_ALPHA
  | SAIL_PIXEL_FORMAT_BPP16_RGB555
  | SAIL_PIXEL_FORMAT_BPP16_BGR555
  | SAIL_PIXEL_FORMAT_BPP24_RGB
  | SAIL_PIXEL_FORMAT_BPP24_BGR
  | SAIL_PIXEL_FORMAT_BPP48_RGB
  | SAIL_PIXEL_FORMAT_BPP48_BGR
  | SAIL_PIXEL_FORMAT_BPP16_RGBA
  | SAIL_PIXEL_FORMAT_BPP32_RGBX
  | SAIL_PIXEL_FORMAT_BPP32_BGRX
  | SAIL_PIXEL_FORMAT_BPP32_XRGB
  | SAIL_PIXEL_FORMAT_BPP32_XBGR
  | SAIL_PIXEL_FORMAT_BPP32_RGBA
  | SAIL_PIXEL_FORMAT_BPP32_BGRA
  | SAIL_PIXEL_FORMAT_BPP32_ARGB
  | SAIL_PIXEL_FORMAT_BPP32_ABGR
  | SAIL_PIXEL_FORMAT_BPP64_RGBX
  | SAIL_PIXEL_FORMAT_BPP64_BGRX
  | SAIL_PIXEL_FORMAT_BPP64_XRGB
  | SAIL_PIXEL_FORMAT_BPP64_XBGR
  | SAIL_PIXEL_FORMAT_BPP64_RGBA
  | SAIL_PIXEL_FORMAT_BPP64_BGRA
  | SAIL_PIXEL_FORMAT_BPP64_ARGB
  | SAIL_PIXEL_FORMAT_BPP64_ABGR
  | SAIL_PIXEL_FORMAT_BPP32_CMYK
  | SAIL_PIXEL_FORMAT_BPP24_YCBCR

text \<open>
  The failure statuses the modelled functions return (success, \<open>SAIL_OK\<close>, is the
  \<open>Inr\<close> side of a result). \<open>NULL_POINTER_DEREFERENCE\<close> is not a status of the
  library: it stands for the crash of the C program when a null palette pointer is
  dereferenced.
\<close>

datatype sail_status_t =
    SAIL_ERROR_MEMORY_ALLOCATION
  | SAIL_ERROR_NULL_PTR
  | SAIL_ERROR_READ_IO
  | SAIL_ERROR_SEEK_IO
  | SAIL_ERROR_INVALID_IO
  | SAIL_ERROR_INVALID_IMAGE
  | SAIL_ERROR_BROKEN_IMAGE
  | SAIL_ERROR_UNSUPPORTED_PIXEL_FORMAT
  | SAIL_ERROR_NO_MORE_FRAMES
  | SAIL_ERROR_NOT_IMPLEMENTED
  | NULL_POINTER_DEREFERENCE

section \<open>Memory\<close>

text \<open>
  Pixel buffers and palette data are reached through \<open>void *\<close> and read as bytes or
  as 16-bit samples, and the in-place conversion reads and writes one buffer. The
  store maps a block (one allocation) and a byte offset inside it to a byte. A pointer
  is a block with an offset. Blocks are unbounded: the size of an allocation is not
  recorded, a read outside of it yields what the store holds there. 16-bit samples are
  stored in the byte order of the host, taken to be little-endian.
\<close>

type_synonym store = "nat \<Rightarrow> nat \<Rightarrow> 8 word"
type_synonym ptr = "nat \<times> nat"

definition ptr_add8 :: "ptr \<Rightarrow> int \<Rightarrow> ptr" where
  "ptr_add8 p k = (fst p, nat (int (snd p) + k))"

definition ptr_add16 :: "ptr \<Rightarrow> int \<Rightarrow> ptr" where
  "ptr_add16 p k = (fst p, nat (int (snd p) + 2 * k))"

definition rd8 :: "store \<Rightarrow> ptr \<Rightarrow> 8 word" where
  "rd8 s p = s (fst p) (snd p)"

definition rd16 :: "store \<Rightarrow> ptr \<Rightarrow> 16 word" where
  "rd16 s p = push_bit 8 (ucast (s (fst p) (Suc (snd p)))) OR ucast (s (fst p) (snd p))"

definition wr8 :: "store \<Rightarrow> ptr \<Rightarrow> 8 word \<Rightarrow> store" where
  "wr8 s p v = s(fst p := (s (fst p))(snd p := v))"

definition wr16 :: "store \<Rightarrow> ptr \<Rightarrow> 16 word \<Rightarrow> store" where
  "wr16 s p v = s(fst p := (s (fst p))(snd p := ucast v, Suc (snd p) := ucast (drop_bit 8 v)))"

text \<open>
  The C expression \<open>v * 257\<close> for an operand of type uint8_t or uint16_t, converted to
  uint16_t: the operand is promoted to int, where the product does not overflow, and
  the conversion keeps the low 16 bits.
\<close>

definition times257 :: "'a::len word \<Rightarrow> 16 word" where
  "times257 v = ucast ((ucast v :: 32 word) * 257)"

section \<open>Conversion to the 64-bit RGBA kinds (convert_to_64.c)\<close>

record sail_rgba64_t =
  component1 :: "16 word"
  component2 :: "16 word"
  component3 :: "16 word"
  component4 :: "16 word"

record sail_palette =
  pal_pixel_format :: SailPixelFormat
  pal_data :: nat
  color_count :: "32 word"

text \<open>
  Modelled from the spec: the structures of an image are declared in the common
  headers, which are not among the sources. The fields are those the sources read and
  write: dimensions, pixel format, stride, pixel buffer, optional palette, optional
  source-image metadata (the pixel format and the compression as stored) and optional
  resolution. The pointer \<open>pixels\<close> is the block of the buffer, rows start at offset 0;
  an absent (null) palette, source image or resolution is \<open>None\<close>.
\<close>

datatype SailCompression = SAIL_COMPRESSION_UNSUPPORTED | SAIL_COMPRESSION_NONE | SAIL_COMPRESSION_RLE

datatype SailResolutionUnit = SAIL_RESOLUTION_UNIT_UNKNOWN | SAIL_RESOLUTION_UNIT_INCH

record sail_source_image =
  src_pixel_format :: SailPixelFormat
  compression :: SailCompression

record sail_resolution =
  res_unit :: SailResolutionUnit
  res_x :: "16 word"
  res_y :: "16 word"

record sail_image =
  pixels :: nat
  width :: "32 word"
  height :: "32 word"
  bytes_per_line :: "32 word"
  pixel_format :: SailPixelFormat
  palette :: "sail_palette option"
  source_image :: "sail_source_image option"
  resolution :: "sail_resolution option"

fun verify_and_construct_rgba64_indexes ::
  "SailPixelFormat \<Rightarrow> sail_status_t + (int \<times> int \<times> int \<times> int)" where
  "verify_and_construct_rgba64_indexes SAIL_PIXEL_FORMAT_BPP64_RGBX = Inr (0, 1, 2, -1)"
| "verify_and_construct_rgba64_indexes SAIL_PIXEL_FORMAT_BPP64_BGRX = Inr (2, 1, 0, -1)"
| "verify_and_construct_rgba64_indexes SAIL_PIXEL_FORMAT_BPP64_XRGB = Inr (1, 2, 3, -1)"
| "verify_and_construct_rgba64_indexes SAIL_PIXEL_FORMAT_BPP64_XBGR = Inr (3, 2, 1, -1)"
| "verify_and_construct_rgba64_indexes SAIL_PIXEL_FORMAT_BPP64_RGBA = Inr (0, 1, 2, 3)"
| "verify_and_construct_rgba64_indexes SAIL_PIXEL_FORMAT_BPP64_BGRA = Inr (2, 1, 0, 3)"
| "verify_and_construct_rgba64_indexes SAIL_PIXEL_FORMAT_BPP64_ARGB = Inr (1, 2, 3, 0)"
| "verify_and_construct_rgba64_indexes SAIL_PIXEL_FORMAT_BPP64_ABGR = Inr (3, 2, 1, 0)"
| "verify_and_construct_rgba64_indexes _ = Inl SAIL_ERROR_UNSUPPORTED_PIXEL_FORMAT"

text \<open>
  \<open>get_palette_rgba64\<close> writes the colour through the pointer \<open>color\<close>; the model
  takes the value the pointer refers to before the call and returns the value after
  it. The \<open>default\<close> branch of the switch logs a message and falls out of the switch
  to \<open>return SAIL_OK\<close>, with \<open>color\<close> untouched.
\<close>

definition get_palette_rgba64 ::
  "store \<Rightarrow> sail_palette \<Rightarrow> 32 word \<Rightarrow> sail_rgba64_t \<Rightarrow> sail_status_t + sail_rgba64_t" where
  "get_palette_rgba64 s pal index color =
     (if index \<ge> color_count pal then Inl SAIL_ERROR_BROKEN_IMAGE
      else case pal_pixel_format pal of
        SAIL_PIXEL_FORMAT_BPP24_RGB \<Rightarrow>
          (let entry = (pal_data pal, unat (index * 3)) in
           Inr (color\<lparr>component1 := times257 (rd8 s (ptr_add8 entry 0)),
                      component2 := times257 (rd8 s (ptr_add8 entry 1)),
                      component3 := times257 (rd8 s (ptr_add8 entry 2)),
                      component4 := 65535\<rparr>))
      | SAIL_PIXEL_FORMAT_BPP32_RGBA \<Rightarrow>
          (let entry = (pal_data pal, unat (index * 4)) in
           Inr (color\<lparr>component1 := times257 (rd8 s (ptr_add8 entry 0)),
                      component2 := times257 (rd8 s (ptr_add8 entry 1)),
                      component3 := times257 (rd8 s (ptr_add8 entry 2)),
                      component4 := times257 (rd8 s (ptr_add8 entry 3))\<rparr>))
      | _ \<Rightarrow> Inr color)"

definition spread_gray8_to_rgba64 :: "8 word \<Rightarrow> sail_rgba64_t \<Rightarrow> sail_rgba64_t" where
  "spread_gray8_to_rgba64 v color =
     color\<lparr>component1 := (ucast v :: 16 word) * 257,
           component2 := (ucast v :: 16 word) * 257,
           component3 := (ucast v :: 16 word) * 257,
           component4 := 65535\<rparr>"

definition spread_gray16_to_rgba64 :: "16 word \<Rightarrow> sail_rgba64_t \<Rightarrow> sail_rgba64_t" where
  "spread_gray16_to_rgba64 v color =
     color\<lparr>component1 := v, component2 := v, component3 := v, component4 := 65535\<rparr>"

definition fill_rgba64_pixel ::
  "store \<Rightarrow> ptr \<Rightarrow> int \<Rightarrow> int \<Rightarrow> int \<Rightarrow> int \<Rightarrow>
   16 word \<Rightarrow> 16 word \<Rightarrow> 16 word \<Rightarrow> 16 word \<Rightarrow> store" where
  "fill_rgba64_pixel s scan r g b a rv gv bv av =
     (let s1 = wr16 s (ptr_add16 scan r) rv;
          s2 = wr16 s1 (ptr_add16 scan g) gv;
          s3 = wr16 s2 (ptr_add16 scan b) bv
      in if a \<ge> 0 then wr16 s3 (ptr_add16 scan a) av else s3)"

text \<open>
  Two functions of the library that several of the sources call and that are not
  among them: the allocator, which returns the block it allocates for a size or
  fails, and the stride of a row from a width and a pixel format.
\<close>

record sail_common =
  sail_malloc :: "nat \<Rightarrow> sail_status_t + nat"
  sail_bytes_per_line :: "32 word \<Rightarrow> SailPixelFormat \<Rightarrow> sail_status_t + 32 word"

text \<open>
  The scan functions take the addresses of the two scan pointers and advance them;
  no caller reads the pointers afterwards, so the model returns the store only.
  \<open>n\<close> is the number of pixels left, \<open>width - pixel_index\<close>.
\<close>

fun fill_rgba64_scan_from_rgb24_kind ::
  "store \<Rightarrow> ptr \<Rightarrow> nat \<Rightarrow> int \<Rightarrow> int \<Rightarrow> int \<Rightarrow> ptr \<Rightarrow> int \<Rightarrow> int \<Rightarrow> int \<Rightarrow> int \<Rightarrow> store" where
  "fill_rgba64_scan_from_rgb24_kind s scan_input 0 ri gi bi scan_output r g b a = s"
| "fill_rgba64_scan_from_rgb24_kind s scan_input (Suc n) ri gi bi scan_output r g b a =
     fill_rgba64_scan_from_rgb24_kind
       (fill_rgba64_pixel s scan_output r g b a
          (times257 (rd8 s (ptr_add8 scan_input ri)))
          (times257 (rd8 s (ptr_add8 scan_input gi)))
          (times257 (rd8 s (ptr_add8 scan_input bi))) 65535)
       (ptr_add8 scan_input 3) n ri gi bi (ptr_add16 scan_output 4) r g b a"

fun fill_rgba64_scan_from_rgba32_kind ::
  "store \<Rightarrow> ptr \<Rightarrow> nat \<Rightarrow> int \<Rightarrow> int \<Rightarrow> int \<Rightarrow> int \<Rightarrow> ptr \<Rightarrow> int \<Rightarrow> int \<Rightarrow> int \<Rightarrow> int \<Rightarrow> store" where
  "fill_rgba64_scan_from_rgba32_kind s scan_input 0 ri gi bi ai scan_output r g b a = s"
| "fill_rgba64_scan_from_rgba32_kind s scan_input (Suc n) ri gi bi ai scan_output r g b a =
     fill_rgba64_scan_from_rgba32_kind
       (fill_rgba64_pixel s scan_output r g b a
          (times257 (rd8 s (ptr_add8 scan_input ri)))
          (times257 (rd8 s (ptr_add8 scan_input gi)))
          (times257 (rd8 s (ptr_add8 scan_input bi)))
          (times257 (rd8 s (ptr_add8 scan_input ai))))
       (ptr_add8 scan_input 4) n ri gi bi ai (ptr_add16 scan_output 4) r g b a"

fun fill_rgba64_scan_from_rgbx32_kind ::
  "store \<Rightarrow> ptr \<Rightarrow> nat \<Rightarrow> int \<Rightarrow> int \<Rightarrow> int \<Rightarrow> ptr \<Rightarrow> int \<Rightarrow> int \<Rightarrow> int \<Rightarrow> int \<Rightarrow> store" where
  "fill_rgba64_scan_from_rgbx32_kind s scan_input 0 ri gi bi scan_output r g b a = s"
| "fill_rgba64_scan_from_rgbx32_kind s scan_input (Suc n) ri gi bi scan_output r g b a =
     fill_rgba64_scan_from_rgbx32_kind
       (fill_rgba64_pixel s scan_output r g b a
          (times257 (rd8 s (ptr_add8 scan_input ri)))
          (times257 (rd8 s (ptr_add8 scan_input gi)))
          (times257 (rd8 s (ptr_add8 scan_input bi))) 65535)
       (ptr_add8 scan_input 4) n ri gi bi (ptr_add16 scan_output 4) r g b a"

fun fill_rgba64_scan_from_rgb48_kind ::
  "store \<Rightarrow> ptr \<Rightarrow> nat \<Rightarrow> int \<Rightarrow> int \<Rightarrow> int \<Rightarrow> ptr \<Rightarrow> int \<Rightarrow> int \<Rightarrow> int \<Rightarrow> int \<Rightarrow> store" where
  "fill_rgba64_scan_from_rgb48_kind s scan_input 0 ri gi bi scan_output r g b a = s"
| "fill_rgba64_scan_from_rgb48_kind s scan_input (Suc n) ri gi bi scan_output r g b a =
     fill_rgba64_scan_from_rgb48_kind
       (fill_rgba64_pixel s scan_output r g b a
          (times257 (rd16 s (ptr_add16 scan_input ri)))
          (times257 (rd16 s (ptr_add16 scan_input gi)))
          (times257 (rd16 s (ptr_add16 scan_input bi))) 65535)
       (ptr_add16 scan_input 3) n ri gi bi (ptr_add16 scan_output 4) r g b a"

fun fill_rgba64_scan_from_rgba64_kind ::
  "store \<Rightarrow> ptr \<Rightarrow> nat \<Rightarrow> int \<Rightarrow> int \<Rightarrow> int \<Rightarrow> int \<Rightarrow> ptr \<Rightarrow> int \<Rightarrow> int \<Rightarrow> int \<Rightarrow> int \<Rightarrow> store" where
  "fill_rgba64_scan_from_rgba64_kind s scan_input 0 ri gi bi ai scan_output r g b a = s"
| "fill_rgba64_scan_from_rgba64_kind s scan_input (Suc n) ri gi bi ai scan_output r g b a =
     fill_rgba64_scan_from_rgba64_kind
       (fill_rgba64_pixel s scan_output r g b a
          (rd16 s (ptr_add16 scan_input ri))
          (rd16 s (ptr_add16 scan_input gi))
          (rd16 s (ptr_add16 scan_input bi))
          (rd16 s (ptr_add16 scan_input ai)))
       (ptr_add16 scan_input 4) n ri gi bi ai (ptr_add16 scan_output 4) r g b a"

fun fill_rgba64_scan_from_rgbx64_kind ::
  "store \<Rightarrow> ptr \<Rightarrow> nat \<Rightarrow> int \<Rightarrow> int \<Rightarrow> int \<Rightarrow> ptr \<Rightarrow> int \<Rightarrow> int \<Rightarrow> int \<Rightarrow> int \<Rightarrow> store" where
  "fill_rgba64_scan_from_rgbx64_kind s scan_input 0 ri gi bi scan_output r g b a = s"
| "fill_rgba64_scan_from_rgbx64_kind s scan_input (Suc n) ri gi bi scan_output r g b a =
     fill_rgba64_scan_from_rgbx64_kind
       (fill_rgba64_pixel s scan_output r g b a
          (rd16 s (ptr_add16 scan_input ri))
          (rd16 s (ptr_add16 scan_input gi))
          (rd16 s (ptr_add16 scan_input bi)) 65535)
       (ptr_add16 scan_input 4) n ri gi bi (ptr_add16 scan_output 4) r g b a"

subsection \<open>The loops of to_bpp64_rgba_kind\<close>

text \<open>
  A function that writes to the store and can fail returns, on failure, the status
  with the store as the writes before the failure have left it.
\<close>

type_synonym 'a result = "(sail_status_t \<times> store) + 'a"

text \<open>
  The call \<open>fill_rgba64_pixel(scan_output, r, g, b, a, rgba.component1,
  rgba.component2, rgba.component3, rgba.component4)\<close>.
\<close>

definition fill_rgba64_pixel_rgba ::
  "store \<Rightarrow> ptr \<Rightarrow> int \<Rightarrow> int \<Rightarrow> int \<Rightarrow> int \<Rightarrow> sail_rgba64_t \<Rightarrow> store" where
  "fill_rgba64_pixel_rgba s scan_output r g b a rgba =
     fill_rgba64_pixel s scan_output r g b a
       (component1 rgba) (component2 rgba) (component3 rgba) (component4 rgba)"

text \<open>
  The branches for 1, 2 and 4 bits per pixel are three copies of one nest of loops,
  which differ in the first shift and mask, in the step of the shift and in the
  factor that spreads a grayscale sample: \<open>index == 0 ? 0 : 255\<close>, \<open>index * 85\<close>,
  \<open>index * 17\<close>, each converted to uint8_t.
\<close>

datatype packed_depth = PACKED_BPP1 | PACKED_BPP2 | PACKED_BPP4

fun first_bit_shift :: "packed_depth \<Rightarrow> 32 word" where
  "first_bit_shift PACKED_BPP1 = 7"
| "first_bit_shift PACKED_BPP2 = 6"
| "first_bit_shift PACKED_BPP4 = 4"

fun first_bit_mask :: "packed_depth \<Rightarrow> 32 word" where
  "first_bit_mask PACKED_BPP1 = push_bit 7 1"
| "first_bit_mask PACKED_BPP2 = push_bit 6 3"
| "first_bit_mask PACKED_BPP4 = push_bit 4 15"

fun bit_step :: "packed_depth \<Rightarrow> nat" where
  "bit_step PACKED_BPP1 = 1"
| "bit_step PACKED_BPP2 = 2"
| "bit_step PACKED_BPP4 = 4"

fun spread_sample :: "packed_depth \<Rightarrow> 8 word \<Rightarrow> 8 word" where
  "spread_sample PACKED_BPP1 index = (if index = 0 then 0 else 255)"
| "spread_sample PACKED_BPP2 index = ucast ((ucast index :: 32 word) * 85)"
| "spread_sample PACKED_BPP4 index = ucast ((ucast index :: 32 word) * 17)"

text \<open>The sample \<open>(byte & bit_mask) >> bit_shift\<close>, converted to uint8_t.\<close>

definition sample_index :: "8 word \<Rightarrow> 32 word \<Rightarrow> 32 word \<Rightarrow> 8 word" where
  "sample_index byte bit_mask bit_shift =
     ucast (drop_bit (unat bit_shift) ((ucast byte :: 32 word) AND bit_mask))"

text \<open>
  The palette of the image is dereferenced by get_palette_rgba64; a null palette
  crashes there.
\<close>

definition resolve_index ::
  "store \<Rightarrow> sail_palette option \<Rightarrow> 8 word \<Rightarrow> sail_rgba64_t \<Rightarrow> sail_status_t + sail_rgba64_t" where
  "resolve_index s pal index rgba =
     (case pal of
        None \<Rightarrow> Inl NULL_POINTER_DEREFERENCE
      | Some p \<Rightarrow> get_palette_rgba64 s p (ucast index) rgba)"

text \<open>
  The colour of a packed sample: resolved through the palette for an indexed format,
  spread for a grayscale format.
\<close>

definition sample_colour ::
  "packed_depth \<Rightarrow> bool \<Rightarrow> sail_palette option \<Rightarrow> store \<Rightarrow> 8 word \<Rightarrow> sail_rgba64_t \<Rightarrow>
   sail_status_t + sail_rgba64_t" where
  "sample_colour d indexed pal s index rgba =
     (if indexed then resolve_index s pal index rgba
      else Inr (spread_gray8_to_rgba64 (spread_sample d index) rgba))"

text \<open>
  The inner loop \<open>while (bit_mask > 0 && pixel_index < width)\<close> over the samples of
  one byte. It returns the store, the colour, the output pointer and the pixel index
  it has advanced.
\<close>

function unpack_byte ::
  "packed_depth \<Rightarrow> bool \<Rightarrow> sail_palette option \<Rightarrow> nat \<Rightarrow> int \<Rightarrow> int \<Rightarrow> int \<Rightarrow> int \<Rightarrow> 8 word \<Rightarrow>
   32 word \<Rightarrow> 32 word \<Rightarrow> nat \<Rightarrow> ptr \<Rightarrow> sail_rgba64_t \<Rightarrow> store \<Rightarrow>
   (store \<times> sail_rgba64_t \<times> ptr \<times> nat) result" where
  "unpack_byte d indexed pal w r g b a byte bit_shift bit_mask pixel_index scan_output rgba s =
     (if bit_mask > 0 \<and> pixel_index < w then
        (case sample_colour d indexed pal s (sample_index byte bit_mask bit_shift) rgba of
           Inl e \<Rightarrow> Inl (e, s)
         | Inr rgba' \<Rightarrow>
              unpack_byte d indexed pal w r g b a byte
                (bit_shift - of_nat (bit_step d)) (drop_bit (bit_step d) bit_mask) (pixel_index + 1)
                (ptr_add16 scan_output 4) rgba'
                (fill_rgba64_pixel_rgba s scan_output r g b a rgba'))
      else Inr (s, rgba, scan_output, pixel_index))"
  by pat_completeness auto
termination
  by (relation "measure (\<lambda>(d, indexed, pal, w, r, g, b, a, byte, bit_shift, bit_mask, pixel_index, rest).
        w - pixel_index)") auto

declare unpack_byte.simps [simp del]

lemma unpack_byte_pixel_index:
  "unpack_byte d indexed pal w r g b a byte bit_shift bit_mask pixel_index scan_output rgba s
     = Inr (s', rgba', scan_output', pixel_index') \<Longrightarrow> pixel_index \<le> pixel_index'"
proof (induction d indexed pal w r g b a byte bit_shift bit_mask pixel_index scan_output rgba s
    rule: unpack_byte.induct)
  case (1 d indexed pal w r g b a byte bit_shift bit_mask pixel_index scan_output rgba s)
  show ?case
  proof (cases "bit_mask > 0 \<and> pixel_index < w")
    case False
    with "1.prems" show ?thesis by (simp add: unpack_byte.simps)
  next
    case True
    show ?thesis
    proof (cases "sample_colour d indexed pal s (sample_index byte bit_mask bit_shift) rgba")
      case (Inl e)
      with "1.prems" True show ?thesis by (simp add: unpack_byte.simps)
    next
      case (Inr c)
      from "1.prems" True Inr
      have "unpack_byte d indexed pal w r g b a byte
                (bit_shift - of_nat (bit_step d)) (drop_bit (bit_step d) bit_mask) (pixel_index + 1)
                (ptr_add16 scan_output 4) c
                (fill_rgba64_pixel_rgba s scan_output r g b a c)
            = Inr (s', rgba', scan_output', pixel_index')"
        by (simp add: unpack_byte.simps [of _ _ _ _ _ _ _ _ _ bit_shift bit_mask pixel_index])
      from "1.IH" [OF True Inr this]
      show ?thesis by simp
    qed
  qed
qed

text \<open>
  The outer loop \<open>for (pixel_index = 0; pixel_index < width;)\<close>, which reads one
  byte and runs the inner loop on it.
\<close>

function unpack_scan ::
  "packed_depth \<Rightarrow> bool \<Rightarrow> sail_palette option \<Rightarrow> nat \<Rightarrow> int \<Rightarrow> int \<Rightarrow> int \<Rightarrow> int \<Rightarrow>
   ptr \<Rightarrow> nat \<Rightarrow> ptr \<Rightarrow> sail_rgba64_t \<Rightarrow> store \<Rightarrow> (store \<times> sail_rgba64_t) result" where
  "unpack_scan d indexed pal w r g b a scan_input pixel_index scan_output rgba s =
     (if pixel_index < w then
        (case unpack_byte d indexed pal w r g b a (rd8 s scan_input)
                (first_bit_shift d) (first_bit_mask d) pixel_index scan_output rgba s of
           Inl e \<Rightarrow> Inl e
         | Inr (s', rgba', scan_output', pixel_index') \<Rightarrow>
             unpack_scan d indexed pal w r g b a (ptr_add8 scan_input 1) pixel_index' scan_output' rgba' s')
      else Inr (s, rgba))"
  by pat_completeness auto
termination
proof (relation "measure (\<lambda>(d, indexed, pal, w, r, g, b, a, scan_input, pixel_index, rest). w - pixel_index)")
  show "wf (measure (\<lambda>(d, indexed, pal, w, r, g, b, a, scan_input, pixel_index, rest). w - pixel_index))"
    by simp
next
  fix d :: packed_depth and indexed pal w r g b a scan_input pixel_index scan_output rgba and s :: store
    and x2 s' y rgba' ya scan_output' pixel_index'
  assume lt: "pixel_index < w"
    and res: "unpack_byte d indexed pal w r g b a (rd8 s scan_input) (first_bit_shift d) (first_bit_mask d)
        pixel_index scan_output rgba s = Inr x2"
    and x2: "(s', y) = x2" "(rgba', ya) = y" "(scan_output', pixel_index') = ya"
  have mask: "first_bit_mask d > 0" by (cases d) simp_all
  from res x2 have res': "unpack_byte d indexed pal w r g b a (rd8 s scan_input) (first_bit_shift d)
        (first_bit_mask d) pixel_index scan_output rgba s = Inr (s', rgba', scan_output', pixel_index')"
    by simp
  have "pixel_index + 1 \<le> pixel_index'"
  proof (cases "sample_colour d indexed pal s
                  (sample_index (rd8 s scan_input) (first_bit_mask d) (first_bit_shift d)) rgba")
    case (Inl e)
    with res' lt mask show ?thesis
      by (simp add: unpack_byte.simps [of _ _ _ _ _ _ _ _ _ "first_bit_shift d" "first_bit_mask d" pixel_index])
  next
    case (Inr c)
    with res' lt mask
    have "unpack_byte d indexed pal w r g b a (rd8 s scan_input)
            (first_bit_shift d - of_nat (bit_step d)) (drop_bit (bit_step d) (first_bit_mask d))
            (pixel_index + 1) (ptr_add16 scan_output 4) c
            (fill_rgba64_pixel_rgba s scan_output r g b a c)
          = Inr (s', rgba', scan_output', pixel_index')"
      by (simp add: unpack_byte.simps [of _ _ _ _ _ _ _ _ _ "first_bit_shift d" "first_bit_mask d" pixel_index])
    then show ?thesis by (rule unpack_byte_pixel_index)
  qed
  with lt show "((d, indexed, pal, w, r, g, b, a, ptr_add8 scan_input 1, pixel_index', scan_output', rgba', s'),
          (d, indexed, pal, w, r, g, b, a, scan_input, pixel_index, scan_output, rgba, s))
        \<in> measure (\<lambda>(d, indexed, pal, w, r, g, b, a, scan_input, pixel_index, rest). w - pixel_index)"
    by simp
qed

declare unpack_scan.simps [simp del]

text \<open>
  The loops of the branches that read one sample, or one packed pixel, per step.
  \<open>n\<close> is the number of pixels left in the row.
\<close>

fun scan_bpp8 ::
  "bool \<Rightarrow> sail_palette option \<Rightarrow> int \<Rightarrow> int \<Rightarrow> int \<Rightarrow> int \<Rightarrow>
   ptr \<Rightarrow> nat \<Rightarrow> ptr \<Rightarrow> sail_rgba64_t \<Rightarrow> store \<Rightarrow> (store \<times> sail_rgba64_t) result" where
  "scan_bpp8 indexed pal r g b a scan_input 0 scan_output rgba s = Inr (s, rgba)"
| "scan_bpp8 indexed pal r g b a scan_input (Suc n) scan_output rgba s =
     (case (if indexed then resolve_index s pal (rd8 s scan_input) rgba
            else Inr (spread_gray8_to_rgba64 (rd8 s scan_input) rgba)) of
        Inl e \<Rightarrow> Inl (e, s)
      | Inr rgba' \<Rightarrow>
          scan_bpp8 indexed pal r g b a (ptr_add8 scan_input 1) n (ptr_add16 scan_output 4) rgba'
            (fill_rgba64_pixel_rgba s scan_output r g b a rgba'))"

fun scan_gray16 ::
  "int \<Rightarrow> int \<Rightarrow> int \<Rightarrow> int \<Rightarrow> ptr \<Rightarrow> nat \<Rightarrow> ptr \<Rightarrow> sail_rgba64_t \<Rightarrow> store \<Rightarrow> store \<times> sail_rgba64_t" where
  "scan_gray16 r g b a scan_input 0 scan_output rgba s = (s, rgba)"
| "scan_gray16 r g b a scan_input (Suc n) scan_output rgba s =
     (let rgba' = spread_gray16_to_rgba64 (rd16 s scan_input) rgba in
      scan_gray16 r g b a (ptr_add16 scan_input 1) n (ptr_add16 scan_output 4) rgba'
        (fill_rgba64_pixel_rgba s scan_output r g b a rgba'))"

fun scan_gray8_alpha ::
  "int \<Rightarrow> int \<Rightarrow> int \<Rightarrow> int \<Rightarrow> ptr \<Rightarrow> nat \<Rightarrow> ptr \<Rightarrow> sail_rgba64_t \<Rightarrow> store \<Rightarrow> store \<times> sail_rgba64_t" where
  "scan_gray8_alpha r g b a scan_input 0 scan_output rgba s = (s, rgba)"
| "scan_gray8_alpha r g b a scan_input (Suc n) scan_output rgba s =
     (let rgba' = (spread_gray8_to_rgba64 (rd8 s scan_input) rgba)
                    \<lparr>component4 := times257 (rd8 s (ptr_add8 scan_input 1))\<rparr> in
      scan_gray8_alpha r g b a (ptr_add8 scan_input 2) n (ptr_add16 scan_output 4) rgba'
        (fill_rgba64_pixel_rgba s scan_output r g b a rgba'))"

fun scan_gray16_alpha ::
  "int \<Rightarrow> int \<Rightarrow> int \<Rightarrow> int \<Rightarrow> ptr \<Rightarrow> nat \<Rightarrow> ptr \<Rightarrow> sail_rgba64_t \<Rightarrow> store \<Rightarrow> store \<times> sail_rgba64_t" where
  "scan_gray16_alpha r g b a scan_input 0 scan_output rgba s = (s, rgba)"
| "scan_gray16_alpha r g b a scan_input (Suc n) scan_output rgba s =
     (let rgba' = (spread_gray16_to_rgba64 (rd16 s scan_input) rgba)
                    \<lparr>component4 := rd16 s (ptr_add16 scan_input 1)\<rparr> in
      scan_gray16_alpha r g b a (ptr_add16 scan_input 2) n (ptr_add16 scan_output 4) rgba'
        (fill_rgba64_pixel_rgba s scan_output r g b a rgba'))"

text \<open>
  The channel \<open>(((*scan_input >> k) & 0x1f) << 3) * 257\<close> of a packed 555 pixel,
  computed in int and converted to uint16_t.
\<close>

definition channel555 :: "16 word \<Rightarrow> nat \<Rightarrow> 16 word" where
  "channel555 v k = ucast (push_bit 3 (drop_bit k (ucast v :: 32 word) AND 0x1f) * 257)"

fun scan_rgb555 ::
  "int \<Rightarrow> int \<Rightarrow> int \<Rightarrow> int \<Rightarrow> ptr \<Rightarrow> nat \<Rightarrow> ptr \<Rightarrow> store \<Rightarrow> store" where
  "scan_rgb555 r g b a scan_input 0 scan_output s = s"
| "scan_rgb555 r g b a scan_input (Suc n) scan_output s =
     scan_rgb555 r g b a (ptr_add16 scan_input 1) n (ptr_add16 scan_output 4)
       (fill_rgba64_pixel s scan_output r g b a
          (channel555 (rd16 s scan_input) 0) (channel555 (rd16 s scan_input) 5)
          (channel555 (rd16 s scan_input) 10) 65535)"

fun scan_bgr555 ::
  "int \<Rightarrow> int \<Rightarrow> int \<Rightarrow> int \<Rightarrow> ptr \<Rightarrow> nat \<Rightarrow> ptr \<Rightarrow> store \<Rightarrow> store" where
  "scan_bgr555 r g b a scan_input 0 scan_output s = s"
| "scan_bgr555 r g b a scan_input (Suc n) scan_output s =
     scan_bgr555 r g b a (ptr_add16 scan_input 1) n (ptr_add16 scan_output 4)
       (fill_rgba64_pixel s scan_output r g b a
          (channel555 (rd16 s scan_input) 10) (channel555 (rd16 s scan_input) 5)
          (channel555 (rd16 s scan_input) 0) 65535)"

text \<open>
  The functions of the library that convert_to_64.c calls and that are not among the
  sources are parameters of the model: the two colour-space collaborators, which
  return the red, green and blue bytes, the validity check of an image, the copy of
  an image without its pixels, and the two functions of the record above.
\<close>

record manip_env = sail_common +
  convert_cmyk32_to_rgb24 :: "8 word \<Rightarrow> 8 word \<Rightarrow> 8 word \<Rightarrow> 8 word \<Rightarrow> 8 word \<times> 8 word \<times> 8 word"
  convert_ycbcr_to_rgb :: "8 word \<Rightarrow> 8 word \<Rightarrow> 8 word \<Rightarrow> 8 word \<times> 8 word \<times> 8 word"
  sail_check_image_valid :: "sail_image \<Rightarrow> sail_status_t + unit"
  sail_copy_image_skeleton :: "sail_image \<Rightarrow> sail_status_t + sail_image"

fun scan_cmyk32 ::
  "manip_env \<Rightarrow> int \<Rightarrow> int \<Rightarrow> int \<Rightarrow> int \<Rightarrow> ptr \<Rightarrow> nat \<Rightarrow> ptr \<Rightarrow> store \<Rightarrow> store" where
  "scan_cmyk32 env r g b a scan_input 0 scan_output s = s"
| "scan_cmyk32 env r g b a scan_input (Suc n) scan_output s =
     (case convert_cmyk32_to_rgb24 env (rd8 s (ptr_add8 scan_input 0)) (rd8 s (ptr_add8 scan_input 1))
             (rd8 s (ptr_add8 scan_input 2)) (rd8 s (ptr_add8 scan_input 3)) of
        (rv, gv, bv) \<Rightarrow>
          scan_cmyk32 env r g b a (ptr_add8 scan_input 4) n (ptr_add16 scan_output 4)
            (fill_rgba64_pixel s scan_output r g b a (times257 rv) (times257 gv) (times257 bv) 65535))"

fun scan_ycbcr24 ::
  "manip_env \<Rightarrow> int \<Rightarrow> int \<Rightarrow> int \<Rightarrow> int \<Rightarrow> ptr \<Rightarrow> nat \<Rightarrow> ptr \<Rightarrow> store \<Rightarrow> store" where
  "scan_ycbcr24 env r g b a scan_input 0 scan_output s = s"
| "scan_ycbcr24 env r g b a scan_input (Suc n) scan_output s =
     (case convert_ycbcr_to_rgb env (rd8 s (ptr_add8 scan_input 0)) (rd8 s (ptr_add8 scan_input 1))
             (rd8 s (ptr_add8 scan_input 2)) of
        (rv, gv, bv) \<Rightarrow>
          scan_ycbcr24 env r g b a (ptr_add8 scan_input 3) n (ptr_add16 scan_output 4)
            (fill_rgba64_pixel s scan_output r g b a (times257 rv) (times257 gv) (times257 bv) 65535))"

subsection \<open>to_bpp64_rgba_kind and the entry points\<close>

text \<open>
  The body of the loop over the rows: the two scan pointers of the row and the switch
  on the pixel format of the input. The local variable \<open>rgba\<close> of the function
  lives across the rows; it is passed in and returned.
\<close>

definition to_bpp64_rgba_kind_row ::
  "manip_env \<Rightarrow> sail_image \<Rightarrow> int \<Rightarrow> int \<Rightarrow> int \<Rightarrow> int \<Rightarrow> sail_image \<Rightarrow> 32 word \<Rightarrow>
   sail_rgba64_t \<Rightarrow> store \<Rightarrow> (store \<times> sail_rgba64_t) result" where
  "to_bpp64_rgba_kind_row env image_input r g b a image_output row rgba s =
     (let scan_output = (pixels image_output, unat (bytes_per_line image_output * row));
          scan_input = (pixels image_input, unat (bytes_per_line image_input * row));
          w = unat (width image_input);
          pal = palette image_input
      in case pixel_format image_input of
        SAIL_PIXEL_FORMAT_BPP1_INDEXED \<Rightarrow>
          unpack_scan PACKED_BPP1 True pal w r g b a scan_input 0 scan_output rgba s
      | SAIL_PIXEL_FORMAT_BPP1_GRAYSCALE \<Rightarrow>
          unpack_scan PACKED_BPP1 False pal w r g b a scan_input 0 scan_output rgba s
      | SAIL_PIXEL_FORMAT_BPP2_INDEXED \<Rightarrow>
          unpack_scan PACKED_BPP2 True pal w r g b a scan_input 0 scan_output rgba s
      | SAIL_PIXEL_FORMAT_BPP2_GRAYSCALE \<Rightarrow>
          unpack_scan PACKED_BPP2 False pal w r g b a scan_input 0 scan_output rgba s
      | SAIL_PIXEL_FORMAT_BPP4_INDEXED \<Rightarrow>
          unpack_scan PACKED_BPP4 True pal w r g b a scan_input 0 scan_output rgba s
      | SAIL_PIXEL_FORMAT_BPP4_GRAYSCALE \<Rightarrow>
          unpack_scan PACKED_BPP4 False pal w r g b a scan_input 0 scan_output rgba s
      | SAIL_PIXEL_FORMAT_BPP8_INDEXED \<Rightarrow>
          scan_bpp8 True pal r g b a scan_input w scan_output rgba s
      | SAIL_PIXEL_FORMAT_BPP8_GRAYSCALE \<Rightarrow>
          scan_bpp8 False pal r g b a scan_input w scan_output rgba s
      | SAIL_PIXEL_FORMAT_BPP16_GRAYSCALE \<Rightarrow>
          Inr (scan_gray16 r g b a scan_input w scan_output rgba s)
      | SAIL_PIXEL_FORMAT_BPP16_GRAYSCALE_ALPHA \<Rightarrow>
          Inr (scan_gray8_alpha r g b a scan_input w scan_output rgba s)
      | SAIL_PIXEL_FORMAT_BPP32_GRAYSCALE_ALPHA \<Rightarrow>
          Inr (scan_gray16_alpha r g b a scan_input w scan_output rgba s)
      | SAIL_PIXEL_FORMAT_BPP16_RGB555 \<Rightarrow>
          Inr (scan_rgb555 r g b a scan_input w scan_output s, rgba)
      | SAIL_PIXEL_FORMAT_BPP16_BGR555 \<Rightarrow>
          Inr (scan_bgr555 r g b a scan_input w scan_output s, rgba)
      | SAIL_PIXEL_FORMAT_BPP24_RGB \<Rightarrow>
          Inr (fill_rgba64_scan_from_rgb24_kind s scan_input w 0 1 2 scan_output r g b a, rgba)
      | SAIL_PIXEL_FORMAT_BPP24_BGR \<Rightarrow>
          Inr (fill_rgba64_scan_from_rgb24_kind s scan_input w 2 1 0 scan_output r g b a, rgba)
      | SAIL_PIXEL_FORMAT_BPP48_RGB \<Rightarrow>
          Inr (fill_rgba64_scan_from_rgb48_kind s scan_input w 0 1 2 scan_output r g b a, rgba)
      | SAIL_PIXEL_FORMAT_BPP48_BGR \<Rightarrow>
          Inr (fill_rgba64_scan_from_rgb48_kind s scan_input w 2 1 0 scan_output r g b a, rgba)
      | SAIL_PIXEL_FORMAT_BPP32_RGBX \<Rightarrow>
          Inr (fill_rgba64_scan_from_rgbx32_kind s scan_input w 0 1 2 scan_output r g b a, rgba)
      | SAIL_PIXEL_FORMAT_BPP32_BGRX \<Rightarrow>
          Inr (fill_rgba64_scan_from_rgbx32_kind s scan_input w 2 1 0 scan_output r g b a, rgba)
      | SAIL_PIXEL_FORMAT_BPP32_XRGB \<Rightarrow>
          Inr (fill_rgba64_scan_from_rgbx32_kind s scan_input w 1 2 3 scan_output r g b a, rgba)
      | SAIL_PIXEL_FORMAT_BPP32_XBGR \<Rightarrow>
          Inr (fill_rgba64_scan_from_rgbx32_kind s scan_input w 3 2 1 scan_output r g b a, rgba)
      | SAIL_PIXEL_FORMAT_BPP32_RGBA \<Rightarrow>
          Inr (fill_rgba64_scan_from_rgba32_kind s scan_input w 0 1 2 3 scan_output r g b a, rgba)
      | SAIL_PIXEL_FORMAT_BPP32_BGRA \<Rightarrow>
          Inr (fill_rgba64_scan_from_rgba32_kind s scan_input w 2 1 0 3 scan_output r g b a, rgba)
      | SAIL_PIXEL_FORMAT_BPP32_ARGB \<Rightarrow>
          Inr (fill_rgba64_scan_from_rgba32_kind s scan_input w 1 2 3 0 scan_output r g b a, rgba)
      | SAIL_PIXEL_FORMAT_BPP32_ABGR \<Rightarrow>
          Inr (fill_rgba64_scan_from_rgba32_kind s scan_input w 3 2 1 0 scan_output r g b a, rgba)
      | SAIL_PIXEL_FORMAT_BPP64_RGBX \<Rightarrow>
          Inr (fill_rgba64_scan_from_rgbx64_kind s scan_input w 0 1 2 scan_output r g b a, rgba)
      | SAIL_PIXEL_FORMAT_BPP64_BGRX \<Rightarrow>
          Inr (fill_rgba64_scan_from_rgbx64_kind s scan_input w 2 1 0 scan_output r g b a, rgba)
      | SAIL_PIXEL_FORMAT_BPP64_XRGB \<Rightarrow>
          Inr (fill_rgba64_scan_from_rgbx64_kind s scan_input w 1 2 3 scan_output r g b a, rgba)
      | SAIL_PIXEL_FORMAT_BPP64_XBGR \<Rightarrow>
          Inr (fill_rgba64_scan_from_rgbx64_kind s scan_input w 3 2 1 scan_output r g b a, rgba)
      | SAIL_PIXEL_FORMAT_BPP64_RGBA \<Rightarrow>
          Inr (fill_rgba64_scan_from_rgba64_kind s scan_input w 0 1 2 3 scan_output r g b a, rgba)
      | SAIL_PIXEL_FORMAT_BPP64_BGRA \<Rightarrow>
          Inr (fill_rgba64_scan_from_rgba64_kind s scan_input w 2 1 0 3 scan_output r g b a, rgba)
      | SAIL_PIXEL_FORMAT_BPP64_ARGB \<Rightarrow>
          Inr (fill_rgba64_scan_from_rgba64_kind s scan_input w 1 2 3 0 scan_output r g b a, rgba)
      | SAIL_PIXEL_FORMAT_BPP64_ABGR \<Rightarrow>
          Inr (fill_rgba64_scan_from_rgba64_kind s scan_input w 3 2 1 0 scan_output r g b a, rgba)
      | SAIL_PIXEL_FORMAT_BPP32_CMYK \<Rightarrow>
          Inr (scan_cmyk32 env r g b a scan_input w scan_output s, rgba)
      | SAIL_PIXEL_FORMAT_BPP24_YCBCR \<Rightarrow>
          Inr (scan_ycbcr24 env r g b a scan_input w scan_output s, rgba)
      | _ \<Rightarrow> Inl (SAIL_ERROR_UNSUPPORTED_PIXEL_FORMAT, s))"

text \<open>The loop over the rows: \<open>n\<close> rows are left, \<open>row\<close> is the loop variable.\<close>

fun to_bpp64_rgba_kind_rows ::
  "manip_env \<Rightarrow> sail_image \<Rightarrow> int \<Rightarrow> int \<Rightarrow> int \<Rightarrow> int \<Rightarrow> sail_image \<Rightarrow> nat \<Rightarrow> 32 word \<Rightarrow>
   sail_rgba64_t \<Rightarrow> store \<Rightarrow> (store \<times> sail_rgba64_t) result" where
  "to_bpp64_rgba_kind_rows env image_input r g b a image_output 0 row rgba s = Inr (s, rgba)"
| "to_bpp64_rgba_kind_rows env image_input r g b a image_output (Suc n) row rgba s =
     (case to_bpp64_rgba_kind_row env image_input r g b a image_output row rgba s of
        Inl e \<Rightarrow> Inl e
      | Inr (s', rgba') \<Rightarrow>
          to_bpp64_rgba_kind_rows env image_input r g b a image_output n (row + 1) rgba' s')"

text \<open>
  \<open>to_bpp64_rgba_kind\<close>. The local variable \<open>rgba\<close> is not initialised: its first
  value is the parameter \<open>rgba\<close>.
\<close>

definition to_bpp64_rgba_kind ::
  "manip_env \<Rightarrow> sail_image \<Rightarrow> int \<Rightarrow> int \<Rightarrow> int \<Rightarrow> int \<Rightarrow> sail_image \<Rightarrow>
   sail_rgba64_t \<Rightarrow> store \<Rightarrow> store result" where
  "to_bpp64_rgba_kind env image_input r g b a image_output rgba s =
     (case to_bpp64_rgba_kind_rows env image_input r g b a image_output
             (unat (height image_input)) 0 rgba s of
        Inl e \<Rightarrow> Inl e
      | Inr (s', _) \<Rightarrow> Inr s')"

text \<open>
  Modelled from the spec: sail_bits_per_pixel and sail_greater_equal_bits_per_pixel
  are functions of the library that are not among the sources. The specification
  describes the check of the in-place conversion as a comparison of the bits per
  pixel of the two formats; the bits per pixel of a format are the number in its
  name, and a format without a size is a failure.
\<close>

fun sail_bits_per_pixel :: "SailPixelFormat \<Rightarrow> sail_status_t + 32 word" where
  "sail_bits_per_pixel SAIL_PIXEL_FORMAT_UNKNOWN = Inl SAIL_ERROR_UNSUPPORTED_PIXEL_FORMAT"
| "sail_bits_per_pixel SAIL_PIXEL_FORMAT_BPP1_INDEXED = Inr 1"
| "sail_bits_per_pixel SAIL_PIXEL_FORMAT_BPP2_INDEXED = Inr 2"
| "sail_bits_per_pixel SAIL_PIXEL_FORMAT_BPP4_INDEXED = Inr 4"
| "sail_bits_per_pixel SAIL_PIXEL_FORMAT_BPP8_INDEXED = Inr 8"
| "sail_bits_per_pixel SAIL_PIXEL_FORMAT_BPP1_GRAYSCALE = Inr 1"
| "sail_bits_per_pixel SAIL_PIXEL_FORMAT_BPP2_GRAYSCALE = Inr 2"
| "sail_bits_per_pixel SAIL_PIXEL_FORMAT_BPP4_GRAYSCALE = Inr 4"
| "sail_bits_per_pixel SAIL_PIXEL_FORMAT_BPP8_GRAYSCALE = Inr 8"
| "sail_bits_per_pixel SAIL_PIXEL_FORMAT_BPP16_GRAYSCALE = Inr 16"
| "sail_bits_per_pixel SAIL_PIXEL_FORMAT_BPP16_GRAYSCALE_ALPHA = Inr 16"
| "sail_bits_per_pixel SAIL_PIXEL_FORMAT_BPP32_GRAYSCALE_ALPHA = Inr 32"
| "sail_bits_per_pixel SAIL_PIXEL_FORMAT_BPP16_RGB555 = Inr 16"
| "sail_bits_per_pixel SAIL_PIXEL_FORMAT_BPP16_BGR555 = Inr 16"
| "sail_bits_per_pixel SAIL_PIXEL_FORMAT_BPP24_RGB = Inr 24"
| "sail_bits_per_pixel SAIL_PIXEL_FORMAT_BPP24_BGR = Inr 24"
| "sail_bits_per_pixel SAIL_PIXEL_FORMAT_BPP48_RGB = Inr 48"
| "sail_bits_per_pixel SAIL_PIXEL_FORMAT_BPP48_BGR = Inr 48"
| "sail_bits_per_pixel SAIL_PIXEL_FORMAT_BPP16_RGBA = Inr 16"
| "sail_bits_per_pixel SAIL_PIXEL_FORMAT_BPP32_RGBX = Inr 32"
| "sail_bits_per_pixel SAIL_PIXEL_FORMAT_BPP32_BGRX = Inr 32"
| "sail_bits_per_pixel SAIL_PIXEL_FORMAT_BPP32_XRGB = Inr 32"
| "sail_bits_per_pixel SAIL_PIXEL_FORMAT_BPP32_XBGR = Inr 32"
| "sail_bits_per_pixel SAIL_PIXEL_FORMAT_BPP32_RGBA = Inr 32"
| "sail_bits_per_pixel SAIL_PIXEL_FORMAT_BPP32_BGRA = Inr 32"
| "sail_bits_per_pixel SAIL_PIXEL_FORMAT_BPP32_ARGB = Inr 32"
| "sail_bits_per_pixel SAIL_PIXEL_FORMAT_BPP32_ABGR = Inr 32"
| "sail_bits_per_pixel SAIL_PIXEL_FORMAT_BPP64_RGBX = Inr 64"
| "sail_bits_per_pixel SAIL_PIXEL_FORMAT_BPP64_BGRX = Inr 64"
| "sail_bits_per_pixel SAIL_PIXEL_FORMAT_BPP64_XRGB = Inr 64"
| "sail_bits_per_pixel SAIL_PIXEL_FORMAT_BPP64_XBGR = Inr 64"
| "sail_bits_per_pixel SAIL_PIXEL_FORMAT_BPP64_RGBA = Inr 64"
| "sail_bits_per_pixel SAIL_PIXEL_FORMAT_BPP64_BGRA = Inr 64"
| "sail_bits_per_pixel SAIL_PIXEL_FORMAT_BPP64_ARGB = Inr 64"
| "sail_bits_per_pixel SAIL_PIXEL_FORMAT_BPP64_ABGR = Inr 64"
| "sail_bits_per_pixel SAIL_PIXEL_FORMAT_BPP32_CMYK = Inr 32"
| "sail_bits_per_pixel SAIL_PIXEL_FORMAT_BPP24_YCBCR = Inr 24"

definition sail_greater_equal_bits_per_pixel ::
  "SailPixelFormat \<Rightarrow> SailPixelFormat \<Rightarrow> sail_status_t + bool" where
  "sail_greater_equal_bits_per_pixel pixel_format1 pixel_format2 =
     (case sail_bits_per_pixel pixel_format1 of
        Inl e \<Rightarrow> Inl e
      | Inr bits1 \<Rightarrow>
         (case sail_bits_per_pixel pixel_format2 of
            Inl e \<Rightarrow> Inl e
          | Inr bits2 \<Rightarrow> Inr (bits1 \<ge> bits2)))"

text \<open>
  The allocating entry point. A null \<open>image_output\<close> argument is \<open>False\<close>. On
  success it returns the store with the new image; on a failure the new image is
  destroyed.
\<close>

definition sail_convert_image_to_bpp64_rgba_kind ::
  "manip_env \<Rightarrow> sail_image \<Rightarrow> SailPixelFormat \<Rightarrow> bool \<Rightarrow> sail_rgba64_t \<Rightarrow> store \<Rightarrow>
   (store \<times> sail_image) result" where
  "sail_convert_image_to_bpp64_rgba_kind env image_input output_pixel_format image_output rgba s =
     (case sail_check_image_valid env image_input of
        Inl e \<Rightarrow> Inl (e, s)
      | Inr _ \<Rightarrow>
        if \<not> image_output then Inl (SAIL_ERROR_NULL_PTR, s)
        else case verify_and_construct_rgba64_indexes output_pixel_format of
          Inl e \<Rightarrow> Inl (e, s)
        | Inr (r, g, b, a) \<Rightarrow>
          (case sail_copy_image_skeleton env image_input of
             Inl e \<Rightarrow> Inl (e, s)
           | Inr image_local0 \<Rightarrow>
             (let image_local1 = image_local0\<lparr>pixel_format := output_pixel_format\<rparr> in
              case sail_bytes_per_line env (width image_local1) (pixel_format image_local1) of
                Inl e \<Rightarrow> Inl (e, s)
              | Inr bpl \<Rightarrow>
                (let image_local2 = image_local1\<lparr>bytes_per_line := bpl\<rparr>;
                     pixels_size = height image_local2 * bytes_per_line image_local2 in
                 case sail_malloc env (unat pixels_size) of
                   Inl e \<Rightarrow> Inl (e, s)
                 | Inr blk \<Rightarrow>
                   (let image_local3 = image_local2\<lparr>pixels := blk\<rparr> in
                    case to_bpp64_rgba_kind env image_input r g b a image_local3 rgba s of
                      Inl e \<Rightarrow> Inl e
                    | Inr s' \<Rightarrow> Inr (s', image_local3))))))"

text \<open>
  The in-place entry point: the image is the input and the output of
  to_bpp64_rgba_kind.
\<close>

definition sail_convert_image_to_bpp64_rgba_kind_in_place ::
  "manip_env \<Rightarrow> sail_image \<Rightarrow> SailPixelFormat \<Rightarrow> sail_rgba64_t \<Rightarrow> store \<Rightarrow>
   (store \<times> sail_image) result" where
  "sail_convert_image_to_bpp64_rgba_kind_in_place env img output_pixel_format rgba s =
     (case sail_check_image_valid env img of
        Inl e \<Rightarrow> Inl (e, s)
      | Inr _ \<Rightarrow>
        (case verify_and_construct_rgba64_indexes output_pixel_format of
           Inl e \<Rightarrow> Inl (e, s)
         | Inr (r, g, b, a) \<Rightarrow>
           if pixel_format img = output_pixel_format then Inr (s, img)
           else case sail_greater_equal_bits_per_pixel (pixel_format img) output_pixel_format of
             Inl e \<Rightarrow> Inl (e, s)
           | Inr new_image_fits_into_existing \<Rightarrow>
             if \<not> new_image_fits_into_existing then Inl (SAIL_ERROR_UNSUPPORTED_PIXEL_FORMAT, s)
             else case to_bpp64_rgba_kind env img r g b a img rgba s of
               Inl e \<Rightarrow> Inl e
             | Inr s' \<Rightarrow> Inr (s', img\<lparr>pixel_format := output_pixel_format\<rparr>)))"

subsection \<open>Example collaborators and an example image\<close>

text \<open>
  Collaborators for concrete runs: an allocator that returns block 2, a stride of
  \<open>(width * bits + 7) / 8\<close> bytes, a validity check of the dimensions and the format,
  a copy of the image without its pixels.
\<close>

definition example_manip_env :: manip_env where
  "example_manip_env =
     \<lparr>sail_malloc = (\<lambda>n. Inr 2),
      sail_bytes_per_line =
        (\<lambda>w pf. case sail_bits_per_pixel pf of
                   Inl e \<Rightarrow> Inl e
                 | Inr bits \<Rightarrow> Inr ((w * bits + 7) div 8)),
      convert_cmyk32_to_rgb24 = (\<lambda>c m y k. (255 - c, 255 - m, 255 - y)),
      convert_ycbcr_to_rgb = (\<lambda>y cb cr. (y, y, y)),
      sail_check_image_valid =
        (\<lambda>img. if width img = 0 \<or> height img = 0 \<or> bytes_per_line img = 0
                   \<or> pixel_format img = SAIL_PIXEL_FORMAT_UNKNOWN
               then Inl SAIL_ERROR_INVALID_IMAGE else Inr ()),
      sail_copy_image_skeleton = (\<lambda>img. Inr (img\<lparr>pixels := 0\<rparr>))\<rparr>"

text \<open>A block that holds the given bytes, and zeros after them.\<close>

definition block_of_list :: "8 word list \<Rightarrow> nat \<Rightarrow> 8 word" where
  "block_of_list bytes offset = (if offset < length bytes then bytes ! offset else 0)"

text \<open>
  A store with one image of one BPP64-RGBA pixel in block 1, whose channels are 1, 2,
  3 and 4; every other byte of the store is 0.
\<close>

definition example_store :: store where
  "example_store = (\<lambda>blk. if blk = 1 then block_of_list [1, 0, 2, 0, 3, 0, 4, 0] else (\<lambda>offset. 0))"

definition example_rgba64_image :: sail_image where
  "example_rgba64_image =
     \<lparr>pixels = 1, width = 1, height = 1, bytes_per_line = 8,
      pixel_format = SAIL_PIXEL_FORMAT_BPP64_RGBA, palette = None,
      source_image = None, resolution = None\<rparr>"

definition example_rgba :: sail_rgba64_t where
  "example_rgba = \<lparr>component1 = 0, component2 = 0, component3 = 0, component4 = 0\<rparr>"

text \<open>
  The 16-bit sample at a byte offset of the pixel buffer of the image a conversion
  returns.
\<close>

definition output_sample :: "(store \<times> sail_image) result \<Rightarrow> nat \<Rightarrow> sail_status_t + 16 word" where
  "output_sample res offset =
     (case res of
        Inl (e, s) \<Rightarrow> Inl e
      | Inr (s, img) \<Rightarrow> Inr (rd16 s (pixels img, offset)))"

text \<open>The same image, read as a BPP64-RGBX image.\<close>

definition example_rgbx64_image :: sail_image where
  "example_rgbx64_image = example_rgba64_image\<lparr>pixel_format := SAIL_PIXEL_FORMAT_BPP64_RGBX\<rparr>"

text \<open>
  An 8-bit indexed image of one pixel, of index 0, in block 1, with a palette of
  three 24-bit RGB entries in block 3 whose first entry is (255, 0, 128).
\<close>

definition example_palette :: sail_palette where
  "example_palette = \<lparr>pal_pixel_format = SAIL_PIXEL_FORMAT_BPP24_RGB, pal_data = 3, color_count = 3\<rparr>"

definition example_indexed_store :: store where
  "example_indexed_store =
     (\<lambda>blk. if blk = 1 then block_of_list [0]
            else if blk = 3 then block_of_list [255, 0, 128, 0, 255, 0, 0, 0, 255]
            else (\<lambda>offset. 0))"

definition example_indexed_image :: sail_image where
  "example_indexed_image =
     \<lparr>pixels = 1, width = 1, height = 1, bytes_per_line = 1,
      pixel_format = SAIL_PIXEL_FORMAT_BPP8_INDEXED, palette = Some example_palette,
      source_image = None, resolution = None\<rparr>"

text \<open>
  The 16-bit sample of the channel slot \<open>c\<close> of the pixel in a row and a column of a
  64-bit image; the row starts where to_bpp64_rgba_kind computes it.
\<close>

definition sample64 :: "store \<Rightarrow> sail_image \<Rightarrow> nat \<Rightarrow> nat \<Rightarrow> int \<Rightarrow> 16 word" where
  "sample64 s img row col c =
     rd16 s (ptr_add16 (pixels img, unat (bytes_per_line img * of_nat row) + 8 * col) c)"

section \<open>Codec descriptors (plugin_info_private.c)\<close>

datatype sail_error_t =
    SAIL_MEMORY_ALLOCATION_FAILED
  | SAIL_NULL_PTR
  | SAIL_FILE_OPEN_ERROR
  | SAIL_FILE_PARSE_ERROR
  | SAIL_UNSUPPORTED_PLUGIN_LAYOUT
  | SAIL_INCOMPLETE_PLUGIN_INFO

text \<open>
  Modelled from the spec: the enumeration of the feature flags and the bit each one
  occupies are declared in the common header, which is not among the sources. The
  specification gives the feature flags of a direction as a set of static image,
  animated, multi-paged, embedded metadata, embedded ICC profile and interlacing. The
  field \<open>features\<close>, an int used as a bit mask in the C code, is the set of the flags
  it holds; the test \<open>features & FLAG\<close> is membership of \<open>FLAG\<close>.
\<close>

datatype SailPluginFeature =
    SAIL_PLUGIN_FEATURE_STATIC
  | SAIL_PLUGIN_FEATURE_ANIMATED
  | SAIL_PLUGIN_FEATURE_MULTIPAGED
  | SAIL_PLUGIN_FEATURE_META_INFO
  | SAIL_PLUGIN_FEATURE_ICCP
  | SAIL_PLUGIN_FEATURE_INTERLACED

text \<open>
  Modelled from the spec: the one supported layout version is a constant of a header
  that is not among the sources; its name gives the value.
\<close>

definition SAIL_PLUGIN_LAYOUT_V2 :: int where
  "SAIL_PLUGIN_LAYOUT_V2 = 2"

text \<open>
  The structures as check_plugin_info reads them. An array of ints with its length
  field is kept as the two fields of the C structure; the parser sets the length to
  the number of elements it stored.
\<close>

record sail_read_features =
  input_pixel_formats :: "int list"
  input_pixel_formats_length :: int
  output_pixel_formats :: "int list"
  output_pixel_formats_length :: int
  preferred_output_pixel_format :: int
  features :: "SailPluginFeature set"

record sail_write_features = sail_read_features +
  properties :: int
  interlaced_passes :: int
  compression_types :: "int list"
  compression_types_length :: int
  preferred_compression_type :: int
  compression_min :: int
  compression_max :: int
  compression_default :: int

record sail_plugin_info =
  layout :: int
  version :: "string option"
  name :: "string option"
  description :: "string option"
  extension_node :: "string list"
  mime_type_node :: "string list"
  read_features :: sail_read_features
  write_features :: sail_write_features

definition check_plugin_info :: "string \<Rightarrow> sail_plugin_info \<Rightarrow> sail_error_t + unit" where
  "check_plugin_info path plugin_info =
     (let rf = read_features plugin_info; wf = write_features plugin_info in
      if input_pixel_formats_length rf = 0 \<and> output_pixel_formats_length rf \<noteq> 0
      then Inl SAIL_INCOMPLETE_PLUGIN_INFO
      else if input_pixel_formats_length rf \<noteq> 0 \<and> output_pixel_formats_length rf = 0
      then Inl SAIL_INCOMPLETE_PLUGIN_INFO
      else if (SAIL_PLUGIN_FEATURE_STATIC \<in> features rf \<or>
               SAIL_PLUGIN_FEATURE_ANIMATED \<in> features rf \<or>
               SAIL_PLUGIN_FEATURE_MULTIPAGED \<in> features rf) \<and> input_pixel_formats_length rf = 0
      then Inl SAIL_INCOMPLETE_PLUGIN_INFO
      else if input_pixel_formats_length wf = 0 \<and> output_pixel_formats_length wf \<noteq> 0
      then Inl SAIL_INCOMPLETE_PLUGIN_INFO
      else if input_pixel_formats_length wf \<noteq> 0 \<and> output_pixel_formats_length wf = 0
      then Inl SAIL_INCOMPLETE_PLUGIN_INFO
      else if (SAIL_PLUGIN_FEATURE_STATIC \<in> features wf \<or>
               SAIL_PLUGIN_FEATURE_ANIMATED \<in> features wf \<or>
               SAIL_PLUGIN_FEATURE_MULTIPAGED \<in> features wf) \<and> output_pixel_formats_length wf = 0
      then Inl SAIL_INCOMPLETE_PLUGIN_INFO
      else Inr ())"

text \<open>
  \<open>plugin_read_info\<close>. The three allocations at its head and the INI parser are not
  among the sources: \<open>allocated\<close> is the outcome of the allocations (the fresh
  descriptor or the failure), \<open>ini_parse\<close> gives the code the parser returns for the
  path and the descriptor as the handler has filled it. A null \<open>path\<close> is \<open>None\<close>.
  On every failure the descriptor is destroyed and only the status is returned.
\<close>

definition plugin_read_info ::
  "(sail_error_t + sail_plugin_info) \<Rightarrow> (string \<Rightarrow> sail_plugin_info \<Rightarrow> int \<times> sail_plugin_info) \<Rightarrow>
   string option \<Rightarrow> sail_error_t + sail_plugin_info" where
  "plugin_read_info allocated ini_parse path =
     (case path of
        None \<Rightarrow> Inl SAIL_NULL_PTR
      | Some p \<Rightarrow>
         (case allocated of
            Inl e \<Rightarrow> Inl e
          | Inr fresh \<Rightarrow>
             (let (code, plugin_info) = ini_parse p fresh in
              if layout plugin_info \<noteq> SAIL_PLUGIN_LAYOUT_V2 then Inl SAIL_UNSUPPORTED_PLUGIN_LAYOUT
              else case check_plugin_info p plugin_info of
                Inl e \<Rightarrow> Inl e
              | Inr _ \<Rightarrow>
                 if code = 0 then Inr plugin_info
                 else if code = -1 then Inl SAIL_FILE_OPEN_ERROR
                 else if code = -2 then Inl SAIL_MEMORY_ALLOCATION_FAILED
                 else Inl SAIL_FILE_PARSE_ERROR)))"

section \<open>The PCX codec (pcx.c)\<close>

text \<open>
  The structure SailPcxHeader is declared in helpers.h, which is not among the
  sources: the fields are those pcx.c reads, with the widths of the PCX file header.
  The options of a read or write operation are opaque here: a number identifies them.
\<close>

type_synonym sail_read_options = nat
type_synonym sail_write_options = nat

record SailPcxHeader =
  hdr_id :: "8 word"
  hdr_encoding :: "8 word"
  hdr_bits_per_plane :: "8 word"
  hdr_xmin :: "16 word"
  hdr_ymin :: "16 word"
  hdr_xmax :: "16 word"
  hdr_ymax :: "16 word"
  hdr_hdpi :: "16 word"
  hdr_vdpi :: "16 word"
  hdr_palette :: "8 word list"
  hdr_planes :: "8 word"
  hdr_bytes_per_line :: "16 word"
  hdr_palette_info :: "16 word"

record pcx_state =
  read_options :: "sail_read_options option"
  write_options :: "sail_write_options option"
  pcx_header :: SailPcxHeader
  scan :: "nat option"
  frame_read :: bool

datatype whence = SEEK_SET | SEEK_CUR | SEEK_END

text \<open>
  The I/O object: a stream with the callbacks the codec calls through it. A strict
  read of \<open>n\<close> bytes returns the bytes and the advanced stream, or fails; a seek returns
  the moved stream, or fails.
\<close>

record 'st sail_io =
  stream :: 'st
  strict_read :: "'st \<Rightarrow> nat \<Rightarrow> sail_status_t + (8 word list \<times> 'st)"
  seek :: "'st \<Rightarrow> int \<Rightarrow> whence \<Rightarrow> sail_status_t + 'st"

text \<open>
  The functions of the library and of helpers.c that pcx.c calls and that are not
  among the sources are parameters of the model, gathered in one record (which
  extends the record of the two common functions), with the constant
  \<open>SAIL_PCX_NO_ENCODING\<close> of helpers.h. An allocation returns what it
  allocates or fails; \<open>pcx_private_read_header\<close> and \<open>pcx_private_build_palette\<close>
  read from the stream and return it advanced.
\<close>

record 'st pcx_env = sail_common +
  SAIL_PCX_NO_ENCODING :: "8 word"
  sail_check_io_valid :: "'st sail_io \<Rightarrow> sail_status_t + unit"
  sail_check_image_skeleton_valid :: "sail_image \<Rightarrow> sail_status_t + unit"
  sail_copy_read_options :: "sail_read_options \<Rightarrow> sail_status_t + sail_read_options"
  pcx_private_read_header :: "'st sail_io \<Rightarrow> sail_status_t + (SailPcxHeader \<times> 'st sail_io)"
  sail_alloc_image :: "sail_status_t + sail_image"
  sail_alloc_source_image :: "sail_status_t + sail_source_image"
  pcx_private_sail_pixel_format :: "8 word \<Rightarrow> 8 word \<Rightarrow> 16 word \<Rightarrow> sail_status_t + SailPixelFormat"
  pcx_private_build_palette ::
    "SailPixelFormat \<Rightarrow> 'st sail_io \<Rightarrow> 8 word list \<Rightarrow> sail_status_t + (sail_palette option \<times> 'st sail_io)"
  sail_alloc_resolution_from_data ::
    "SailResolutionUnit \<Rightarrow> 16 word \<Rightarrow> 16 word \<Rightarrow> sail_status_t + sail_resolution"

definition SAIL_PCX_SIGNATURE :: "32 word" where
  "SAIL_PCX_SIGNATURE = 0x0A"

text \<open>
  \<open>alloc_pcx_state\<close>: the header of the fresh state is not initialised (its value
  is the parameter \<open>uninit\<close>). The size of the structure does not matter to the
  model and is passed as 0.
\<close>

definition alloc_pcx_state :: "'st pcx_env \<Rightarrow> SailPcxHeader \<Rightarrow> sail_status_t + pcx_state" where
  "alloc_pcx_state env uninit =
     (case sail_malloc env 0 of
        Inl e \<Rightarrow> Inl e
      | Inr _ \<Rightarrow> Inr \<lparr>read_options = None, write_options = None, pcx_header = uninit,
                       scan = None, frame_read = False\<rparr>)"

text \<open>
  The entry points return the status with the state the pointer \<open>state\<close> refers to
  after the call and the I/O object after the call: both are changed before some of the
  failures. A null \<open>state\<close>, \<open>read_options\<close> or \<open>image\<close> argument is \<open>None\<close> resp.
  \<open>False\<close>.
\<close>

definition sail_codec_read_init_v6_pcx ::
  "'st pcx_env \<Rightarrow> SailPcxHeader \<Rightarrow> 'st sail_io \<Rightarrow> sail_read_options option \<Rightarrow> bool \<Rightarrow>
   (sail_status_t + unit) \<times> pcx_state option \<times> 'st sail_io" where
  "sail_codec_read_init_v6_pcx env uninit io opts state_ptr =
     (if \<not> state_ptr then (Inl SAIL_ERROR_NULL_PTR, None, io)
      else case sail_check_io_valid env io of
        Inl e \<Rightarrow> (Inl e, None, io)
      | Inr _ \<Rightarrow>
        (case opts of
           None \<Rightarrow> (Inl SAIL_ERROR_NULL_PTR, None, io)
         | Some ro \<Rightarrow>
           (case alloc_pcx_state env uninit of
              Inl e \<Rightarrow> (Inl e, None, io)
            | Inr st \<Rightarrow>
              (case sail_copy_read_options env ro of
                 Inl e \<Rightarrow> (Inl e, Some st, io)
               | Inr ro' \<Rightarrow>
                 (let st1 = st\<lparr>read_options := Some ro'\<rparr> in
                  case pcx_private_read_header env io of
                    Inl e \<Rightarrow> (Inl e, Some st1, io)
                  | Inr (hdr, io') \<Rightarrow>
                    (let st2 = st1\<lparr>pcx_header := hdr\<rparr> in
                     if ucast (hdr_id hdr) \<noteq> SAIL_PCX_SIGNATURE
                     then (Inl SAIL_ERROR_BROKEN_IMAGE, Some st2, io')
                     else if hdr_bytes_per_line hdr = 0
                     then (Inl SAIL_ERROR_BROKEN_IMAGE, Some st2, io')
                     else (Inr (), Some st2, io')))))))"

definition sail_codec_read_seek_next_frame_v6_pcx ::
  "'st pcx_env \<Rightarrow> pcx_state option \<Rightarrow> 'st sail_io \<Rightarrow> bool \<Rightarrow>
   (sail_status_t + sail_image) \<times> pcx_state option \<times> 'st sail_io" where
  "sail_codec_read_seek_next_frame_v6_pcx env state io image_ptr =
     (case state of
        None \<Rightarrow> (Inl SAIL_ERROR_NULL_PTR, state, io)
      | Some st \<Rightarrow>
        (case sail_check_io_valid env io of
           Inl e \<Rightarrow> (Inl e, state, io)
         | Inr _ \<Rightarrow>
           if \<not> image_ptr then (Inl SAIL_ERROR_NULL_PTR, state, io)
           else if frame_read st then (Inl SAIL_ERROR_NO_MORE_FRAMES, state, io)
           else
            (let st1 = st\<lparr>frame_read := True\<rparr>; hdr = pcx_header st1 in
             case sail_alloc_image env of
               Inl e \<Rightarrow> (Inl e, Some st1, io)
             | Inr image0 \<Rightarrow>
             case sail_alloc_source_image env of
               Inl e \<Rightarrow> (Inl e, Some st1, io)
             | Inr source0 \<Rightarrow>
             case pcx_private_sail_pixel_format env
                    (hdr_bits_per_plane hdr) (hdr_planes hdr) (hdr_palette_info hdr) of
               Inl e \<Rightarrow> (Inl e, Some st1, io)
             | Inr pf \<Rightarrow>
              (let source1 = source0\<lparr>src_pixel_format := pf, compression := SAIL_COMPRESSION_RLE\<rparr>;
                   image1 = image0\<lparr>source_image := Some source1,
                       width := ucast (hdr_xmax hdr) - ucast (hdr_xmin hdr) + 1,
                       height := ucast (hdr_ymax hdr) - ucast (hdr_ymin hdr) + 1,
                       pixel_format := src_pixel_format source1\<rparr> in
               case sail_bytes_per_line env (width image1) (pixel_format image1) of
                 Inl e \<Rightarrow> (Inl e, Some st1, io)
               | Inr bpl \<Rightarrow>
                (let image2 = image1\<lparr>bytes_per_line := bpl\<rparr> in
                 case (if pixel_format image2 \<in> {SAIL_PIXEL_FORMAT_BPP24_RGB,
                            SAIL_PIXEL_FORMAT_BPP16_RGBA, SAIL_PIXEL_FORMAT_BPP32_RGBA}
                       then (case sail_malloc env (unat (bytes_per_line image2)) of
                               Inl e \<Rightarrow> Inl e
                             | Inr blk \<Rightarrow> Inr (st1\<lparr>scan := Some blk\<rparr>))
                       else Inr st1) of
                   Inl e \<Rightarrow> (Inl e, Some st1, io)
                 | Inr st2 \<Rightarrow>
                 case pcx_private_build_palette env (pixel_format image2) io (hdr_palette hdr) of
                   Inl e \<Rightarrow> (Inl e, Some st2, io)
                 | Inr (pal, io') \<Rightarrow>
                  (let image3 = image2\<lparr>palette := pal\<rparr> in
                   if hdr_hdpi hdr > 0 \<and> hdr_vdpi hdr > 0
                   then (case sail_alloc_resolution_from_data env SAIL_RESOLUTION_UNIT_INCH
                                 (hdr_hdpi hdr) (hdr_vdpi hdr) of
                           Inl e \<Rightarrow> (Inl e, Some st2, io')
                         | Inr res \<Rightarrow> (Inr (image3\<lparr>resolution := Some res\<rparr>), Some st2, io'))
                   else (Inr image3, Some st2, io')))))))"

text \<open>
  A strict read stores the bytes it returns from the address of the buffer on.
\<close>

primrec store_bytes :: "store \<Rightarrow> ptr \<Rightarrow> 8 word list \<Rightarrow> store" where
  "store_bytes s p [] = s"
| "store_bytes s p (v # vs) = store_bytes (wr8 s p v) (ptr_add8 p 1) vs"

text \<open>
  The loop over the rows of an indexed or 8-bit grayscale frame: \<open>n\<close> rows remain,
  \<open>row\<close> is the loop variable.
\<close>

fun pcx_read_rows_indexed ::
  "sail_image \<Rightarrow> 32 word \<Rightarrow> nat \<Rightarrow> 32 word \<Rightarrow> store \<Rightarrow> 'st sail_io \<Rightarrow>
   (sail_status_t + unit) \<times> store \<times> 'st sail_io" where
  "pcx_read_rows_indexed img line_padding 0 row s io = (Inr (), s, io)"
| "pcx_read_rows_indexed img line_padding (Suc n) row s io =
     (let scan_line = (pixels img, unat (bytes_per_line img * row)) in
      case strict_read io (stream io) (unat (bytes_per_line img)) of
        Inl e \<Rightarrow> (Inl e, s, io)
      | Inr (bytes, stream1) \<Rightarrow>
         (let s1 = store_bytes s scan_line bytes; io1 = io\<lparr>stream := stream1\<rparr> in
          case seek io1 (stream io1) (uint line_padding) SEEK_CUR of
            Inl e \<Rightarrow> (Inl e, s1, io1)
          | Inr stream2 \<Rightarrow>
              pcx_read_rows_indexed img line_padding n (row + 1) s1 (io1\<lparr>stream := stream2\<rparr>)))"

text \<open>
  The loop over the columns of one plane of an RGB row: the bytes of the plane are
  spread with a stride of three.
\<close>

fun pcx_spread_plane ::
  "ptr \<Rightarrow> ptr \<Rightarrow> 32 word \<Rightarrow> nat \<Rightarrow> 32 word \<Rightarrow> store \<Rightarrow> store" where
  "pcx_spread_plane target_scan plane component 0 column s = s"
| "pcx_spread_plane target_scan plane component (Suc n) column s =
     pcx_spread_plane target_scan plane component n (column + 1)
       (wr8 s (ptr_add8 target_scan (int (unat (column * 3 + component))))
              (rd8 s (ptr_add8 plane (int (unat column)))))"

fun pcx_read_planes ::
  "sail_image \<Rightarrow> nat option \<Rightarrow> 32 word \<Rightarrow> ptr \<Rightarrow> nat \<Rightarrow> 32 word \<Rightarrow> store \<Rightarrow> 'st sail_io \<Rightarrow>
   (sail_status_t + unit) \<times> store \<times> 'st sail_io" where
  "pcx_read_planes img plane_buf line_padding target_scan 0 component s io = (Inr (), s, io)"
| "pcx_read_planes img plane_buf line_padding target_scan (Suc n) component s io =
     (case plane_buf of
        None \<Rightarrow> (Inl NULL_POINTER_DEREFERENCE, s, io)
      | Some blk \<Rightarrow>
        (case strict_read io (stream io) (unat (width img)) of
           Inl e \<Rightarrow> (Inl e, s, io)
         | Inr (bytes, stream1) \<Rightarrow>
            (let s1 = store_bytes s (blk, 0) bytes; io1 = io\<lparr>stream := stream1\<rparr> in
             case seek io1 (stream io1) (uint line_padding) SEEK_CUR of
               Inl e \<Rightarrow> (Inl e, s1, io1)
             | Inr stream2 \<Rightarrow>
                 pcx_read_planes img plane_buf line_padding target_scan n (component + 1)
                   (pcx_spread_plane target_scan (blk, 0) component (unat (width img)) 0 s1)
                   (io1\<lparr>stream := stream2\<rparr>))))"

fun pcx_read_rows_rgb ::
  "sail_image \<Rightarrow> nat option \<Rightarrow> 32 word \<Rightarrow> nat \<Rightarrow> 32 word \<Rightarrow> store \<Rightarrow> 'st sail_io \<Rightarrow>
   (sail_status_t + unit) \<times> store \<times> 'st sail_io" where
  "pcx_read_rows_rgb img plane_buf line_padding 0 row s io = (Inr (), s, io)"
| "pcx_read_rows_rgb img plane_buf line_padding (Suc n) row s io =
     (let target_scan = (pixels img, unat (bytes_per_line img * row)) in
      case pcx_read_planes img plane_buf line_padding target_scan 3 0 s io of
        (Inl e, s1, io1) \<Rightarrow> (Inl e, s1, io1)
      | (Inr _, s1, io1) \<Rightarrow> pcx_read_rows_rgb img plane_buf line_padding n (row + 1) s1 io1)"

definition sail_codec_read_frame_v6_pcx ::
  "'st pcx_env \<Rightarrow> pcx_state option \<Rightarrow> 'st sail_io \<Rightarrow> sail_image \<Rightarrow> store \<Rightarrow>
   (sail_status_t + unit) \<times> store \<times> 'st sail_io" where
  "sail_codec_read_frame_v6_pcx env state io img s =
     (case state of
        None \<Rightarrow> (Inl SAIL_ERROR_NULL_PTR, s, io)
      | Some st \<Rightarrow>
        (case sail_check_io_valid env io of
           Inl e \<Rightarrow> (Inl e, s, io)
         | Inr _ \<Rightarrow>
           (case sail_check_image_skeleton_valid env img of
              Inl e \<Rightarrow> (Inl e, s, io)
            | Inr _ \<Rightarrow>
              if hdr_encoding (pcx_header st) = SAIL_PCX_NO_ENCODING env then
                (if pixel_format img \<in> {SAIL_PIXEL_FORMAT_BPP1_INDEXED, SAIL_PIXEL_FORMAT_BPP4_INDEXED,
                       SAIL_PIXEL_FORMAT_BPP8_INDEXED, SAIL_PIXEL_FORMAT_BPP8_GRAYSCALE}
                 then pcx_read_rows_indexed img
                        (ucast (hdr_bytes_per_line (pcx_header st)) - bytes_per_line img)
                        (unat (height img)) 0 s io
                 else if pixel_format img = SAIL_PIXEL_FORMAT_BPP24_RGB
                 then pcx_read_rows_rgb img (scan st)
                        (ucast (hdr_bytes_per_line (pcx_header st)) - width img)
                        (unat (height img)) 0 s io
                 else if pixel_format img \<in> {SAIL_PIXEL_FORMAT_BPP16_RGBA, SAIL_PIXEL_FORMAT_BPP32_RGBA}
                 then (Inr (), s, io)
                 else (Inr (), s, io))
              else (Inr (), s, io))))"

text \<open>
  The results of \<open>n\<close> consecutive calls of seek_next_frame on one open state, each
  call on the state and the I/O object the call before has left.
\<close>

fun seek_next_frame_calls ::
  "'st pcx_env \<Rightarrow> pcx_state option \<Rightarrow> 'st sail_io \<Rightarrow> nat \<Rightarrow> (sail_status_t + sail_image) list" where
  "seek_next_frame_calls env state io 0 = []"
| "seek_next_frame_calls env state io (Suc n) =
     (case sail_codec_read_seek_next_frame_v6_pcx env state io True of
        (res, state', io') \<Rightarrow> res # seek_next_frame_calls env state' io' n)"

subsection \<open>An example stream and example collaborators\<close>

text \<open>
  A stream over a buffer in memory: the bytes and the position. A strict read fails
  when fewer bytes are left than asked for.
\<close>

definition mem_io :: "8 word list \<Rightarrow> (8 word list \<times> nat) sail_io" where
  "mem_io bytes =
     \<lparr>stream = (bytes, 0),
      strict_read = (\<lambda>(d, pos) n. if pos + n \<le> length d
                        then Inr (take n (drop pos d), (d, pos + n)) else Inl SAIL_ERROR_READ_IO),
      seek = (\<lambda>(d, pos) off wh. case wh of
                 SEEK_SET \<Rightarrow> if 0 \<le> off then Inr (d, nat off) else Inl SAIL_ERROR_SEEK_IO
               | SEEK_CUR \<Rightarrow> if 0 \<le> int pos + off then Inr (d, nat (int pos + off)) else Inl SAIL_ERROR_SEEK_IO
               | SEEK_END \<Rightarrow> if 0 \<le> int (length d) + off then Inr (d, nat (int (length d) + off))
                            else Inl SAIL_ERROR_SEEK_IO)\<rparr>"

definition example_pcx_header :: SailPcxHeader where
  "example_pcx_header =
     \<lparr>hdr_id = 0x0A, hdr_encoding = 1, hdr_bits_per_plane = 8,
      hdr_xmin = 0, hdr_ymin = 0, hdr_xmax = 1, hdr_ymax = 0, hdr_hdpi = 72, hdr_vdpi = 72,
      hdr_palette = [], hdr_planes = 1, hdr_bytes_per_line = 2, hdr_palette_info = 1\<rparr>"

definition example_image :: sail_image where
  "example_image =
     \<lparr>pixels = 1, width = 2, height = 1, bytes_per_line = 2,
      pixel_format = SAIL_PIXEL_FORMAT_BPP8_INDEXED, palette = None,
      source_image = None, resolution = None\<rparr>"

definition example_pcx_env :: "(8 word list \<times> nat) pcx_env" where
  "example_pcx_env =
     \<lparr>sail_malloc = (\<lambda>n. Inr 2),
      sail_bytes_per_line = (\<lambda>w pf. Inr w),
      SAIL_PCX_NO_ENCODING = 0,
      sail_check_io_valid = (\<lambda>io. Inr ()),
      sail_check_image_skeleton_valid =
        (\<lambda>img. if width img = 0 \<or> height img = 0 \<or> bytes_per_line img = 0
                   \<or> pixel_format img = SAIL_PIXEL_FORMAT_UNKNOWN
               then Inl SAIL_ERROR_INVALID_IMAGE else Inr ()),
      sail_copy_read_options = (\<lambda>opts. Inr opts),
      pcx_private_read_header = (\<lambda>io. Inr (example_pcx_header, io)),
      sail_alloc_image = Inr (example_image\<lparr>width := 0, height := 0, bytes_per_line := 0,
                                pixel_format := SAIL_PIXEL_FORMAT_UNKNOWN\<rparr>),
      sail_alloc_source_image =
        Inr \<lparr>src_pixel_format = SAIL_PIXEL_FORMAT_UNKNOWN, compression = SAIL_COMPRESSION_UNSUPPORTED\<rparr>,
      pcx_private_sail_pixel_format =
        (\<lambda>bits planes info.
           if bits = 8 \<and> planes = 1 then Inr SAIL_PIXEL_FORMAT_BPP8_INDEXED
           else if bits = 8 \<and> planes = 3 then Inr SAIL_PIXEL_FORMAT_BPP24_RGB
           else Inl SAIL_ERROR_UNSUPPORTED_PIXEL_FORMAT),
      pcx_private_build_palette = (\<lambda>pf io pal. Inr (None, io)),
      sail_alloc_resolution_from_data =
        (\<lambda>u hx hy. Inr \<lparr>res_unit = u, res_x = hx, res_y = hy\<rparr>)\<rparr>"

definition example_pcx_state :: pcx_state where
  "example_pcx_state =
     \<lparr>read_options = Some 0, write_options = None, pcx_header = example_pcx_header,
      scan = None, frame_read = False\<rparr>"

section \<open>Properties of the codec descriptors\<close>

text \<open>
  A direction declares pixel formats on one side only: output formats without input
  formats, or input formats without output formats.
\<close>

definition formats_mismatch :: "'a sail_read_features_scheme \<Rightarrow> bool" where
  "formats_mismatch f \<longleftrightarrow>
     (output_pixel_formats_length f \<noteq> 0 \<and> input_pixel_formats_length f = 0) \<or>
     (input_pixel_formats_length f \<noteq> 0 \<and> output_pixel_formats_length f = 0)"

text \<open>
  A direction declares one of the static, animated or multi-paged feature flags while
  its list of input pixel formats is empty.
\<close>

definition frames_without_input :: "'a sail_read_features_scheme \<Rightarrow> bool" where
  "frames_without_input f \<longleftrightarrow>
     (SAIL_PLUGIN_FEATURE_STATIC \<in> features f \<or>
      SAIL_PLUGIN_FEATURE_ANIMATED \<in> features f \<or>
      SAIL_PLUGIN_FEATURE_MULTIPAGED \<in> features f) \<and> input_pixel_formats_length f = 0"

definition example_read_features :: sail_read_features where
  "example_read_features =
     \<lparr>input_pixel_formats = [], input_pixel_formats_length = 0,
      output_pixel_formats = [], output_pixel_formats_length = 0,
      preferred_output_pixel_format = 0, features = {}\<rparr>"

definition example_write_features :: sail_write_features where
  "example_write_features =
     \<lparr>input_pixel_formats = [], input_pixel_formats_length = 0,
      output_pixel_formats = [], output_pixel_formats_length = 0,
      preferred_output_pixel_format = 0, features = {},
      properties = 0, interlaced_passes = 0,
      compression_types = [], compression_types_length = 0, preferred_compression_type = 0,
      compression_min = 0, compression_max = 0, compression_default = 0\<rparr>"

definition example_plugin_info :: sail_plugin_info where
  "example_plugin_info =
     \<lparr>layout = 2, version = Some ''1.0.0'', name = Some ''PCX'', description = None,
      extension_node = [''pcx''], mime_type_node = [''image/x-pcx''],
      read_features = example_read_features, write_features = example_write_features\<rparr>"

lemma check_plugin_info_mismatch:
  "formats_mismatch (read_features pi) \<or> formats_mismatch (write_features pi) \<Longrightarrow>
   check_plugin_info path pi = Inl SAIL_INCOMPLETE_PLUGIN_INFO"
  unfolding check_plugin_info_def formats_mismatch_def Let_def by auto

lemma check_plugin_info_frames:
  "frames_without_input (read_features pi) \<or> frames_without_input (write_features pi) \<Longrightarrow>
   check_plugin_info path pi = Inl SAIL_INCOMPLETE_PLUGIN_INFO"
  unfolding check_plugin_info_def frames_without_input_def Let_def by auto

text \<open>
  C5. For every descriptor and each direction independently: when the read features
  or the write features declare output pixel formats with no input pixel format, or
  input pixel formats with no output pixel format, the validation check_plugin_info
  fails with SAIL_INCOMPLETE_PLUGIN_INFO (IncompleteCapabilities). plugin_read_info
  then rejects the whole descriptor, whatever code the parser returned: it returns
  a failure and no descriptor, and the failure is SAIL_INCOMPLETE_PLUGIN_INFO when the
  layout version is the supported one (an unsupported layout is reported first).
\<close>

theorem check_plugin_info_formats_mismatch:
  assumes "formats_mismatch (read_features pi) \<or> formats_mismatch (write_features pi)"
    and "ini_parse path fresh = (code, pi)"
  shows "check_plugin_info path pi = Inl SAIL_INCOMPLETE_PLUGIN_INFO
    \<and> (\<exists>e. plugin_read_info (Inr fresh) ini_parse (Some path) = Inl e)
    \<and> (layout pi = SAIL_PLUGIN_LAYOUT_V2 \<longrightarrow>
         plugin_read_info (Inr fresh) ini_parse (Some path) = Inl SAIL_INCOMPLETE_PLUGIN_INFO)"
proof -
  have failed: "check_plugin_info path pi = Inl SAIL_INCOMPLETE_PLUGIN_INFO"
    using assms(1) by (rule check_plugin_info_mismatch)
  from failed assms(2) show ?thesis by (simp add: plugin_read_info_def)
qed

theorem check_plugin_info_formats_mismatch_witness:
  "check_plugin_info ''pcx.plugin.info''
     (example_plugin_info\<lparr>read_features :=
        example_read_features\<lparr>output_pixel_formats := [24], output_pixel_formats_length := 1\<rparr>\<rparr>)
     = Inl SAIL_INCOMPLETE_PLUGIN_INFO
   \<and> plugin_read_info (Inr example_plugin_info)
       (\<lambda>p fresh. (0, fresh\<lparr>read_features :=
          example_read_features\<lparr>output_pixel_formats := [24], output_pixel_formats_length := 1\<rparr>\<rparr>))
       (Some ''pcx.plugin.info'') = Inl SAIL_INCOMPLETE_PLUGIN_INFO"
  using check_plugin_info_formats_mismatch [of
      "example_plugin_info\<lparr>read_features :=
        example_read_features\<lparr>output_pixel_formats := [24], output_pixel_formats_length := 1\<rparr>\<rparr>"
      "\<lambda>p fresh. (0, fresh\<lparr>read_features :=
          example_read_features\<lparr>output_pixel_formats := [24], output_pixel_formats_length := 1\<rparr>\<rparr>)"
      "''pcx.plugin.info''" example_plugin_info 0]
  by (simp add: formats_mismatch_def example_plugin_info_def example_read_features_def
      SAIL_PLUGIN_LAYOUT_V2_def)

text \<open>
  C6. For every descriptor and each direction: when the read features or the write
  features declare the static, the animated or the multi-paged flag while the list of
  input pixel formats of that direction is empty, check_plugin_info fails with
  SAIL_INCOMPLETE_PLUGIN_INFO, and plugin_read_info rejects the descriptor as for C5.
\<close>

theorem check_plugin_info_frames_without_input:
  assumes "frames_without_input (read_features pi) \<or> frames_without_input (write_features pi)"
    and "ini_parse path fresh = (code, pi)"
  shows "check_plugin_info path pi = Inl SAIL_INCOMPLETE_PLUGIN_INFO
    \<and> (\<exists>e. plugin_read_info (Inr fresh) ini_parse (Some path) = Inl e)
    \<and> (layout pi = SAIL_PLUGIN_LAYOUT_V2 \<longrightarrow>
         plugin_read_info (Inr fresh) ini_parse (Some path) = Inl SAIL_INCOMPLETE_PLUGIN_INFO)"
proof -
  have failed: "check_plugin_info path pi = Inl SAIL_INCOMPLETE_PLUGIN_INFO"
    using assms(1) by (rule check_plugin_info_frames)
  from failed assms(2) show ?thesis by (simp add: plugin_read_info_def)
qed

theorem check_plugin_info_frames_without_input_witness:
  "check_plugin_info ''pcx.plugin.info''
     (example_plugin_info\<lparr>write_features :=
        example_write_features\<lparr>features := {SAIL_PLUGIN_FEATURE_ANIMATED}\<rparr>\<rparr>)
     = Inl SAIL_INCOMPLETE_PLUGIN_INFO
   \<and> plugin_read_info (Inr example_plugin_info)
       (\<lambda>p fresh. (0, fresh\<lparr>write_features :=
          example_write_features\<lparr>features := {SAIL_PLUGIN_FEATURE_ANIMATED}\<rparr>\<rparr>))
       (Some ''pcx.plugin.info'') = Inl SAIL_INCOMPLETE_PLUGIN_INFO"
  using check_plugin_info_frames_without_input [of
      "example_plugin_info\<lparr>write_features :=
        example_write_features\<lparr>features := {SAIL_PLUGIN_FEATURE_ANIMATED}\<rparr>\<rparr>"
      "\<lambda>p fresh. (0, fresh\<lparr>write_features :=
          example_write_features\<lparr>features := {SAIL_PLUGIN_FEATURE_ANIMATED}\<rparr>\<rparr>)"
      "''pcx.plugin.info''" example_plugin_info 0]
  by (simp add: frames_without_input_def example_plugin_info_def example_write_features_def
      SAIL_PLUGIN_LAYOUT_V2_def)

section \<open>Properties of the PCX codec\<close>

lemma init_frame_read:
  "sail_codec_read_init_v6_pcx env uninit io0 opts ptr = (Inr (), Some st, io) \<Longrightarrow> \<not> frame_read st"
  unfolding sail_codec_read_init_v6_pcx_def alloc_pcx_state_def Let_def
  by (auto split: if_splits sum.splits option.splits prod.splits)

lemma seek_next_frame_exhausted:
  "frame_read st \<Longrightarrow> sail_check_io_valid env io = Inr () \<Longrightarrow>
   sail_codec_read_seek_next_frame_v6_pcx env (Some st) io True
     = (Inl SAIL_ERROR_NO_MORE_FRAMES, Some st, io)"
  by (simp add: sail_codec_read_seek_next_frame_v6_pcx_def)

lemma seek_next_frame_calls_exhausted:
  "frame_read st \<Longrightarrow> sail_check_io_valid env io = Inr () \<Longrightarrow>
   seek_next_frame_calls env (Some st) io n = replicate n (Inl SAIL_ERROR_NO_MORE_FRAMES)"
  by (induction n) (simp_all add: seek_next_frame_exhausted)

lemma seek_next_frame_first:
  assumes "\<not> frame_read st"
    and "sail_check_io_valid env io = Inr ()"
    and "sail_alloc_image env = Inr image0"
    and "sail_alloc_source_image env = Inr source0"
    and "pcx_private_sail_pixel_format env (hdr_bits_per_plane (pcx_header st))
           (hdr_planes (pcx_header st)) (hdr_palette_info (pcx_header st)) = Inr pf"
    and "sail_bytes_per_line env
           (ucast (hdr_xmax (pcx_header st)) - ucast (hdr_xmin (pcx_header st)) + 1) pf = Inr bpl"
    and "sail_malloc env (unat bpl) = Inr blk"
    and "pcx_private_build_palette env pf io (hdr_palette (pcx_header st)) = Inr (pal, io')"
    and "sail_alloc_resolution_from_data env SAIL_RESOLUTION_UNIT_INCH
           (hdr_hdpi (pcx_header st)) (hdr_vdpi (pcx_header st)) = Inr res"
  shows "\<exists>img st'. sail_codec_read_seek_next_frame_v6_pcx env (Some st) io True
            = (Inr img, Some st', io') \<and> frame_read st'"
  using assms unfolding sail_codec_read_seek_next_frame_v6_pcx_def Let_def
  by (auto split: if_splits)

text \<open>
  C9. On a state that init has just opened, with the I/O object valid before and
  after the call and the collaborators of the first call succeeding (the allocations,
  the mapping of the header to a pixel format, the stride, the palette), the first
  call of seek_next_frame succeeds and returns an image descriptor, and every later
  call on the same state fails with SAIL_ERROR_NO_MORE_FRAMES: the results of
  \<open>n + 1\<close> consecutive calls are one image followed by \<open>n\<close> times NoMoreFrames.
\<close>

theorem seek_next_frame_single_frame:
  assumes "sail_codec_read_init_v6_pcx env uninit io0 opts True = (Inr (), Some st, io)"
    and "sail_check_io_valid env io = Inr ()"
    and "sail_alloc_image env = Inr image0"
    and "sail_alloc_source_image env = Inr source0"
    and "pcx_private_sail_pixel_format env (hdr_bits_per_plane (pcx_header st))
           (hdr_planes (pcx_header st)) (hdr_palette_info (pcx_header st)) = Inr pf"
    and "sail_bytes_per_line env
           (ucast (hdr_xmax (pcx_header st)) - ucast (hdr_xmin (pcx_header st)) + 1) pf = Inr bpl"
    and "sail_malloc env (unat bpl) = Inr blk"
    and "pcx_private_build_palette env pf io (hdr_palette (pcx_header st)) = Inr (pal, io')"
    and "sail_alloc_resolution_from_data env SAIL_RESOLUTION_UNIT_INCH
           (hdr_hdpi (pcx_header st)) (hdr_vdpi (pcx_header st)) = Inr res"
    and "sail_check_io_valid env io' = Inr ()"
  shows "\<exists>img. seek_next_frame_calls env (Some st) io (Suc n)
           = Inr img # replicate n (Inl SAIL_ERROR_NO_MORE_FRAMES)"
proof -
  have fresh: "\<not> frame_read st"
    using assms(1) by (rule init_frame_read)
  from seek_next_frame_first [OF fresh assms(2-9)]
  obtain img st' where first:
    "sail_codec_read_seek_next_frame_v6_pcx env (Some st) io True = (Inr img, Some st', io')"
    and consumed: "frame_read st'"
    by blast
  have "seek_next_frame_calls env (Some st') io' n = replicate n (Inl SAIL_ERROR_NO_MORE_FRAMES)"
    using consumed assms(10) by (rule seek_next_frame_calls_exhausted)
  with first show ?thesis by simp
qed

theorem seek_next_frame_single_frame_witness:
  "\<exists>img. seek_next_frame_calls example_pcx_env (Some example_pcx_state) (mem_io []) (Suc (Suc (Suc 0)))
     = [Inr img, Inl SAIL_ERROR_NO_MORE_FRAMES, Inl SAIL_ERROR_NO_MORE_FRAMES]"
proof -
  have init: "sail_codec_read_init_v6_pcx example_pcx_env example_pcx_header (mem_io []) (Some 0) True
      = (Inr (), Some example_pcx_state, mem_io [])"
    by (simp add: sail_codec_read_init_v6_pcx_def alloc_pcx_state_def example_pcx_env_def
        example_pcx_state_def example_pcx_header_def SAIL_PCX_SIGNATURE_def)
  have valid: "sail_check_io_valid example_pcx_env (mem_io []) = Inr ()"
    by (simp add: example_pcx_env_def)
  have img: "sail_alloc_image example_pcx_env
      = Inr (example_image\<lparr>width := 0, height := 0, bytes_per_line := 0,
                           pixel_format := SAIL_PIXEL_FORMAT_UNKNOWN\<rparr>)"
    by (simp add: example_pcx_env_def)
  have src: "sail_alloc_source_image example_pcx_env
      = Inr \<lparr>src_pixel_format = SAIL_PIXEL_FORMAT_UNKNOWN, compression = SAIL_COMPRESSION_UNSUPPORTED\<rparr>"
    by (simp add: example_pcx_env_def)
  have pf: "pcx_private_sail_pixel_format example_pcx_env
      (hdr_bits_per_plane (pcx_header example_pcx_state)) (hdr_planes (pcx_header example_pcx_state))
      (hdr_palette_info (pcx_header example_pcx_state)) = Inr SAIL_PIXEL_FORMAT_BPP8_INDEXED"
    by (simp add: example_pcx_env_def example_pcx_state_def example_pcx_header_def)
  have bpl: "sail_bytes_per_line example_pcx_env
      (ucast (hdr_xmax (pcx_header example_pcx_state)) - ucast (hdr_xmin (pcx_header example_pcx_state)) + 1)
      SAIL_PIXEL_FORMAT_BPP8_INDEXED = Inr 2"
    by (simp add: example_pcx_env_def example_pcx_state_def example_pcx_header_def)
  have mem: "sail_malloc example_pcx_env (unat (2 :: 32 word)) = Inr 2"
    by (simp add: example_pcx_env_def)
  have pal: "pcx_private_build_palette example_pcx_env SAIL_PIXEL_FORMAT_BPP8_INDEXED (mem_io [])
      (hdr_palette (pcx_header example_pcx_state)) = Inr (None, mem_io [])"
    by (simp add: example_pcx_env_def)
  have res: "sail_alloc_resolution_from_data example_pcx_env SAIL_RESOLUTION_UNIT_INCH
      (hdr_hdpi (pcx_header example_pcx_state)) (hdr_vdpi (pcx_header example_pcx_state))
      = Inr \<lparr>res_unit = SAIL_RESOLUTION_UNIT_INCH, res_x = 72, res_y = 72\<rparr>"
    by (simp add: example_pcx_env_def example_pcx_state_def example_pcx_header_def)
  show ?thesis
    using seek_next_frame_single_frame [OF init valid img src pf bpl mem pal res valid, of "Suc (Suc 0)"]
    by simp
qed

text \<open>
  C10. With a state, a valid I/O object and a valid image skeleton: when the header
  declares an encoding other than SAIL_PCX_NO_ENCODING, or when the frame is not
  encoded and its pixel format is BPP16-RGBA or BPP32-RGBA, read_frame returns
  success, the store (the pixel buffer in particular) is as before the call and the
  stream is as before the call: nothing is read and nothing is written.
\<close>

theorem read_frame_leaves_pixels:
  assumes "sail_check_io_valid env io = Inr ()"
    and "sail_check_image_skeleton_valid env img = Inr ()"
    and "hdr_encoding (pcx_header st) \<noteq> SAIL_PCX_NO_ENCODING env
         \<or> pixel_format img \<in> {SAIL_PIXEL_FORMAT_BPP16_RGBA, SAIL_PIXEL_FORMAT_BPP32_RGBA}"
  shows "sail_codec_read_frame_v6_pcx env (Some st) io img s = (Inr (), s, io)"
  using assms unfolding sail_codec_read_frame_v6_pcx_def by auto

theorem read_frame_leaves_pixels_witness:
  "sail_codec_read_frame_v6_pcx example_pcx_env (Some example_pcx_state) (mem_io [1, 2, 3])
     example_image (\<lambda>_ _. 0) = (Inr (), \<lambda>_ _. 0, mem_io [1, 2, 3])
   \<and> sail_codec_read_frame_v6_pcx example_pcx_env
       (Some (example_pcx_state\<lparr>pcx_header := example_pcx_header\<lparr>hdr_encoding := 0\<rparr>\<rparr>))
       (mem_io [1, 2, 3]) (example_image\<lparr>pixel_format := SAIL_PIXEL_FORMAT_BPP32_RGBA\<rparr>) (\<lambda>_ _. 0)
       = (Inr (), \<lambda>_ _. 0, mem_io [1, 2, 3])"
  using read_frame_leaves_pixels [of example_pcx_env "mem_io [1, 2, 3]" example_image
      example_pcx_state "\<lambda>_ _. 0"]
    read_frame_leaves_pixels [of example_pcx_env "mem_io [1, 2, 3]"
      "example_image\<lparr>pixel_format := SAIL_PIXEL_FORMAT_BPP32_RGBA\<rparr>"
      "example_pcx_state\<lparr>pcx_header := example_pcx_header\<lparr>hdr_encoding := 0\<rparr>\<rparr>" "\<lambda>_ _. 0"]
  by (simp add: example_pcx_env_def example_image_def example_pcx_state_def example_pcx_header_def)

section \<open>Properties of the conversion\<close>

subsection \<open>Palette resolution\<close>

lemma unat_u8_less: "unat (v :: 8 word) < 256"
  using unsigned_less [of v] by simp

lemma unat_times257_u8: "unat (times257 (v :: 8 word)) = unat v * 257"
proof -
  have "unat v < 256" by (rule unat_u8_less)
  then show ?thesis
    unfolding times257_def
    by (simp add: unsigned_ucast_eq unat_word_ariths take_bit_eq_mod)
qed

lemma get_palette_rgba64_out_of_range:
  "color_count pal \<le> index \<Longrightarrow> get_palette_rgba64 s pal index color = Inl SAIL_ERROR_BROKEN_IMAGE"
  by (simp add: get_palette_rgba64_def)

lemma get_palette_rgba64_in_range:
  "index < color_count pal \<Longrightarrow> \<exists>c. get_palette_rgba64 s pal index color = Inr c"
  by (cases "pal_pixel_format pal") (simp_all add: get_palette_rgba64_def Let_def)

lemma get_palette_rgba64_default:
  assumes "index < color_count pal"
    and "pal_pixel_format pal \<noteq> SAIL_PIXEL_FORMAT_BPP24_RGB"
    and "pal_pixel_format pal \<noteq> SAIL_PIXEL_FORMAT_BPP32_RGBA"
  shows "get_palette_rgba64 s pal index color = Inr color"
  using assms by (cases "pal_pixel_format pal") (simp_all add: get_palette_rgba64_def)

text \<open>
  C3. For every palette and every index, resolving the index fails with BrokenImage
  if and only if the index is greater than or equal to the declared colour count of
  the palette: an index below the count is resolved with success, in particular the
  index \<open>color_count - 1\<close> of a palette that declares at least one colour. An index
  out of range is never clamped into range.
\<close>

theorem get_palette_rgba64_bounds:
  "(get_palette_rgba64 s pal index color = Inl SAIL_ERROR_BROKEN_IMAGE \<longleftrightarrow> color_count pal \<le> index)
   \<and> (index < color_count pal \<longrightarrow> (\<exists>c. get_palette_rgba64 s pal index color = Inr c))
   \<and> (0 < color_count pal \<longrightarrow> (\<exists>c. get_palette_rgba64 s pal (color_count pal - 1) color = Inr c))"
proof (intro conjI impI)
  show "get_palette_rgba64 s pal index color = Inl SAIL_ERROR_BROKEN_IMAGE \<longleftrightarrow> color_count pal \<le> index"
  proof
    assume failed: "get_palette_rgba64 s pal index color = Inl SAIL_ERROR_BROKEN_IMAGE"
    show "color_count pal \<le> index"
    proof (rule ccontr)
      assume "\<not> color_count pal \<le> index"
      then have "index < color_count pal" by simp
      from get_palette_rgba64_in_range [OF this, of s color] failed show False by auto
    qed
  next
    assume "color_count pal \<le> index"
    then show "get_palette_rgba64 s pal index color = Inl SAIL_ERROR_BROKEN_IMAGE"
      by (rule get_palette_rgba64_out_of_range)
  qed
next
  assume "index < color_count pal"
  then show "\<exists>c. get_palette_rgba64 s pal index color = Inr c"
    by (rule get_palette_rgba64_in_range)
next
  assume "0 < color_count pal"
  then have nz: "color_count pal \<noteq> 0" by auto
  then have "0 < unat (color_count pal)" by (simp add: unat_gt_0)
  with nz have "color_count pal - 1 < color_count pal"
    by (simp add: word_less_nat_alt unat_minus_one)
  then show "\<exists>c. get_palette_rgba64 s pal (color_count pal - 1) color = Inr c"
    by (rule get_palette_rgba64_in_range)
qed

theorem get_palette_rgba64_bounds_witness:
  "get_palette_rgba64 (\<lambda>_ _. 0)
     \<lparr>pal_pixel_format = SAIL_PIXEL_FORMAT_BPP24_RGB, pal_data = 0, color_count = 3\<rparr> 3
     \<lparr>component1 = 0, component2 = 0, component3 = 0, component4 = 0\<rparr>
     = Inl SAIL_ERROR_BROKEN_IMAGE
   \<and> (\<exists>c. get_palette_rgba64 (\<lambda>_ _. 0)
     \<lparr>pal_pixel_format = SAIL_PIXEL_FORMAT_BPP24_RGB, pal_data = 0, color_count = 3\<rparr> 2
     \<lparr>component1 = 0, component2 = 0, component3 = 0, component4 = 0\<rparr> = Inr c)"
  using get_palette_rgba64_bounds [of "\<lambda>_ _. 0"
      "\<lparr>pal_pixel_format = SAIL_PIXEL_FORMAT_BPP24_RGB, pal_data = 0, color_count = 3\<rparr>" 3
      "\<lparr>component1 = 0, component2 = 0, component3 = 0, component4 = 0\<rparr>"]
    get_palette_rgba64_bounds [of "\<lambda>_ _. 0"
      "\<lparr>pal_pixel_format = SAIL_PIXEL_FORMAT_BPP24_RGB, pal_data = 0, color_count = 3\<rparr>" 2
      "\<lparr>component1 = 0, component2 = 0, component3 = 0, component4 = 0\<rparr>"]
  by simp

text \<open>
  C4. A palette stored with 24-bit BGR entries is neither a 24-bit RGB nor a 32-bit
  RGBA palette. Resolving index 0 of such a palette with two colours returns success
  and leaves the colour of the caller as it was: the status UnsupportedPixelFormat is
  not returned.
\<close>

theorem get_palette_rgba64_unsupported_palette_ok:
  "get_palette_rgba64 (\<lambda>_ _. 0)
     \<lparr>pal_pixel_format = SAIL_PIXEL_FORMAT_BPP24_BGR, pal_data = 0, color_count = 2\<rparr> 0
     \<lparr>component1 = 1, component2 = 2, component3 = 3, component4 = 4\<rparr>
   = Inr \<lparr>component1 = 1, component2 = 2, component3 = 3, component4 = 4\<rparr>"
  by (simp add: get_palette_rgba64_def)

subsection \<open>Which bytes a conversion writes\<close>

text \<open>
  A row of the output starts at a multiple of 8 bytes when the stride is one; a pixel
  then occupies 8 bytes, and the byte at an offset belongs to the 16-bit channel slot
  \<open>(offset div 2) mod 4\<close> of its pixel.
\<close>

definition slot_of :: "nat \<Rightarrow> int" where
  "slot_of offset = int ((offset div 2) mod 4)"

text \<open>
  The store \<open>s'\<close> differs from \<open>s\<close> at most in the block \<open>blk\<close>, and there at most in
  the bytes of the channel slots \<open>r\<close>, \<open>g\<close>, \<open>b\<close> and \<open>a\<close>.
\<close>

definition only_slots :: "nat \<Rightarrow> int \<Rightarrow> int \<Rightarrow> int \<Rightarrow> int \<Rightarrow> store \<Rightarrow> store \<Rightarrow> bool" where
  "only_slots blk r g b a s s' \<longleftrightarrow>
     (\<forall>b' offset. b' \<noteq> blk \<or> slot_of offset \<notin> {r, g, b, a} \<longrightarrow> s' b' offset = s b' offset)"

lemma only_slots_refl: "only_slots blk r g b a s s"
  by (simp add: only_slots_def)

lemma only_slots_trans:
  "only_slots blk r g b a s s1 \<Longrightarrow> only_slots blk r g b a s1 s2 \<Longrightarrow> only_slots blk r g b a s s2"
  by (simp add: only_slots_def)

lemma slot_of_aligned_nat:
  assumes "8 dvd oo" "k \<le> 3"
  shows "slot_of (oo + 2 * k) = int k" "slot_of (Suc (oo + 2 * k)) = int k"
proof -
  from assms(1) obtain m where m: "oo = 8 * m" by (auto simp: dvd_def)
  have "(oo + 2 * k) div 2 = 4 * m + k" using m by simp
  moreover have "Suc (oo + 2 * k) div 2 = 4 * m + k" using m by simp
  ultimately show "slot_of (oo + 2 * k) = int k" "slot_of (Suc (oo + 2 * k)) = int k"
    using assms(2) by (simp_all add: slot_of_def)
qed

lemma slot_of_aligned:
  assumes "8 dvd oo" "0 \<le> c" "c \<le> 3"
  shows "slot_of (nat (int oo + 2 * c)) = c" "slot_of (Suc (nat (int oo + 2 * c))) = c"
proof -
  have n: "nat (int oo + 2 * c) = oo + 2 * nat c" using assms(2) by simp
  have k: "nat c \<le> 3" using assms(3) by simp
  show "slot_of (nat (int oo + 2 * c)) = c" "slot_of (Suc (nat (int oo + 2 * c))) = c"
    unfolding n using slot_of_aligned_nat [OF assms(1) k] assms(2) by simp_all
qed

lemma wr16_only_slots:
  assumes "8 dvd oo" "0 \<le> c" "c \<le> 3" "c \<in> {r, g, b, a}"
  shows "only_slots ob r g b a s (wr16 s (ptr_add16 (ob, oo) c) v)"
proof -
  note sl = slot_of_aligned [OF assms(1-3)]
  show ?thesis
    unfolding only_slots_def
  proof (intro allI impI)
    fix b' offset
    assume h: "b' \<noteq> ob \<or> slot_of offset \<notin> {r, g, b, a}"
    have "b' \<noteq> ob \<or> (offset \<noteq> nat (int oo + 2 * c) \<and> offset \<noteq> Suc (nat (int oo + 2 * c)))"
      using h sl assms(4) by auto
    then show "wr16 s (ptr_add16 (ob, oo) c) v b' offset = s b' offset"
      by (auto simp: wr16_def ptr_add16_def)
  qed
qed

lemma fill_rgba64_pixel_only_slots:
  assumes "8 dvd oo" "0 \<le> r" "r \<le> 3" "0 \<le> g" "g \<le> 3" "0 \<le> b" "b \<le> 3" "a \<le> 3"
  shows "only_slots ob r g b a s (fill_rgba64_pixel s (ob, oo) r g b a rv gv bv av)"
proof -
  have w1: "only_slots ob r g b a s (wr16 s (ptr_add16 (ob, oo) r) rv)"
    using assms by (intro wr16_only_slots) simp_all
  have w2: "only_slots ob r g b a (wr16 s (ptr_add16 (ob, oo) r) rv)
      (wr16 (wr16 s (ptr_add16 (ob, oo) r) rv) (ptr_add16 (ob, oo) g) gv)"
    using assms by (intro wr16_only_slots) simp_all
  have w3: "only_slots ob r g b a (wr16 (wr16 s (ptr_add16 (ob, oo) r) rv) (ptr_add16 (ob, oo) g) gv)
      (wr16 (wr16 (wr16 s (ptr_add16 (ob, oo) r) rv) (ptr_add16 (ob, oo) g) gv) (ptr_add16 (ob, oo) b) bv)"
    using assms by (intro wr16_only_slots) simp_all
  note w123 = only_slots_trans [OF only_slots_trans [OF w1 w2] w3]
  show ?thesis
  proof (cases "0 \<le> a")
    case False
    with w123 show ?thesis by (simp add: fill_rgba64_pixel_def Let_def)
  next
    case True
    have w4: "only_slots ob r g b a
      (wr16 (wr16 (wr16 s (ptr_add16 (ob, oo) r) rv) (ptr_add16 (ob, oo) g) gv) (ptr_add16 (ob, oo) b) bv)
      (wr16 (wr16 (wr16 (wr16 s (ptr_add16 (ob, oo) r) rv) (ptr_add16 (ob, oo) g) gv) (ptr_add16 (ob, oo) b) bv)
         (ptr_add16 (ob, oo) a) av)"
      using assms True by (intro wr16_only_slots) simp_all
    from only_slots_trans [OF w123 w4] True show ?thesis
      by (simp add: fill_rgba64_pixel_def Let_def)
  qed
qed

lemma ptr_add16_4: "ptr_add16 (ob, oo) 4 = (ob, oo + 8)"
  by (simp add: ptr_add16_def)

lemma rgb24_only_slots:
  assumes "8 dvd oo" "0 \<le> r" "r \<le> 3" "0 \<le> g" "g \<le> 3" "0 \<le> b" "b \<le> 3" "a \<le> 3"
  shows "only_slots ob r g b a s (fill_rgba64_scan_from_rgb24_kind s scan_input n ri gi bi (ob, oo) r g b a)"
  using assms(1)
proof (induction n arbitrary: s scan_input oo)
  case 0
  then show ?case by (simp add: only_slots_refl)
next
  case (Suc n)
  have "8 dvd (oo + 8)" using Suc.prems by simp
  from Suc.IH [OF this] fill_rgba64_pixel_only_slots [OF Suc.prems assms(2-8)]
  show ?case
    by (simp add: ptr_add16_4) (blast intro: only_slots_trans)
qed

lemma rgba32_only_slots:
  assumes "8 dvd oo" "0 \<le> r" "r \<le> 3" "0 \<le> g" "g \<le> 3" "0 \<le> b" "b \<le> 3" "a \<le> 3"
  shows "only_slots ob r g b a s (fill_rgba64_scan_from_rgba32_kind s scan_input n ri gi bi ai (ob, oo) r g b a)"
  using assms(1)
proof (induction n arbitrary: s scan_input oo)
  case 0
  then show ?case by (simp add: only_slots_refl)
next
  case (Suc n)
  have "8 dvd (oo + 8)" using Suc.prems by simp
  from Suc.IH [OF this] fill_rgba64_pixel_only_slots [OF Suc.prems assms(2-8)]
  show ?case
    by (simp add: ptr_add16_4 split: prod.splits) (blast intro: only_slots_trans)
qed

lemma rgbx32_only_slots:
  assumes "8 dvd oo" "0 \<le> r" "r \<le> 3" "0 \<le> g" "g \<le> 3" "0 \<le> b" "b \<le> 3" "a \<le> 3"
  shows "only_slots ob r g b a s (fill_rgba64_scan_from_rgbx32_kind s scan_input n ri gi bi (ob, oo) r g b a)"
  using assms(1)
proof (induction n arbitrary: s scan_input oo)
  case 0
  then show ?case by (simp add: only_slots_refl)
next
  case (Suc n)
  have "8 dvd (oo + 8)" using Suc.prems by simp
  from Suc.IH [OF this] fill_rgba64_pixel_only_slots [OF Suc.prems assms(2-8)]
  show ?case
    by (simp add: ptr_add16_4 split: prod.splits) (blast intro: only_slots_trans)
qed

lemma rgb48_only_slots:
  assumes "8 dvd oo" "0 \<le> r" "r \<le> 3" "0 \<le> g" "g \<le> 3" "0 \<le> b" "b \<le> 3" "a \<le> 3"
  shows "only_slots ob r g b a s (fill_rgba64_scan_from_rgb48_kind s scan_input n ri gi bi (ob, oo) r g b a)"
  using assms(1)
proof (induction n arbitrary: s scan_input oo)
  case 0
  then show ?case by (simp add: only_slots_refl)
next
  case (Suc n)
  have "8 dvd (oo + 8)" using Suc.prems by simp
  from Suc.IH [OF this] fill_rgba64_pixel_only_slots [OF Suc.prems assms(2-8)]
  show ?case
    by (simp add: ptr_add16_4 split: prod.splits) (blast intro: only_slots_trans)
qed

lemma rgba64_only_slots:
  assumes "8 dvd oo" "0 \<le> r" "r \<le> 3" "0 \<le> g" "g \<le> 3" "0 \<le> b" "b \<le> 3" "a \<le> 3"
  shows "only_slots ob r g b a s (fill_rgba64_scan_from_rgba64_kind s scan_input n ri gi bi ai (ob, oo) r g b a)"
  using assms(1)
proof (induction n arbitrary: s scan_input oo)
  case 0
  then show ?case by (simp add: only_slots_refl)
next
  case (Suc n)
  have "8 dvd (oo + 8)" using Suc.prems by simp
  from Suc.IH [OF this] fill_rgba64_pixel_only_slots [OF Suc.prems assms(2-8)]
  show ?case
    by (simp add: ptr_add16_4 split: prod.splits) (blast intro: only_slots_trans)
qed

lemma rgbx64_only_slots:
  assumes "8 dvd oo" "0 \<le> r" "r \<le> 3" "0 \<le> g" "g \<le> 3" "0 \<le> b" "b \<le> 3" "a \<le> 3"
  shows "only_slots ob r g b a s (fill_rgba64_scan_from_rgbx64_kind s scan_input n ri gi bi (ob, oo) r g b a)"
  using assms(1)
proof (induction n arbitrary: s scan_input oo)
  case 0
  then show ?case by (simp add: only_slots_refl)
next
  case (Suc n)
  have "8 dvd (oo + 8)" using Suc.prems by simp
  from Suc.IH [OF this] fill_rgba64_pixel_only_slots [OF Suc.prems assms(2-8)]
  show ?case
    by (simp add: ptr_add16_4 split: prod.splits) (blast intro: only_slots_trans)
qed

lemma rgb555_only_slots:
  assumes "8 dvd oo" "0 \<le> r" "r \<le> 3" "0 \<le> g" "g \<le> 3" "0 \<le> b" "b \<le> 3" "a \<le> 3"
  shows "only_slots ob r g b a s (scan_rgb555 r g b a scan_input n (ob, oo) s)"
  using assms(1)
proof (induction n arbitrary: s scan_input oo)
  case 0
  then show ?case by (simp add: only_slots_refl)
next
  case (Suc n)
  have "8 dvd (oo + 8)" using Suc.prems by simp
  from Suc.IH [OF this] fill_rgba64_pixel_only_slots [OF Suc.prems assms(2-8)]
  show ?case
    by (simp add: ptr_add16_4 split: prod.splits) (blast intro: only_slots_trans)
qed

lemma bgr555_only_slots:
  assumes "8 dvd oo" "0 \<le> r" "r \<le> 3" "0 \<le> g" "g \<le> 3" "0 \<le> b" "b \<le> 3" "a \<le> 3"
  shows "only_slots ob r g b a s (scan_bgr555 r g b a scan_input n (ob, oo) s)"
  using assms(1)
proof (induction n arbitrary: s scan_input oo)
  case 0
  then show ?case by (simp add: only_slots_refl)
next
  case (Suc n)
  have "8 dvd (oo + 8)" using Suc.prems by simp
  from Suc.IH [OF this] fill_rgba64_pixel_only_slots [OF Suc.prems assms(2-8)]
  show ?case
    by (simp add: ptr_add16_4 split: prod.splits) (blast intro: only_slots_trans)
qed

lemma cmyk32_only_slots:
  assumes "8 dvd oo" "0 \<le> r" "r \<le> 3" "0 \<le> g" "g \<le> 3" "0 \<le> b" "b \<le> 3" "a \<le> 3"
  shows "only_slots ob r g b a s (scan_cmyk32 env r g b a scan_input n (ob, oo) s)"
  using assms(1)
proof (induction n arbitrary: s scan_input oo)
  case 0
  then show ?case by (simp add: only_slots_refl)
next
  case (Suc n)
  have "8 dvd (oo + 8)" using Suc.prems by simp
  from Suc.IH [OF this] fill_rgba64_pixel_only_slots [OF Suc.prems assms(2-8)]
  show ?case
    by (simp add: ptr_add16_4 split: prod.splits) (blast intro: only_slots_trans)
qed

lemma ycbcr24_only_slots:
  assumes "8 dvd oo" "0 \<le> r" "r \<le> 3" "0 \<le> g" "g \<le> 3" "0 \<le> b" "b \<le> 3" "a \<le> 3"
  shows "only_slots ob r g b a s (scan_ycbcr24 env r g b a scan_input n (ob, oo) s)"
  using assms(1)
proof (induction n arbitrary: s scan_input oo)
  case 0
  then show ?case by (simp add: only_slots_refl)
next
  case (Suc n)
  have "8 dvd (oo + 8)" using Suc.prems by simp
  from Suc.IH [OF this] fill_rgba64_pixel_only_slots [OF Suc.prems assms(2-8)]
  show ?case
    by (simp add: ptr_add16_4 split: prod.splits) (blast intro: only_slots_trans)
qed

text \<open>The store a function leaves, on success and on failure.\<close>

definition store_of :: "(store \<times> 'a) result \<Rightarrow> store" where
  "store_of res = (case res of Inl (e, s) \<Rightarrow> s | Inr (s, x) \<Rightarrow> s)"

lemma store_of_simps [simp]:
  "store_of (Inl (e, s)) = s" "store_of (Inr (s, x)) = s"
  by (simp_all add: store_of_def)

lemma fill_rgba64_pixel_rgba_only_slots:
  assumes "8 dvd oo" "0 \<le> r" "r \<le> 3" "0 \<le> g" "g \<le> 3" "0 \<le> b" "b \<le> 3" "a \<le> 3"
  shows "only_slots ob r g b a s (fill_rgba64_pixel_rgba s (ob, oo) r g b a rgba)"
  unfolding fill_rgba64_pixel_rgba_def using assms by (rule fill_rgba64_pixel_only_slots)

lemma gray16_only_slots:
  assumes "8 dvd oo" "0 \<le> r" "r \<le> 3" "0 \<le> g" "g \<le> 3" "0 \<le> b" "b \<le> 3" "a \<le> 3"
  shows "only_slots ob r g b a s (fst (scan_gray16 r g b a scan_input n (ob, oo) rgba s))"
  using assms(1)
proof (induction n arbitrary: s scan_input oo rgba)
  case 0
  then show ?case by (simp add: only_slots_refl)
next
  case (Suc n)
  have "8 dvd (oo + 8)" using Suc.prems by simp
  from Suc.IH [OF this] fill_rgba64_pixel_rgba_only_slots [OF Suc.prems assms(2-8)]
  show ?case
    by (simp add: ptr_add16_4 Let_def) (blast intro: only_slots_trans)
qed

lemma gray8_alpha_only_slots:
  assumes "8 dvd oo" "0 \<le> r" "r \<le> 3" "0 \<le> g" "g \<le> 3" "0 \<le> b" "b \<le> 3" "a \<le> 3"
  shows "only_slots ob r g b a s (fst (scan_gray8_alpha r g b a scan_input n (ob, oo) rgba s))"
  using assms(1)
proof (induction n arbitrary: s scan_input oo rgba)
  case 0
  then show ?case by (simp add: only_slots_refl)
next
  case (Suc n)
  have "8 dvd (oo + 8)" using Suc.prems by simp
  from Suc.IH [OF this] fill_rgba64_pixel_rgba_only_slots [OF Suc.prems assms(2-8)]
  show ?case
    by (simp add: ptr_add16_4 Let_def) (blast intro: only_slots_trans)
qed

lemma gray16_alpha_only_slots:
  assumes "8 dvd oo" "0 \<le> r" "r \<le> 3" "0 \<le> g" "g \<le> 3" "0 \<le> b" "b \<le> 3" "a \<le> 3"
  shows "only_slots ob r g b a s (fst (scan_gray16_alpha r g b a scan_input n (ob, oo) rgba s))"
  using assms(1)
proof (induction n arbitrary: s scan_input oo rgba)
  case 0
  then show ?case by (simp add: only_slots_refl)
next
  case (Suc n)
  have "8 dvd (oo + 8)" using Suc.prems by simp
  from Suc.IH [OF this] fill_rgba64_pixel_rgba_only_slots [OF Suc.prems assms(2-8)]
  show ?case
    by (simp add: ptr_add16_4 Let_def) (blast intro: only_slots_trans)
qed

lemma bpp8_only_slots:
  assumes "8 dvd oo" "0 \<le> r" "r \<le> 3" "0 \<le> g" "g \<le> 3" "0 \<le> b" "b \<le> 3" "a \<le> 3"
  shows "only_slots ob r g b a s (store_of (scan_bpp8 indexed pal r g b a scan_input n (ob, oo) rgba s))"
  using assms(1)
proof (induction n arbitrary: s scan_input oo rgba)
  case 0
  then show ?case by (simp add: only_slots_refl)
next
  case (Suc n)
  have al: "8 dvd (oo + 8)" using Suc.prems by simp
  show ?case
  proof (cases "if indexed then resolve_index s pal (rd8 s scan_input) rgba
                else Inr (spread_gray8_to_rgba64 (rd8 s scan_input) rgba)")
    case (Inl e)
    then show ?thesis by (simp add: only_slots_refl)
  next
    case (Inr c)
    from Suc.IH [OF al] fill_rgba64_pixel_rgba_only_slots [OF Suc.prems assms(2-8)]
    show ?thesis
      using Inr by (simp add: ptr_add16_4) (blast intro: only_slots_trans)
  qed
qed

lemma unpack_byte_stop:
  assumes "\<not> (0 < bit_mask \<and> pixel_index < w)"
  shows "unpack_byte d indexed pal w r g b a byte bit_shift bit_mask pixel_index scan_output rgba s
     = Inr (s, rgba, scan_output, pixel_index)"
  by (subst unpack_byte.simps) (use assms in auto)

lemma unpack_byte_step:
  assumes "0 < bit_mask" "pixel_index < w"
  shows "unpack_byte d indexed pal w r g b a byte bit_shift bit_mask pixel_index scan_output rgba s
     = (case sample_colour d indexed pal s (sample_index byte bit_mask bit_shift) rgba of
          Inl e \<Rightarrow> Inl (e, s)
        | Inr rgba' \<Rightarrow>
            unpack_byte d indexed pal w r g b a byte
              (bit_shift - of_nat (bit_step d)) (drop_bit (bit_step d) bit_mask) (pixel_index + 1)
              (ptr_add16 scan_output 4) rgba'
              (fill_rgba64_pixel_rgba s scan_output r g b a rgba'))"
  by (subst unpack_byte.simps) (simp add: assms)

lemma unpack_byte_only_slots:
  "8 dvd oo \<Longrightarrow> 0 \<le> r \<Longrightarrow> r \<le> 3 \<Longrightarrow> 0 \<le> g \<Longrightarrow> g \<le> 3 \<Longrightarrow> 0 \<le> b \<Longrightarrow> b \<le> 3 \<Longrightarrow> a \<le> 3 \<Longrightarrow>
    only_slots ob r g b a s
      (store_of (unpack_byte d indexed pal w r g b a byte bit_shift bit_mask pixel_index (ob, oo) rgba s))"
proof (induction d indexed pal w r g b a byte bit_shift bit_mask pixel_index "(ob, oo)" rgba s
    arbitrary: oo rule: unpack_byte.induct)
  case (1 d indexed pal w r g b a byte bit_shift bit_mask pixel_index rgba s)
  show ?case
  proof (cases "bit_mask > 0 \<and> pixel_index < w")
    case False
    then show ?thesis by (simp add: unpack_byte_stop [OF False] only_slots_refl)
  next
    case True
    then have c: "0 < bit_mask" "pixel_index < w" by simp_all
    show ?thesis
    proof (cases "sample_colour d indexed pal s (sample_index byte bit_mask bit_shift) rgba")
      case (Inl e)
      then show ?thesis by (simp add: unpack_byte_step [OF c] only_slots_refl)
    next
      case (Inr c')
      have al: "8 dvd (oo + 8)" using "1.prems" by simp
      have step: "only_slots ob r g b a s (fill_rgba64_pixel_rgba s (ob, oo) r g b a c')"
        using "1.prems" by (rule fill_rgba64_pixel_rgba_only_slots)
      have rest: "only_slots ob r g b a (fill_rgba64_pixel_rgba s (ob, oo) r g b a c')
          (store_of (unpack_byte d indexed pal w r g b a byte
                (bit_shift - of_nat (bit_step d)) (drop_bit (bit_step d) bit_mask) (pixel_index + 1)
                (ob, oo + 8) c' (fill_rgba64_pixel_rgba s (ob, oo) r g b a c')))"
        using "1.hyps" [OF True Inr _ al "1.prems"(2-8)] by (simp add: ptr_add16_4)
      from only_slots_trans [OF step rest] Inr show ?thesis
        by (simp add: unpack_byte_step [OF c] ptr_add16_4)
    qed
  qed
qed

lemma unpack_byte_ptr:
  "unpack_byte d indexed pal w r g b a byte bit_shift bit_mask pixel_index (ob, oo) rgba s
     = Inr (s', rgba', scan_output', pixel_index') \<Longrightarrow> 8 dvd oo \<Longrightarrow>
   fst scan_output' = ob \<and> 8 dvd snd scan_output'"
proof (induction d indexed pal w r g b a byte bit_shift bit_mask pixel_index "(ob, oo)" rgba s
    arbitrary: oo rule: unpack_byte.induct)
  case (1 d indexed pal w r g b a byte bit_shift bit_mask pixel_index rgba s)
  show ?case
  proof (cases "bit_mask > 0 \<and> pixel_index < w")
    case False
    with "1.prems" show ?thesis by (auto simp: unpack_byte_stop [OF False])
  next
    case True
    then have c: "0 < bit_mask" "pixel_index < w" by simp_all
    show ?thesis
    proof (cases "sample_colour d indexed pal s (sample_index byte bit_mask bit_shift) rgba")
      case (Inl e)
      with "1.prems" show ?thesis by (simp add: unpack_byte_step [OF c])
    next
      case (Inr c')
      have al: "8 dvd (oo + 8)" using "1.prems" by simp
      from "1.prems"(1) Inr
      have "unpack_byte d indexed pal w r g b a byte
                (bit_shift - of_nat (bit_step d)) (drop_bit (bit_step d) bit_mask) (pixel_index + 1)
                (ob, oo + 8) c' (fill_rgba64_pixel_rgba s (ob, oo) r g b a c')
             = Inr (s', rgba', scan_output', pixel_index')"
        by (simp add: unpack_byte_step [OF c] ptr_add16_4)
      from "1.hyps" [OF True Inr _ this al] show ?thesis by (simp add: ptr_add16_4)
    qed
  qed
qed

lemma unpack_scan_stop:
  assumes "\<not> pixel_index < w"
  shows "unpack_scan d indexed pal w r g b a scan_input pixel_index scan_output rgba s = Inr (s, rgba)"
  by (subst unpack_scan.simps) (use assms in auto)

lemma unpack_scan_step:
  assumes "pixel_index < w"
  shows "unpack_scan d indexed pal w r g b a scan_input pixel_index scan_output rgba s
     = (case unpack_byte d indexed pal w r g b a (rd8 s scan_input)
                (first_bit_shift d) (first_bit_mask d) pixel_index scan_output rgba s of
           Inl e \<Rightarrow> Inl e
         | Inr (s', rgba', scan_output', pixel_index') \<Rightarrow>
             unpack_scan d indexed pal w r g b a (ptr_add8 scan_input 1) pixel_index' scan_output' rgba' s')"
  by (subst unpack_scan.simps) (simp add: assms)

lemma unpack_scan_only_slots:
  "8 dvd oo \<Longrightarrow> 0 \<le> r \<Longrightarrow> r \<le> 3 \<Longrightarrow> 0 \<le> g \<Longrightarrow> g \<le> 3 \<Longrightarrow> 0 \<le> b \<Longrightarrow> b \<le> 3 \<Longrightarrow> a \<le> 3 \<Longrightarrow>
    only_slots ob r g b a s
      (store_of (unpack_scan d indexed pal w r g b a scan_input pixel_index (ob, oo) rgba s))"
proof (induction d indexed pal w r g b a scan_input pixel_index "(ob, oo)" rgba s
    arbitrary: oo rule: unpack_scan.induct)
  case (1 d indexed pal w r g b a scan_input pixel_index rgba s)
  show ?case
  proof (cases "pixel_index < w")
    case False
    then show ?thesis by (simp add: unpack_scan_stop only_slots_refl)
  next
    case True
    let ?res = "unpack_byte d indexed pal w r g b a (rd8 s scan_input)
                (first_bit_shift d) (first_bit_mask d) pixel_index (ob, oo) rgba s"
    have byte: "only_slots ob r g b a s (store_of ?res)"
      using "1.prems" by (rule unpack_byte_only_slots)
    show ?thesis
    proof (cases ?res)
      case (Inl e)
      with byte show ?thesis by (cases e) (simp add: unpack_scan_step [OF True])
    next
      case (Inr x)
      obtain s' rgba' ob' oo' pixel_index' where x: "x = (s', rgba', (ob', oo'), pixel_index')"
        by (cases x) auto
      from unpack_byte_ptr [OF Inr [unfolded x] "1.prems"(1)] have p: "ob' = ob" "8 dvd oo'" by simp_all
      have rest: "only_slots ob r g b a s'
        (store_of (unpack_scan d indexed pal w r g b a (ptr_add8 scan_input 1) pixel_index' (ob, oo') rgba' s'))"
        using "1.hyps" [OF True Inr [unfolded x p(1)] refl refl refl p(2) "1.prems"(2-8)] by simp
      from byte Inr x have "only_slots ob r g b a s s'" by simp
      from only_slots_trans [OF this rest] Inr x p show ?thesis
        by (simp add: unpack_scan_step [OF True])
    qed
  qed
qed

lemma store_of_Inr: "store_of (Inr p) = fst p"
  by (cases p) simp

lemma store_of_Inl: "store_of (Inl p) = snd p"
  by (cases p) simp

lemma aligned_row_offset:
  fixes bpl row :: "32 word"
  assumes "8 dvd unat bpl"
  shows "8 dvd unat (bpl * row)"
proof -
  have "(8::nat) dvd 2 ^ 32" by simp
  moreover have "8 dvd unat bpl * unat row" using assms by simp
  ultimately have "8 dvd (unat bpl * unat row) mod 2 ^ 32" by (rule dvd_mod [rotated])
  then show ?thesis by (simp add: unat_word_ariths)
qed

lemma to_bpp64_rgba_kind_row_only_slots:
  assumes al: "8 dvd unat (bytes_per_line image_output)"
    and idx: "0 \<le> r" "r \<le> 3" "0 \<le> g" "g \<le> 3" "0 \<le> b" "b \<le> 3" "a \<le> 3"
  shows "only_slots (pixels image_output) r g b a s
           (store_of (to_bpp64_rgba_kind_row env image_input r g b a image_output row rgba s))"
proof -
  have o: "8 dvd unat (bytes_per_line image_output * row)"
    using al by (rule aligned_row_offset)
  note scans = rgb24_only_slots [OF o idx] rgba32_only_slots [OF o idx] rgbx32_only_slots [OF o idx]
    rgb48_only_slots [OF o idx] rgba64_only_slots [OF o idx] rgbx64_only_slots [OF o idx]
    rgb555_only_slots [OF o idx] bgr555_only_slots [OF o idx]
    cmyk32_only_slots [OF o idx] ycbcr24_only_slots [OF o idx]
    gray16_only_slots [OF o idx] gray8_alpha_only_slots [OF o idx] gray16_alpha_only_slots [OF o idx]
    bpp8_only_slots [OF o idx] unpack_scan_only_slots [OF o idx]
  show ?thesis
    by (cases "pixel_format image_input")
      (simp_all add: to_bpp64_rgba_kind_row_def Let_def store_of_Inr scans only_slots_refl)
qed

lemma to_bpp64_rgba_kind_rows_only_slots:
  assumes al: "8 dvd unat (bytes_per_line image_output)"
    and idx: "0 \<le> r" "r \<le> 3" "0 \<le> g" "g \<le> 3" "0 \<le> b" "b \<le> 3" "a \<le> 3"
  shows "only_slots (pixels image_output) r g b a s
           (store_of (to_bpp64_rgba_kind_rows env image_input r g b a image_output n row rgba s))"
proof (induction n arbitrary: row rgba s)
  case 0
  show ?case by (simp add: only_slots_refl)
next
  case (Suc n)
  let ?res = "to_bpp64_rgba_kind_row env image_input r g b a image_output row rgba s"
  have first: "only_slots (pixels image_output) r g b a s (store_of ?res)"
    using al idx by (rule to_bpp64_rgba_kind_row_only_slots)
  show ?case
  proof (cases ?res)
    case (Inl e)
    with first show ?thesis by simp
  next
    case (Inr x)
    obtain s' rgba' where x: "x = (s', rgba')" by (cases x)
    from first Inr x have "only_slots (pixels image_output) r g b a s s'" by simp
    from only_slots_trans [OF this Suc.IH [of s' "row + 1" rgba']] Inr x
    show ?thesis by simp
  qed
qed

lemma to_bpp64_rgba_kind_only_slots:
  assumes "8 dvd unat (bytes_per_line image_output)"
    and "0 \<le> r" "r \<le> 3" "0 \<le> g" "g \<le> 3" "0 \<le> b" "b \<le> 3" "a \<le> 3"
  shows "to_bpp64_rgba_kind env image_input r g b a image_output rgba s = Inr s' \<Longrightarrow>
           only_slots (pixels image_output) r g b a s s'"
    and "to_bpp64_rgba_kind env image_input r g b a image_output rgba s = Inl (e, s') \<Longrightarrow>
           only_slots (pixels image_output) r g b a s s'"
  using to_bpp64_rgba_kind_rows_only_slots [OF assms, of s env image_input "unat (height image_input)" 0 rgba]
  by (auto simp: to_bpp64_rgba_kind_def split: sum.splits prod.splits)

lemma alpha_less_indexes:
  assumes "output_pixel_format \<in> {SAIL_PIXEL_FORMAT_BPP64_RGBX, SAIL_PIXEL_FORMAT_BPP64_BGRX,
              SAIL_PIXEL_FORMAT_BPP64_XRGB, SAIL_PIXEL_FORMAT_BPP64_XBGR}"
    and "verify_and_construct_rgba64_indexes output_pixel_format = Inr (r, g, b, a)"
  shows "a = -1" "0 \<le> r" "r \<le> 3" "0 \<le> g" "g \<le> 3" "0 \<le> b" "b \<le> 3"
  using assms by auto

lemma slot_of_nonneg: "0 \<le> slot_of offset"
  by (simp add: slot_of_def)

lemma convert_alloc_success:
  assumes "sail_convert_image_to_bpp64_rgba_kind env image_input output_pixel_format ptr rgba s
             = Inr (s', image_output)"
  shows "\<exists>r g b a. verify_and_construct_rgba64_indexes output_pixel_format = Inr (r, g, b, a)
           \<and> to_bpp64_rgba_kind env image_input r g b a image_output rgba s = Inr s'"
  using assms
  by (auto simp: sail_convert_image_to_bpp64_rgba_kind_def Let_def split: sum.splits prod.splits if_splits)

lemma convert_in_place_store:
  assumes "verify_and_construct_rgba64_indexes output_pixel_format = Inr (r, g, b, a)"
  shows "store_of (sail_convert_image_to_bpp64_rgba_kind_in_place env img output_pixel_format rgba s) = s
       \<or> (\<exists>s'. to_bpp64_rgba_kind env img r g b a img rgba s = Inr s'
             \<and> store_of (sail_convert_image_to_bpp64_rgba_kind_in_place env img output_pixel_format rgba s) = s')
       \<or> (\<exists>e s'. to_bpp64_rgba_kind env img r g b a img rgba s = Inl (e, s')
             \<and> store_of (sail_convert_image_to_bpp64_rgba_kind_in_place env img output_pixel_format rgba s) = s')"
  using assms
  by (auto simp: sail_convert_image_to_bpp64_rgba_kind_in_place_def Let_def split: sum.splits prod.splits)

text \<open>
  The allocating conversion of the example image to BPP64-RGBX, into a fresh block
  of zeros: the padding slot of the pixel (byte offset 6) holds 0 after the
  conversion, not 65535.
\<close>

theorem alpha_less_padding_counterexample:
  "output_sample
     (sail_convert_image_to_bpp64_rgba_kind example_manip_env example_rgba64_image
        SAIL_PIXEL_FORMAT_BPP64_RGBX True example_rgba example_store) 6 = Inr 0"
  by (simp add: output_sample_def sail_convert_image_to_bpp64_rgba_kind_def example_manip_env_def
      example_rgba64_image_def example_store_def block_of_list_def to_bpp64_rgba_kind_def
      to_bpp64_rgba_kind_row_def fill_rgba64_pixel_def wr16_def rd16_def ptr_add16_def Let_def)

text \<open>
  C2, amended. For every conversion to one of the four alpha-less 64-bit targets
  and every source format, with a stride of the output that is a multiple of 8
  bytes: no byte of a padding slot of the output buffer is written. Every byte
  outside of the three colour slots holds after the conversion what the buffer held
  there before it: the content of the fresh allocation for the allocating entry
  point, the former sample of the image for the in-place entry point (on success
  and on failure).
\<close>

theorem alpha_less_padding_not_written:
  assumes tgt: "output_pixel_format \<in> {SAIL_PIXEL_FORMAT_BPP64_RGBX, SAIL_PIXEL_FORMAT_BPP64_BGRX,
              SAIL_PIXEL_FORMAT_BPP64_XRGB, SAIL_PIXEL_FORMAT_BPP64_XBGR}"
    and idx: "verify_and_construct_rgba64_indexes output_pixel_format = Inr (r, g, b, a)"
    and pad: "slot_of offset \<notin> {r, g, b}"
  shows "(case sail_convert_image_to_bpp64_rgba_kind env image_input output_pixel_format True rgba s of
            Inl failure \<Rightarrow> True
          | Inr (s', image_output) \<Rightarrow>
              8 dvd unat (bytes_per_line image_output) \<longrightarrow>
              s' (pixels image_output) offset = s (pixels image_output) offset)
       \<and> (8 dvd unat (bytes_per_line img) \<longrightarrow>
            store_of (sail_convert_image_to_bpp64_rgba_kind_in_place env img output_pixel_format rgba s)
              (pixels img) offset = s (pixels img) offset)"
proof -
  note i = alpha_less_indexes [OF tgt idx]
  have a3: "a \<le> 3" using i(1) by simp
  have pad': "slot_of offset \<notin> {r, g, b, a}"
    using pad i(1) slot_of_nonneg [of offset] by auto
  have keep: "s' blk offset = s blk offset" if "only_slots blk r g b a s s'" for blk s'
    using that pad' by (simp add: only_slots_def)
  have alloc: "case sail_convert_image_to_bpp64_rgba_kind env image_input output_pixel_format True rgba s of
            Inl failure \<Rightarrow> True
          | Inr (s', image_output) \<Rightarrow>
              8 dvd unat (bytes_per_line image_output) \<longrightarrow>
              s' (pixels image_output) offset = s (pixels image_output) offset"
  proof (cases "sail_convert_image_to_bpp64_rgba_kind env image_input output_pixel_format True rgba s")
    case (Inl failure)
    then show ?thesis by simp
  next
    case (Inr x)
    obtain s' image_output where x: "x = (s', image_output)" by (cases x)
    from convert_alloc_success [OF Inr [unfolded x]] idx
    have run: "to_bpp64_rgba_kind env image_input r g b a image_output rgba s = Inr s'" by auto
    have "s' (pixels image_output) offset = s (pixels image_output) offset"
      if al: "8 dvd unat (bytes_per_line image_output)"
      using to_bpp64_rgba_kind_only_slots(1) [OF al i(2-7) a3 run] by (rule keep)
    with Inr x show ?thesis by simp
  qed
  have inplace: "store_of (sail_convert_image_to_bpp64_rgba_kind_in_place env img output_pixel_format rgba s)
              (pixels img) offset = s (pixels img) offset"
    if al: "8 dvd unat (bytes_per_line img)"
    using convert_in_place_store [OF idx, of env img rgba s]
      to_bpp64_rgba_kind_only_slots [OF al i(2-7) a3, of env img rgba s, THEN keep]
    by auto
  from alloc inplace show ?thesis by blast
qed

theorem alpha_less_padding_not_written_witness:
  "(case sail_convert_image_to_bpp64_rgba_kind example_manip_env example_rgba64_image
           SAIL_PIXEL_FORMAT_BPP64_RGBX True example_rgba example_store of
      Inl failure \<Rightarrow> False
    | Inr (s', image_output) \<Rightarrow> s' (pixels image_output) 7 = example_store (pixels image_output) 7)
   \<and> store_of (sail_convert_image_to_bpp64_rgba_kind_in_place example_manip_env example_rgba64_image
           SAIL_PIXEL_FORMAT_BPP64_RGBX example_rgba example_store) 1 6 = 4"
  using alpha_less_padding_not_written [where output_pixel_format = SAIL_PIXEL_FORMAT_BPP64_RGBX
      and r = 0 and g = 1 and b = 2 and a = "-1" and offset = 7 and env = example_manip_env
      and image_input = example_rgba64_image and rgba = example_rgba and s = example_store
      and img = example_rgba64_image]
    alpha_less_padding_not_written [where output_pixel_format = SAIL_PIXEL_FORMAT_BPP64_RGBX
      and r = 0 and g = 1 and b = 2 and a = "-1" and offset = 6 and env = example_manip_env
      and image_input = example_rgba64_image and rgba = example_rgba and s = example_store
      and img = example_rgba64_image]
  by (simp add: slot_of_def sail_convert_image_to_bpp64_rgba_kind_def example_manip_env_def
      example_rgba64_image_def example_store_def block_of_list_def to_bpp64_rgba_kind_def
      to_bpp64_rgba_kind_row_def Let_def)

text \<open>
  C7. For every valid image and every RGBA64-kind target whose bits per pixel are
  defined: when the bits per pixel of the target exceed those of the source, the
  in-place entry point fails with SAIL_ERROR_UNSUPPORTED_PIXEL_FORMAT and the store is
  as before the call (nothing is allocated, nothing is written); when the target
  fits, the entry point returns at once for the same format and runs
  to_bpp64_rgba_kind with the image as input and as output otherwise, returning the
  image with its buffer and stride as they were and the new pixel format.
\<close>

theorem in_place_requires_fit:
  assumes valid: "sail_check_image_valid env img = Inr ()"
    and tgt: "verify_and_construct_rgba64_indexes output_pixel_format = Inr (r, g, b, a)"
    and bits: "sail_bits_per_pixel (pixel_format img) = Inr bits_in"
              "sail_bits_per_pixel output_pixel_format = Inr bits_out"
  shows "(bits_in < bits_out \<longrightarrow>
           sail_convert_image_to_bpp64_rgba_kind_in_place env img output_pixel_format rgba s
             = Inl (SAIL_ERROR_UNSUPPORTED_PIXEL_FORMAT, s))
       \<and> (bits_out \<le> bits_in \<longrightarrow>
           sail_convert_image_to_bpp64_rgba_kind_in_place env img output_pixel_format rgba s
             = (if pixel_format img = output_pixel_format then Inr (s, img)
                else case to_bpp64_rgba_kind env img r g b a img rgba s of
                  Inl e \<Rightarrow> Inl e
                | Inr s' \<Rightarrow> Inr (s', img\<lparr>pixel_format := output_pixel_format\<rparr>)))"
proof (intro conjI impI)
  assume small: "bits_in < bits_out"
  then have "pixel_format img \<noteq> output_pixel_format" using bits by auto
  moreover from small have "\<not> bits_out \<le> bits_in" by (simp add: not_le)
  ultimately
  show "sail_convert_image_to_bpp64_rgba_kind_in_place env img output_pixel_format rgba s
          = Inl (SAIL_ERROR_UNSUPPORTED_PIXEL_FORMAT, s)"
    using valid tgt bits
    by (simp add: sail_convert_image_to_bpp64_rgba_kind_in_place_def
        sail_greater_equal_bits_per_pixel_def)
next
  assume "bits_out \<le> bits_in"
  with valid tgt bits
  show "sail_convert_image_to_bpp64_rgba_kind_in_place env img output_pixel_format rgba s
          = (if pixel_format img = output_pixel_format then Inr (s, img)
             else case to_bpp64_rgba_kind env img r g b a img rgba s of
               Inl e \<Rightarrow> Inl e
             | Inr s' \<Rightarrow> Inr (s', img\<lparr>pixel_format := output_pixel_format\<rparr>))"
    by (simp add: sail_convert_image_to_bpp64_rgba_kind_in_place_def
        sail_greater_equal_bits_per_pixel_def)
qed

theorem in_place_requires_fit_witness:
  "sail_convert_image_to_bpp64_rgba_kind_in_place example_manip_env
      (example_rgba64_image\<lparr>pixel_format := SAIL_PIXEL_FORMAT_BPP32_RGBA\<rparr>)
      SAIL_PIXEL_FORMAT_BPP64_RGBA example_rgba example_store
     = Inl (SAIL_ERROR_UNSUPPORTED_PIXEL_FORMAT, example_store)
   \<and> output_sample (sail_convert_image_to_bpp64_rgba_kind_in_place example_manip_env
      example_rgba64_image SAIL_PIXEL_FORMAT_BPP64_BGRA example_rgba example_store) 0 = Inr 3"
  using in_place_requires_fit [where env = example_manip_env
      and img = "example_rgba64_image\<lparr>pixel_format := SAIL_PIXEL_FORMAT_BPP32_RGBA\<rparr>"
      and output_pixel_format = SAIL_PIXEL_FORMAT_BPP64_RGBA and r = 0 and g = 1 and b = 2 and a = 3
      and bits_in = 32 and bits_out = 64 and rgba = example_rgba and s = example_store]
    in_place_requires_fit [where env = example_manip_env and img = example_rgba64_image
      and output_pixel_format = SAIL_PIXEL_FORMAT_BPP64_BGRA and r = 2 and g = 1 and b = 0 and a = 3
      and bits_in = 64 and bits_out = 64 and rgba = example_rgba and s = example_store]
  by (simp add: output_sample_def example_manip_env_def
      example_rgba64_image_def example_store_def block_of_list_def to_bpp64_rgba_kind_def
      to_bpp64_rgba_kind_row_def fill_rgba64_pixel_def wr16_def rd16_def ptr_add16_def Let_def)
lemma u16_bytes: "push_bit 8 (ucast (ucast (drop_bit 8 v) :: 8 word)) OR ucast (ucast v :: 8 word) = (v :: 16 word)"
  by (rule bit_word_eqI) (auto simp: bit_simps)

lemma rd16_wr16_same: "rd16 (wr16 s p v) p = v"
  by (simp add: rd16_def wr16_def u16_bytes)

lemma rd16_wr16_other:
  "fst p \<noteq> fst q \<or> (snd q \<noteq> snd p \<and> snd q \<noteq> Suc (snd p) \<and> Suc (snd q) \<noteq> snd p) \<Longrightarrow>
   rd16 (wr16 s p v) q = rd16 s q"
  by (auto simp: rd16_def wr16_def)

lemma ptr_add16_distinct:
  assumes "0 \<le> c" "0 \<le> d" "c \<noteq> d"
  shows "snd (ptr_add16 p d) \<noteq> snd (ptr_add16 p c)"
    "snd (ptr_add16 p d) \<noteq> Suc (snd (ptr_add16 p c))"
    "Suc (snd (ptr_add16 p d)) \<noteq> snd (ptr_add16 p c)"
  using assms by (auto simp: ptr_add16_def)

lemma fill_rgba64_pixel_channels:
  assumes "0 \<le> r" "0 \<le> g" "0 \<le> b" "r \<noteq> g" "r \<noteq> b" "g \<noteq> b" "a \<notin> {r, g, b}"
  shows "rd16 (fill_rgba64_pixel s p r g b a rv gv bv av) (ptr_add16 p r) = rv"
    and "rd16 (fill_rgba64_pixel s p r g b a rv gv bv av) (ptr_add16 p g) = gv"
    and "rd16 (fill_rgba64_pixel s p r g b a rv gv bv av) (ptr_add16 p b) = bv"
    and "0 \<le> a \<Longrightarrow> rd16 (fill_rgba64_pixel s p r g b a rv gv bv av) (ptr_add16 p a) = av"
  using assms
  by (simp_all add: fill_rgba64_pixel_def Let_def rd16_wr16_same rd16_wr16_other ptr_add16_distinct)

subsection \<open>The pixels a scan writes\<close>

text \<open>
  The scan functions that cannot fail share one shape: per pixel, read the four
  samples from the input pointer, store them with fill_rgba64_pixel, advance the
  input pointer by \<open>k\<close> bytes and the output pointer by one pixel. \<open>pixel_scan\<close> is
  that loop for a reader of the four samples; each scan function is an instance of it.
\<close>

type_synonym pixel_reader = "store \<Rightarrow> ptr \<Rightarrow> 16 word \<times> 16 word \<times> 16 word \<times> 16 word"

fun pixel_scan ::
  "pixel_reader \<Rightarrow> int \<Rightarrow> store \<Rightarrow> ptr \<Rightarrow> nat \<Rightarrow> ptr \<Rightarrow> int \<Rightarrow> int \<Rightarrow> int \<Rightarrow> int \<Rightarrow> store" where
  "pixel_scan rd k s scan_input 0 scan_output r g b a = s"
| "pixel_scan rd k s scan_input (Suc n) scan_output r g b a =
     (case rd s scan_input of
        (rv, gv, bv, av) \<Rightarrow>
          pixel_scan rd k (fill_rgba64_pixel s scan_output r g b a rv gv bv av)
            (ptr_add8 scan_input k) n (ptr_add16 scan_output 4) r g b a)"

text \<open>The reader looks at the bytes of one block only.\<close>

definition reads_block :: "pixel_reader \<Rightarrow> nat \<Rightarrow> bool" where
  "reads_block rd blk \<longleftrightarrow> (\<forall>s s' p. fst p = blk \<longrightarrow> s blk = s' blk \<longrightarrow> rd s p = rd s' p)"

text \<open>
  The channel indexes of a target: three distinct slots for the colours, and for the
  alpha a fourth slot or a negative index.
\<close>

definition valid_indexes :: "int \<Rightarrow> int \<Rightarrow> int \<Rightarrow> int \<Rightarrow> bool" where
  "valid_indexes r g b a \<longleftrightarrow>
     0 \<le> r \<and> r \<le> 3 \<and> 0 \<le> g \<and> g \<le> 3 \<and> 0 \<le> b \<and> b \<le> 3 \<and> a \<le> 3 \<and>
     r \<noteq> g \<and> r \<noteq> b \<and> g \<noteq> b \<and> a \<notin> {r, g, b}"

lemma wr16_ptr_add16_outside:
  assumes "0 \<le> c" "c \<le> 3" "b' \<noteq> ob \<or> offset < oo \<or> oo + 8 \<le> offset"
  shows "wr16 s (ptr_add16 (ob, oo) c) v b' offset = s b' offset"
proof -
  have "nat (int oo + 2 * c) = oo + 2 * nat c" using assms(1) by simp
  moreover have "nat c \<le> 3" using assms(2) by simp
  ultimately show ?thesis
    using assms(3) by (auto simp: wr16_def ptr_add16_def)
qed

lemma fill_rgba64_pixel_outside:
  assumes "valid_indexes r g b a"
    and "b' \<noteq> ob \<or> offset < oo \<or> oo + 8 \<le> offset"
  shows "fill_rgba64_pixel s (ob, oo) r g b a rv gv bv av b' offset = s b' offset"
proof -
  have w: "wr16 s' (ptr_add16 (ob, oo) c) v b' offset = s' b' offset" if "0 \<le> c" "c \<le> 3" for s' c v
    using that assms(2) by (rule wr16_ptr_add16_outside)
  from assms(1) show ?thesis
    by (simp add: fill_rgba64_pixel_def Let_def valid_indexes_def w)
qed

lemma pixel_scan_outside:
  assumes "valid_indexes r g b a"
  shows "b' \<noteq> ob \<or> offset < oo \<or> oo + 8 * n \<le> offset \<Longrightarrow>
         pixel_scan rd k s scan_input n (ob, oo) r g b a b' offset = s b' offset"
proof (induction n arbitrary: s scan_input oo)
  case 0
  show ?case by simp
next
  case (Suc n)
  obtain rv gv bv av where rd: "rd s scan_input = (rv, gv, bv, av)" by (cases "rd s scan_input") auto
  have rest: "b' \<noteq> ob \<or> offset < oo + 8 \<or> (oo + 8) + 8 * n \<le> offset" using Suc.prems by auto
  have here: "b' \<noteq> ob \<or> offset < oo \<or> oo + 8 \<le> offset" using Suc.prems by auto
  show ?case
    using Suc.IH [OF rest] fill_rgba64_pixel_outside [OF assms here]
    by (simp add: rd ptr_add16_4)
qed

lemma rd16_cong: "s' (fst p) (snd p) = s (fst p) (snd p) \<Longrightarrow> s' (fst p) (Suc (snd p)) = s (fst p) (Suc (snd p))
   \<Longrightarrow> rd16 s' p = rd16 s p"
  by (simp add: rd16_def)

lemma pixel_scan_samples:
  assumes idx: "valid_indexes r g b a"
    and rd: "reads_block rd ib"
    and blocks: "ib \<noteq> ob"
    and k: "0 \<le> k"
  shows "j < n \<Longrightarrow>
     (case rd s (ib, nat (int io + k * int j)) of
        (rv, gv, bv, av) \<Rightarrow>
          rd16 (pixel_scan rd k s (ib, io) n (ob, oo) r g b a) (ptr_add16 (ob, oo + 8 * j) r) = rv
        \<and> rd16 (pixel_scan rd k s (ib, io) n (ob, oo) r g b a) (ptr_add16 (ob, oo + 8 * j) g) = gv
        \<and> rd16 (pixel_scan rd k s (ib, io) n (ob, oo) r g b a) (ptr_add16 (ob, oo + 8 * j) b) = bv
        \<and> (0 \<le> a \<longrightarrow>
            rd16 (pixel_scan rd k s (ib, io) n (ob, oo) r g b a) (ptr_add16 (ob, oo + 8 * j) a) = av))"
proof (induction n arbitrary: s io oo j)
  case 0
  then show ?case by simp
next
  case (Suc n)
  obtain rv gv bv av where first: "rd s (ib, io) = (rv, gv, bv, av)" by (cases "rd s (ib, io)") auto
  define s1 where "s1 = fill_rgba64_pixel s (ob, oo) r g b a rv gv bv av"
  define s' where "s' = pixel_scan rd k s1 (ib, nat (int io + k)) n (ob, oo + 8) r g b a"
  have unfold: "pixel_scan rd k s (ib, io) (Suc n) (ob, oo) r g b a = s'"
    by (simp add: first ptr_add16_4 ptr_add8_def s'_def s1_def)
  have same_input: "s1 ib = s ib"
  proof (rule ext)
    fix offset
    have "ib \<noteq> ob \<or> offset < oo \<or> oo + 8 \<le> offset" using blocks by simp
    from fill_rgba64_pixel_outside [OF idx this] show "s1 ib offset = s ib offset"
      by (simp only: s1_def)
  qed
  from idx have i: "0 \<le> r" "r \<le> 3" "0 \<le> g" "g \<le> 3" "0 \<le> b" "b \<le> 3" "a \<le> 3"
      "r \<noteq> g" "r \<noteq> b" "g \<noteq> b" "a \<notin> {r, g, b}"
    by (simp_all add: valid_indexes_def)
  show ?case
  proof (cases j)
    case 0
    have keep: "rd16 s' (ptr_add16 (ob, oo) c) = rd16 s1 (ptr_add16 (ob, oo) c)" if "0 \<le> c" "c \<le> 3" for c
    proof (rule rd16_cong)
      have n: "nat (int oo + 2 * c) = oo + 2 * nat c" "nat c \<le> 3" using that by simp_all
      have lo: "ob \<noteq> ob \<or> oo + 2 * nat c < oo + 8 \<or> oo + 8 + 8 * n \<le> oo + 2 * nat c"
        using n(2) by simp
      have hi: "ob \<noteq> ob \<or> Suc (oo + 2 * nat c) < oo + 8 \<or> oo + 8 + 8 * n \<le> Suc (oo + 2 * nat c)"
        using n(2) by simp
      show "s' (fst (ptr_add16 (ob, oo) c)) (snd (ptr_add16 (ob, oo) c))
            = s1 (fst (ptr_add16 (ob, oo) c)) (snd (ptr_add16 (ob, oo) c))"
        using pixel_scan_outside [OF idx lo] by (simp add: ptr_add16_def n(1) s'_def)
      show "s' (fst (ptr_add16 (ob, oo) c)) (Suc (snd (ptr_add16 (ob, oo) c)))
            = s1 (fst (ptr_add16 (ob, oo) c)) (Suc (snd (ptr_add16 (ob, oo) c)))"
        using pixel_scan_outside [OF idx hi] by (simp add: ptr_add16_def n(1) s'_def)
    qed
    note ch = fill_rgba64_pixel_channels [OF i(1,3,5,8,9,10,11), of s "(ob, oo)" rv gv bv av,
        folded s1_def]
    have "rd16 s' (ptr_add16 (ob, oo) r) = rv" using keep [OF i(1,2)] ch(1) by simp
    moreover have "rd16 s' (ptr_add16 (ob, oo) g) = gv" using keep [OF i(3,4)] ch(2) by simp
    moreover have "rd16 s' (ptr_add16 (ob, oo) b) = bv" using keep [OF i(5,6)] ch(3) by simp
    moreover have "0 \<le> a \<Longrightarrow> rd16 s' (ptr_add16 (ob, oo) a) = av"
      using keep [OF _ i(7)] ch(4) by simp
    ultimately show ?thesis
      unfolding unfold using 0 first by simp
  next
    case (Suc j')
    then have j': "j' < n" using Suc.prems by simp
    have pos: "nat (int (nat (int io + k)) + k * int j') = nat (int io + k * int j)"
      using k Suc by (simp add: algebra_simps)
    have input: "rd s1 (ib, nat (int io + k * int j)) = rd s (ib, nat (int io + k * int j))"
      using rd [unfolded reads_block_def, rule_format, of "(ib, nat (int io + k * int j))" s1 s] same_input
      by simp
    have addr: "oo + 8 + 8 * j' = oo + 8 * j" using Suc by simp
    from Suc.IH [OF j', of s1 "nat (int io + k)" "oo + 8"]
    show ?thesis
      unfolding unfold pos input addr s'_def [symmetric] .
  qed
qed

text \<open>
  The pixel at a pointer holds the samples \<open>v\<close> in the slots of the indexes (the alpha
  sample only if the target has an alpha slot).
\<close>

definition holds_pixel ::
  "store \<Rightarrow> ptr \<Rightarrow> int \<Rightarrow> int \<Rightarrow> int \<Rightarrow> int \<Rightarrow> 16 word \<times> 16 word \<times> 16 word \<times> 16 word \<Rightarrow> bool" where
  "holds_pixel s p r g b a v \<longleftrightarrow>
     (case v of (rv, gv, bv, av) \<Rightarrow>
        rd16 s (ptr_add16 p r) = rv \<and> rd16 s (ptr_add16 p g) = gv \<and> rd16 s (ptr_add16 p b) = bv
        \<and> (0 \<le> a \<longrightarrow> rd16 s (ptr_add16 p a) = av))"

lemma pixel_scan_holds_pixel:
  assumes "valid_indexes r g b a" "reads_block rd ib" "ib \<noteq> ob" "0 \<le> k" "j < n"
  shows "holds_pixel (pixel_scan rd k s (ib, io) n (ob, oo) r g b a) (ob, oo + 8 * j) r g b a
           (rd s (ib, nat (int io + k * int j)))"
  using pixel_scan_samples [OF assms, of s io oo] by (simp add: holds_pixel_def)

lemma holds_pixel_cong:
  assumes "valid_indexes r g b a"
    and "\<And>offset. oo \<le> offset \<Longrightarrow> offset < oo + 8 \<Longrightarrow> s' ob offset = s ob offset"
  shows "holds_pixel s' (ob, oo) r g b a v = holds_pixel s (ob, oo) r g b a v"
proof -
  have eq: "rd16 s' (ptr_add16 (ob, oo) c) = rd16 s (ptr_add16 (ob, oo) c)" if "0 \<le> c" "c \<le> 3" for c
  proof (rule rd16_cong)
    have n: "nat (int oo + 2 * c) = oo + 2 * nat c" "nat c \<le> 3" using that by simp_all
    show "s' (fst (ptr_add16 (ob, oo) c)) (snd (ptr_add16 (ob, oo) c))
            = s (fst (ptr_add16 (ob, oo) c)) (snd (ptr_add16 (ob, oo) c))"
      using n(2) by (simp add: ptr_add16_def n(1) assms(2))
    show "s' (fst (ptr_add16 (ob, oo) c)) (Suc (snd (ptr_add16 (ob, oo) c)))
            = s (fst (ptr_add16 (ob, oo) c)) (Suc (snd (ptr_add16 (ob, oo) c)))"
      using n(2) by (simp add: ptr_add16_def n(1) assms(2))
  qed
  from assms(1) have i: "0 \<le> r" "r \<le> 3" "0 \<le> g" "g \<le> 3" "0 \<le> b" "b \<le> 3" "a \<le> 3"
    by (simp_all add: valid_indexes_def)
  show ?thesis
    using eq [OF i(1,2)] eq [OF i(3,4)] eq [OF i(5,6)] eq [OF _ i(7)]
    by (cases v) (auto simp: holds_pixel_def)
qed

lemma unat_mult_row:
  fixes bpl row :: "32 word"
  assumes "unat bpl * unat row < 2 ^ 32"
  shows "unat (bpl * row) = unat bpl * unat row"
  using assms by (simp add: unat_word_ariths)

lemma unat_succ_row:
  fixes row :: "32 word"
  assumes "unat row + 1 < 2 ^ 32"
  shows "unat (row + 1) = unat row + 1"
  using assms by (simp add: unat_word_ariths)

lemma to_bpp64_rgba_kind_rows_pixels:
  assumes row: "\<And>row rgba s. to_bpp64_rgba_kind_row env image_input r g b a image_output row rgba s
       = Inr (pixel_scan rd k s (pixels image_input, unat (bytes_per_line image_input * row))
                (unat (width image_input))
                (pixels image_output, unat (bytes_per_line image_output * row)) r g b a, rgba)"
    and idx: "valid_indexes r g b a"
    and rd: "reads_block rd (pixels image_input)"
    and blocks: "pixels image_input \<noteq> pixels image_output"
    and k: "0 \<le> k"
    and stride: "8 * unat (width image_input) \<le> unat (bytes_per_line image_output)"
    and size: "unat (bytes_per_line image_output) * H < 2 ^ 32" "H < 2 ^ 32"
  shows "unat row0 + n \<le> H \<Longrightarrow>
     \<exists>s'. to_bpp64_rgba_kind_rows env image_input r g b a image_output n row0 rgba s = Inr (s', rgba)
       \<and> (\<forall>j<n. \<forall>col<unat (width image_input).
            holds_pixel s' (pixels image_output,
                unat (bytes_per_line image_output) * (unat row0 + j) + 8 * col) r g b a
              (rd s (pixels image_input,
                 nat (int (unat (bytes_per_line image_input * (row0 + of_nat j))) + k * int col))))
       \<and> (\<forall>b' offset. b' \<noteq> pixels image_output
              \<or> offset < unat (bytes_per_line image_output) * unat row0 \<longrightarrow> s' b' offset = s b' offset)"
proof (induction n arbitrary: row0 s)
  case 0
  show ?case by simp
next
  case (Suc n)
  define ib where "ib = pixels image_input"
  define ob where "ob = pixels image_output"
  define B where "B = unat (bytes_per_line image_output)"
  define w where "w = unat (width image_input)"
  define R where "R = unat row0"
  define I where "I = unat (bytes_per_line image_input * row0)"
  define s1 where "s1 = pixel_scan rd k s (ib, I) w (ob, B * R) r g b a"
  have RH: "R < H" using Suc.prems by (simp add: R_def)
  have "B * R \<le> B * H" using RH by simp
  moreover have "B * H < 2 ^ 32" using size(1) by (simp only: B_def)
  ultimately have BR: "B * R < 2 ^ 32" by (rule le_less_trans)
  have off: "unat (bytes_per_line image_output * row0) = B * R"
    unfolding B_def R_def using BR [unfolded B_def R_def] by (rule unat_mult_row)
  have next_row: "unat (row0 + 1) = R + 1"
    unfolding R_def using RH size(2) by (intro unat_succ_row) (simp add: R_def)
  have first: "to_bpp64_rgba_kind_row env image_input r g b a image_output row0 rgba s = Inr (s1, rgba)"
    by (simp only: row off s1_def ib_def ob_def w_def I_def)
  have "unat (row0 + 1) + n \<le> H" using Suc.prems next_row by (simp add: R_def)
  from Suc.IH [OF this, of s1] next_row
  obtain s' where run: "to_bpp64_rgba_kind_rows env image_input r g b a image_output n (row0 + 1) rgba s1
        = Inr (s', rgba)"
    and px: "\<And>j col. j < n \<Longrightarrow> col < w \<Longrightarrow>
            holds_pixel s' (ob, B * (R + 1 + j) + 8 * col) r g b a
              (rd s1 (ib, nat (int (unat (bytes_per_line image_input * (row0 + 1 + of_nat j))) + k * int col)))"
    and frame: "\<And>b' offset. b' \<noteq> ob \<or> offset < B * (R + 1) \<Longrightarrow> s' b' offset = s1 b' offset"
    by (auto simp: ib_def ob_def B_def w_def)
  have frame1: "s1 b' offset = s b' offset" if "b' \<noteq> ob \<or> offset < B * R" for b' offset
    unfolding s1_def using that by (intro pixel_scan_outside [OF idx]) auto
  have same_input: "s1 ib = s ib"
    using frame1 blocks by (auto simp: ib_def ob_def)
  have rd_same: "rd s1 (ib, x) = rd s (ib, x)" for x
    using rd [unfolded reads_block_def, rule_format, of "(ib, x)" s1 s] same_input
    by (simp add: ib_def)
  have whole: "to_bpp64_rgba_kind_rows env image_input r g b a image_output (Suc n) row0 rgba s = Inr (s', rgba)"
    by (simp add: first run)
  have pixels: "holds_pixel s' (ob, B * (R + j) + 8 * col) r g b a
              (rd s (ib, nat (int (unat (bytes_per_line image_input * (row0 + of_nat j))) + k * int col)))"
    if j: "j < Suc n" and col: "col < w" for j col
  proof (cases j)
    case 0
    have in_row: "s' ob offset = s1 ob offset" if "offset < B * R + 8 * col + 8" for offset
    proof (rule frame)
      have "8 * col + 8 \<le> 8 * w" using col by simp
      also have "\<dots> \<le> B" using stride by (simp add: w_def B_def)
      finally have "B * R + 8 * col + 8 \<le> B * (R + 1)" by simp
      with that show "ob \<noteq> ob \<or> offset < B * (R + 1)" by simp
    qed
    have "holds_pixel s' (ob, B * R + 8 * col) r g b a v = holds_pixel s1 (ob, B * R + 8 * col) r g b a v" for v
      by (rule holds_pixel_cong [OF idx]) (simp add: in_row)
    moreover have "holds_pixel s1 (ob, B * R + 8 * col) r g b a (rd s (ib, nat (int I + k * int col)))"
      unfolding s1_def using idx rd [folded ib_def] blocks [folded ib_def ob_def] k col
      by (rule pixel_scan_holds_pixel)
    ultimately show ?thesis using 0 by (simp add: I_def)
  next
    case (Suc j')
    then have "j' < n" using j by simp
    moreover have rw: "row0 + 1 + of_nat j' = row0 + of_nat j" using Suc by simp
    moreover have ad: "B * (R + 1 + j') = B * (R + j)" using Suc by simp
    ultimately show ?thesis
      using px [of j' col] col by (simp only: rd_same)
  qed
  have frames: "s' b' offset = s b' offset" if "b' \<noteq> ob \<or> offset < B * R" for b' offset
  proof -
    from that have "b' \<noteq> ob \<or> offset < B * (R + 1)" by auto
    from frame [OF this] frame1 [OF that] show ?thesis by simp
  qed
  from whole pixels frames show ?case
    by (auto simp: ib_def ob_def B_def w_def R_def)
qed

text \<open>The readers of the scan functions.\<close>

definition read_rgb24 :: "int \<Rightarrow> int \<Rightarrow> int \<Rightarrow> pixel_reader" where
  "read_rgb24 ri gi bi s p =
     (times257 (rd8 s (ptr_add8 p ri)), times257 (rd8 s (ptr_add8 p gi)),
      times257 (rd8 s (ptr_add8 p bi)), 65535)"

definition read_rgba32 :: "int \<Rightarrow> int \<Rightarrow> int \<Rightarrow> int \<Rightarrow> pixel_reader" where
  "read_rgba32 ri gi bi ai s p =
     (times257 (rd8 s (ptr_add8 p ri)), times257 (rd8 s (ptr_add8 p gi)),
      times257 (rd8 s (ptr_add8 p bi)), times257 (rd8 s (ptr_add8 p ai)))"

definition read_rgba64 :: "int \<Rightarrow> int \<Rightarrow> int \<Rightarrow> int \<Rightarrow> pixel_reader" where
  "read_rgba64 ri gi bi ai s p =
     (rd16 s (ptr_add16 p ri), rd16 s (ptr_add16 p gi), rd16 s (ptr_add16 p bi),
      if 0 \<le> ai then rd16 s (ptr_add16 p ai) else 65535)"

definition read_cmyk32 :: "manip_env \<Rightarrow> pixel_reader" where
  "read_cmyk32 env s p =
     (case convert_cmyk32_to_rgb24 env (rd8 s (ptr_add8 p 0)) (rd8 s (ptr_add8 p 1))
             (rd8 s (ptr_add8 p 2)) (rd8 s (ptr_add8 p 3)) of
        (rv, gv, bv) \<Rightarrow> (times257 rv, times257 gv, times257 bv, 65535))"

definition read_ycbcr24 :: "manip_env \<Rightarrow> pixel_reader" where
  "read_ycbcr24 env s p =
     (case convert_ycbcr_to_rgb env (rd8 s (ptr_add8 p 0)) (rd8 s (ptr_add8 p 1))
             (rd8 s (ptr_add8 p 2)) of
        (rv, gv, bv) \<Rightarrow> (times257 rv, times257 gv, times257 bv, 65535))"

lemma reads_block_readers:
  "reads_block (read_rgb24 ri gi bi) blk"
  "reads_block (read_rgba32 ri gi bi ai) blk"
  "reads_block (read_rgba64 ri gi bi ai) blk"
  "reads_block (read_cmyk32 env) blk"
  "reads_block (read_ycbcr24 env) blk"
  by (simp_all add: reads_block_def read_rgb24_def read_rgba32_def read_rgba64_def read_cmyk32_def
      read_ycbcr24_def rd8_def rd16_def ptr_add8_def ptr_add16_def)

lemma ptr_add16_as_bytes: "ptr_add16 p 4 = ptr_add8 p 8"
  by (simp add: ptr_add16_def ptr_add8_def)

lemma rgb24_is_pixel_scan:
  "fill_rgba64_scan_from_rgb24_kind s scan_input n ri gi bi scan_output r g b a
     = pixel_scan (read_rgb24 ri gi bi) 3 s scan_input n scan_output r g b a"
  by (induction n arbitrary: s scan_input scan_output) (simp_all add: read_rgb24_def)

lemma rgba32_is_pixel_scan:
  "fill_rgba64_scan_from_rgba32_kind s scan_input n ri gi bi ai scan_output r g b a
     = pixel_scan (read_rgba32 ri gi bi ai) 4 s scan_input n scan_output r g b a"
  by (induction n arbitrary: s scan_input scan_output) (simp_all add: read_rgba32_def)

lemma rgbx32_is_pixel_scan:
  "fill_rgba64_scan_from_rgbx32_kind s scan_input n ri gi bi scan_output r g b a
     = pixel_scan (read_rgb24 ri gi bi) 4 s scan_input n scan_output r g b a"
  by (induction n arbitrary: s scan_input scan_output) (simp_all add: read_rgb24_def)

lemma rgba64_is_pixel_scan:
  "0 \<le> ai \<Longrightarrow> fill_rgba64_scan_from_rgba64_kind s scan_input n ri gi bi ai scan_output r g b a
     = pixel_scan (read_rgba64 ri gi bi ai) 8 s scan_input n scan_output r g b a"
  by (induction n arbitrary: s scan_input scan_output) (simp_all add: read_rgba64_def ptr_add16_as_bytes)

lemma rgbx64_is_pixel_scan:
  "fill_rgba64_scan_from_rgbx64_kind s scan_input n ri gi bi scan_output r g b a
     = pixel_scan (read_rgba64 ri gi bi (-1)) 8 s scan_input n scan_output r g b a"
  by (induction n arbitrary: s scan_input scan_output) (simp_all add: read_rgba64_def ptr_add16_as_bytes)

lemma cmyk32_is_pixel_scan:
  "scan_cmyk32 env r g b a scan_input n scan_output s
     = pixel_scan (read_cmyk32 env) 4 s scan_input n scan_output r g b a"
  by (induction n arbitrary: s scan_input scan_output) (simp_all add: read_cmyk32_def split: prod.splits)

lemma ycbcr24_is_pixel_scan:
  "scan_ycbcr24 env r g b a scan_input n scan_output s
     = pixel_scan (read_ycbcr24 env) 3 s scan_input n scan_output r g b a"
  by (induction n arbitrary: s scan_input scan_output) (simp_all add: read_ycbcr24_def split: prod.splits)

lemma canonical_valid_indexes:
  "verify_and_construct_rgba64_indexes fmt = Inr (r, g, b, a) \<Longrightarrow> valid_indexes r g b a"
  by (cases fmt) (auto simp: valid_indexes_def)

lemma same_format_row:
  assumes "verify_and_construct_rgba64_indexes fmt = Inr (r, g, b, a)" "pixel_format image_input = fmt"
  shows "to_bpp64_rgba_kind_row env image_input r g b a image_output row rgba s
       = Inr (pixel_scan (read_rgba64 r g b a) 8 s
                (pixels image_input, unat (bytes_per_line image_input * row)) (unat (width image_input))
                (pixels image_output, unat (bytes_per_line image_output * row)) r g b a, rgba)"
  using assms
  by (cases fmt)
    (auto simp: to_bpp64_rgba_kind_row_def Let_def rgba64_is_pixel_scan rgbx64_is_pixel_scan)

lemma to_bpp64_rgba_kind_pixels:
  assumes row: "\<And>row rgba s. to_bpp64_rgba_kind_row env image_input r g b a image_output row rgba s
       = Inr (pixel_scan rd k s (pixels image_input, unat (bytes_per_line image_input * row))
                (unat (width image_input))
                (pixels image_output, unat (bytes_per_line image_output * row)) r g b a, rgba)"
    and idx: "valid_indexes r g b a"
    and rd: "reads_block rd (pixels image_input)"
    and blocks: "pixels image_input \<noteq> pixels image_output"
    and k: "0 \<le> k"
    and stride: "8 * unat (width image_input) \<le> unat (bytes_per_line image_output)"
    and size: "unat (bytes_per_line image_output) * unat (height image_input) < 2 ^ 32"
  shows "\<exists>s'. to_bpp64_rgba_kind env image_input r g b a image_output rgba s = Inr s'
       \<and> (\<forall>j<unat (height image_input). \<forall>col<unat (width image_input).
            holds_pixel s' (pixels image_output, unat (bytes_per_line image_output * of_nat j) + 8 * col) r g b a
              (rd s (pixels image_input,
                 nat (int (unat (bytes_per_line image_input * of_nat j)) + k * int col))))
       \<and> (\<forall>b'. b' \<noteq> pixels image_output \<longrightarrow> s' b' = s b')"
proof -
  have H: "unat (height image_input) < 2 ^ 32" using unsigned_less [of "height image_input"] by simp
  have start: "unat (0 :: 32 word) + unat (height image_input) \<le> unat (height image_input)" by simp
  from to_bpp64_rgba_kind_rows_pixels [OF row idx rd blocks k stride size H start, of rgba s]
  obtain s' where run: "to_bpp64_rgba_kind_rows env image_input r g b a image_output
        (unat (height image_input)) 0 rgba s = Inr (s', rgba)"
    and px: "\<And>j col. j < unat (height image_input) \<Longrightarrow> col < unat (width image_input) \<Longrightarrow>
            holds_pixel s' (pixels image_output, unat (bytes_per_line image_output) * j + 8 * col) r g b a
              (rd s (pixels image_input,
                 nat (int (unat (bytes_per_line image_input * of_nat j)) + k * int col)))"
    and frame: "\<And>b' offset. b' \<noteq> pixels image_output \<Longrightarrow> s' b' offset = s b' offset"
    by auto
  have off: "unat (bytes_per_line image_output * of_nat j) = unat (bytes_per_line image_output) * j"
    if "j < unat (height image_input)" for j
  proof -
    have j: "unat (of_nat j :: 32 word) = j" using that H by (simp add: unat_of_nat)
    have "unat (bytes_per_line image_output) * j \<le> unat (bytes_per_line image_output) * unat (height image_input)"
      using that by simp
    from this size have "unat (bytes_per_line image_output) * unat (of_nat j :: 32 word) < 2 ^ 32"
      unfolding j by (rule le_less_trans)
    from unat_mult_row [OF this] j show ?thesis by simp
  qed
  have "to_bpp64_rgba_kind env image_input r g b a image_output rgba s = Inr s'"
    by (simp add: to_bpp64_rgba_kind_def run)
  moreover have "\<forall>j<unat (height image_input). \<forall>col<unat (width image_input).
            holds_pixel s' (pixels image_output, unat (bytes_per_line image_output * of_nat j) + 8 * col) r g b a
              (rd s (pixels image_input,
                 nat (int (unat (bytes_per_line image_input * of_nat j)) + k * int col)))"
    using px off by simp
  moreover have "\<forall>b'. b' \<noteq> pixels image_output \<longrightarrow> s' b' = s b'"
    using frame by auto
  ultimately show ?thesis by blast
qed

lemma holds_pixel_read_rgba64:
  assumes "holds_pixel s' p r g b a (read_rgba64 r g b a s q)" "c \<in> {r, g, b, a}" "0 \<le> c"
  shows "rd16 s' (ptr_add16 p c) = rd16 s (ptr_add16 q c)"
  using assms by (auto simp: holds_pixel_def read_rgba64_def)

text \<open>
  C8, amended. For every valid image whose pixel format A is one of the eight
  canonical 64-bit formats: the in-place conversion to A returns success and leaves
  the store and the image as they are. The allocating conversion to A, into a
  buffer other than the source, with rows of at least \<open>8 * width\<close> bytes and a size
  below \<open>2^32\<close>, copies every colour sample and, if A has an alpha channel, every alpha
  sample of every pixel unchanged; for an alpha-less A the padding slot of the new
  buffer is not written (with a stride that is a multiple of 8, the bytes outside of
  the written slots are as the allocation held them).
\<close>

theorem same_format_conversion:
  assumes fmt: "verify_and_construct_rgba64_indexes fmt = Inr (r, g, b, a)"
    and same: "pixel_format img = fmt"
    and valid: "sail_check_image_valid env img = Inr ()"
  shows "sail_convert_image_to_bpp64_rgba_kind_in_place env img fmt rgba s = Inr (s, img)
    \<and> (case sail_convert_image_to_bpp64_rgba_kind env img fmt True rgba s of
          Inl failure \<Rightarrow> True
        | Inr (s', image_output) \<Rightarrow>
            pixels image_output \<noteq> pixels img \<longrightarrow>
            8 * unat (width img) \<le> unat (bytes_per_line image_output) \<longrightarrow>
            unat (bytes_per_line image_output) * unat (height img) < 2 ^ 32 \<longrightarrow>
              (\<forall>row col c. row < unat (height img) \<longrightarrow> col < unat (width img) \<longrightarrow>
                 c \<in> {r, g, b, a} \<longrightarrow> 0 \<le> c \<longrightarrow>
                 sample64 s' image_output row col c = sample64 s img row col c)
            \<and> (8 dvd unat (bytes_per_line image_output) \<longrightarrow>
                 (\<forall>offset. slot_of offset \<notin> {r, g, b, a} \<longrightarrow>
                    s' (pixels image_output) offset = s (pixels image_output) offset)))"
proof
  show "sail_convert_image_to_bpp64_rgba_kind_in_place env img fmt rgba s = Inr (s, img)"
    using fmt same valid by (simp add: sail_convert_image_to_bpp64_rgba_kind_in_place_def)
next
  note idx = canonical_valid_indexes [OF fmt]
  show "case sail_convert_image_to_bpp64_rgba_kind env img fmt True rgba s of
          Inl failure \<Rightarrow> True
        | Inr (s', image_output) \<Rightarrow>
            pixels image_output \<noteq> pixels img \<longrightarrow>
            8 * unat (width img) \<le> unat (bytes_per_line image_output) \<longrightarrow>
            unat (bytes_per_line image_output) * unat (height img) < 2 ^ 32 \<longrightarrow>
              (\<forall>row col c. row < unat (height img) \<longrightarrow> col < unat (width img) \<longrightarrow>
                 c \<in> {r, g, b, a} \<longrightarrow> 0 \<le> c \<longrightarrow>
                 sample64 s' image_output row col c = sample64 s img row col c)
            \<and> (8 dvd unat (bytes_per_line image_output) \<longrightarrow>
                 (\<forall>offset. slot_of offset \<notin> {r, g, b, a} \<longrightarrow>
                    s' (pixels image_output) offset = s (pixels image_output) offset))"
  proof (cases "sail_convert_image_to_bpp64_rgba_kind env img fmt True rgba s")
    case (Inl failure)
    then show ?thesis by simp
  next
    case (Inr x)
    obtain s' image_output where x: "x = (s', image_output)" by (cases x)
    from convert_alloc_success [OF Inr [unfolded x]] fmt
    have run: "to_bpp64_rgba_kind env img r g b a image_output rgba s = Inr s'" by auto
    have samples: "sample64 s' image_output row col c = sample64 s img row col c"
      if blocks: "pixels image_output \<noteq> pixels img"
        and stride: "8 * unat (width img) \<le> unat (bytes_per_line image_output)"
        and size: "unat (bytes_per_line image_output) * unat (height img) < 2 ^ 32"
        and pos: "row < unat (height img)" "col < unat (width img)" "c \<in> {r, g, b, a}" "0 \<le> c"
      for row col c
    proof -
      have k: "(0::int) \<le> 8" by simp
      from to_bpp64_rgba_kind_pixels [OF same_format_row [OF fmt same] idx reads_block_readers(3)
          blocks [symmetric] k stride size, where rgba = rgba and s = s and env = env] run
      have "holds_pixel s' (pixels image_output, unat (bytes_per_line image_output * of_nat row) + 8 * col)
              r g b a
              (read_rgba64 r g b a s (pixels img,
                 nat (int (unat (bytes_per_line img * of_nat row)) + 8 * int col)))"
        using pos(1,2) by auto
      from holds_pixel_read_rgba64 [OF this pos(3,4)] show ?thesis
        by (simp add: sample64_def nat_add_distrib nat_mult_distrib)
    qed
    have padding: "s' (pixels image_output) offset = s (pixels image_output) offset"
      if al: "8 dvd unat (bytes_per_line image_output)" and pad: "slot_of offset \<notin> {r, g, b, a}"
      for offset
    proof -
      from idx have i: "0 \<le> r" "r \<le> 3" "0 \<le> g" "g \<le> 3" "0 \<le> b" "b \<le> 3" "a \<le> 3"
        by (simp_all add: valid_indexes_def)
      from to_bpp64_rgba_kind_only_slots(1) [OF al i run] pad show ?thesis
        by (simp add: only_slots_def)
    qed
    from samples padding Inr x show ?thesis by simp
  qed
qed

theorem same_format_conversion_witness:
  "sail_convert_image_to_bpp64_rgba_kind_in_place example_manip_env example_rgbx64_image
      SAIL_PIXEL_FORMAT_BPP64_RGBX example_rgba example_store = Inr (example_store, example_rgbx64_image)
   \<and> (case sail_convert_image_to_bpp64_rgba_kind example_manip_env example_rgbx64_image
           SAIL_PIXEL_FORMAT_BPP64_RGBX True example_rgba example_store of
        Inl failure \<Rightarrow> False
      | Inr (s', image_output) \<Rightarrow>
          sample64 s' image_output 0 0 0 = sample64 example_store example_rgbx64_image 0 0 0
        \<and> sample64 s' image_output 0 0 1 = sample64 example_store example_rgbx64_image 0 0 1
        \<and> sample64 s' image_output 0 0 2 = sample64 example_store example_rgbx64_image 0 0 2
        \<and> s' (pixels image_output) 6 = example_store (pixels image_output) 6)"
  using same_format_conversion [where fmt = SAIL_PIXEL_FORMAT_BPP64_RGBX and r = 0 and g = 1 and b = 2
      and a = "-1" and img = example_rgbx64_image and env = example_manip_env and rgba = example_rgba
      and s = example_store]
  by (simp add: example_rgbx64_image_def example_rgba64_image_def example_manip_env_def slot_of_def
      sail_convert_image_to_bpp64_rgba_kind_def to_bpp64_rgba_kind_def to_bpp64_rgba_kind_row_def Let_def)

text \<open>
  The allocating conversion of a BPP64-RGBX image to BPP64-RGBX, into a fresh block
  of zeros: the padding sample of the pixel is 4 in the source and 0 in the new
  buffer, so the two buffers are not byte-identical.
\<close>

theorem same_format_counterexample:
  "output_sample
     (sail_convert_image_to_bpp64_rgba_kind example_manip_env example_rgbx64_image
        SAIL_PIXEL_FORMAT_BPP64_RGBX True example_rgba example_store) 6 = Inr 0
   \<and> rd16 example_store (pixels example_rgbx64_image, 6) = 4"
  by (simp add: output_sample_def sail_convert_image_to_bpp64_rgba_kind_def example_manip_env_def
      example_rgbx64_image_def example_rgba64_image_def example_store_def block_of_list_def
      to_bpp64_rgba_kind_def to_bpp64_rgba_kind_row_def fill_rgba64_pixel_def wr16_def rd16_def
      ptr_add16_def Let_def)

lemma unat_spread_u8: "unat ((ucast (v :: 8 word) :: 16 word) * 257) = unat v * 257"
  using unat_u8_less [of v]
  by (simp add: unsigned_ucast_eq unat_word_ariths take_bit_eq_mod)

lemma spread_gray8_to_rgba64_value:
  "unat (component1 (spread_gray8_to_rgba64 v c)) = unat v * 257"
  "unat (component2 (spread_gray8_to_rgba64 v c)) = unat v * 257"
  "unat (component3 (spread_gray8_to_rgba64 v c)) = unat v * 257"
  "component4 (spread_gray8_to_rgba64 v c) = 65535"
  by (simp_all add: spread_gray8_to_rgba64_def unat_spread_u8)

lemma ptr_add8_numeral:
  "ptr_add8 p 0 = p" "ptr_add8 (blk, n) 1 = (blk, n + 1)" "ptr_add8 (blk, n) 2 = (blk, n + 2)"
  "ptr_add8 (blk, n) 3 = (blk, n + 3)"
  by (simp_all add: ptr_add8_def nat_add_distrib)

lemma get_palette_rgba64_rgb24:
  assumes "index < color_count pal" "pal_pixel_format pal = SAIL_PIXEL_FORMAT_BPP24_RGB"
  shows "get_palette_rgba64 s pal index c =
     Inr \<lparr>component1 = times257 (rd8 s (pal_data pal, unat (index * 3))),
          component2 = times257 (rd8 s (pal_data pal, unat (index * 3) + 1)),
          component3 = times257 (rd8 s (pal_data pal, unat (index * 3) + 2)),
          component4 = 65535\<rparr>"
  using assms
  by (cases c) (simp add: get_palette_rgba64_def Let_def ptr_add8_numeral not_le [symmetric])

lemma get_palette_rgba64_rgba32:
  assumes "index < color_count pal" "pal_pixel_format pal = SAIL_PIXEL_FORMAT_BPP32_RGBA"
  shows "get_palette_rgba64 s pal index c =
     Inr \<lparr>component1 = times257 (rd8 s (pal_data pal, unat (index * 4))),
          component2 = times257 (rd8 s (pal_data pal, unat (index * 4) + 1)),
          component3 = times257 (rd8 s (pal_data pal, unat (index * 4) + 2)),
          component4 = times257 (rd8 s (pal_data pal, unat (index * 4) + 3))\<rparr>"
  using assms
  by (cases c) (simp add: get_palette_rgba64_def Let_def ptr_add8_numeral not_le [symmetric])

lemma scan_rows_8bit:
  assumes idx: "valid_indexes r g b a" and blocks: "ib \<noteq> ob" and j: "j < n"
  shows "holds_pixel (fill_rgba64_scan_from_rgb24_kind s (ib, io) n ri gi bi (ob, oo) r g b a)
           (ob, oo + 8 * j) r g b a (read_rgb24 ri gi bi s (ib, io + 3 * j))"
    and "holds_pixel (fill_rgba64_scan_from_rgba32_kind s (ib, io) n ri gi bi ai (ob, oo) r g b a)
           (ob, oo + 8 * j) r g b a (read_rgba32 ri gi bi ai s (ib, io + 4 * j))"
    and "holds_pixel (fill_rgba64_scan_from_rgbx32_kind s (ib, io) n ri gi bi (ob, oo) r g b a)
           (ob, oo + 8 * j) r g b a (read_rgb24 ri gi bi s (ib, io + 4 * j))"
    and "holds_pixel (scan_cmyk32 env r g b a (ib, io) n (ob, oo) s)
           (ob, oo + 8 * j) r g b a (read_cmyk32 env s (ib, io + 4 * j))"
    and "holds_pixel (scan_ycbcr24 env r g b a (ib, io) n (ob, oo) s)
           (ob, oo + 8 * j) r g b a (read_ycbcr24 env s (ib, io + 3 * j))"
proof -
  have k3: "(0::int) \<le> 3" and k4: "(0::int) \<le> 4" by simp_all
  have p3: "nat (int io + 3 * int j) = io + 3 * j" and p4: "nat (int io + 4 * int j) = io + 4 * j"
    by (simp_all add: nat_add_distrib nat_mult_distrib)
  show "holds_pixel (fill_rgba64_scan_from_rgb24_kind s (ib, io) n ri gi bi (ob, oo) r g b a)
           (ob, oo + 8 * j) r g b a (read_rgb24 ri gi bi s (ib, io + 3 * j))"
    using pixel_scan_holds_pixel [OF idx reads_block_readers(1) blocks k3 j, of ri gi bi s io oo]
    by (simp only: rgb24_is_pixel_scan p3)
  show "holds_pixel (fill_rgba64_scan_from_rgba32_kind s (ib, io) n ri gi bi ai (ob, oo) r g b a)
           (ob, oo + 8 * j) r g b a (read_rgba32 ri gi bi ai s (ib, io + 4 * j))"
    using pixel_scan_holds_pixel [OF idx reads_block_readers(2) blocks k4 j, of ri gi bi ai s io oo]
    by (simp only: rgba32_is_pixel_scan p4)
  show "holds_pixel (fill_rgba64_scan_from_rgbx32_kind s (ib, io) n ri gi bi (ob, oo) r g b a)
           (ob, oo + 8 * j) r g b a (read_rgb24 ri gi bi s (ib, io + 4 * j))"
    using pixel_scan_holds_pixel [OF idx reads_block_readers(1) blocks k4 j, of ri gi bi s io oo]
    by (simp only: rgbx32_is_pixel_scan p4)
  show "holds_pixel (scan_cmyk32 env r g b a (ib, io) n (ob, oo) s)
           (ob, oo + 8 * j) r g b a (read_cmyk32 env s (ib, io + 4 * j))"
    using pixel_scan_holds_pixel [OF idx reads_block_readers(4) blocks k4 j, of env s io oo]
    by (simp only: cmyk32_is_pixel_scan p4)
  show "holds_pixel (scan_ycbcr24 env r g b a (ib, io) n (ob, oo) s)
           (ob, oo + 8 * j) r g b a (read_ycbcr24 env s (ib, io + 3 * j))"
    using pixel_scan_holds_pixel [OF idx reads_block_readers(5) blocks k3 j, of env s io oo]
    by (simp only: ycbcr24_is_pixel_scan p3)
qed

lemma example_indexed_conversion:
  "output_sample (sail_convert_image_to_bpp64_rgba_kind example_manip_env example_indexed_image
     SAIL_PIXEL_FORMAT_BPP64_RGBA True example_rgba example_indexed_store) 0 = Inr 65535"
  "output_sample (sail_convert_image_to_bpp64_rgba_kind example_manip_env example_indexed_image
     SAIL_PIXEL_FORMAT_BPP64_RGBA True example_rgba example_indexed_store) 2 = Inr 0"
  "output_sample (sail_convert_image_to_bpp64_rgba_kind example_manip_env example_indexed_image
     SAIL_PIXEL_FORMAT_BPP64_RGBA True example_rgba example_indexed_store) 4 = Inr 32896"
  "output_sample (sail_convert_image_to_bpp64_rgba_kind example_manip_env example_indexed_image
     SAIL_PIXEL_FORMAT_BPP64_RGBA True example_rgba example_indexed_store) 6 = Inr 65535"
  by (simp_all add: output_sample_def sail_convert_image_to_bpp64_rgba_kind_def example_manip_env_def
      example_indexed_image_def example_indexed_store_def example_palette_def block_of_list_def
      to_bpp64_rgba_kind_def to_bpp64_rgba_kind_row_def resolve_index_def get_palette_rgba64_def
      fill_rgba64_pixel_rgba_def fill_rgba64_pixel_def times257_def
      wr16_def rd16_def rd8_def ptr_add16_def ptr_add8_def Let_def)

text \<open>
  C1. An 8-bit channel value \<open>v\<close> is promoted to exactly \<open>v * 257\<close>, so 0 gives 0 and
  255 gives 65535: the grayscale spreading gives \<open>v * 257\<close> in the three colour
  components and 65535 in the fourth; an entry of a 24-bit RGB or 32-bit RGBA palette
  resolves to its bytes times 257 (and 65535 for the missing alpha); every pixel of a
  row converted from an RGB24, RGBA32 or RGBX32 kind, or from CMYK and YCbCr through
  the collaborators, holds the bytes (resp. the outputs of the collaborator) times
  257 in the slots of its channels. In particular the pixel of index 0 of an 8-bit
  indexed image, resolved through the 24-bit RGB palette entry (255, 0, 128) and
  converted to BPP64-RGBA, has the channels (65535, 0, 32896, 65535).
\<close>

theorem eight_bit_promotion:
  "unat (times257 (v :: 8 word)) = unat v * 257
   \<and> times257 (0 :: 8 word) = 0 \<and> times257 (255 :: 8 word) = 65535
   \<and> unat (component1 (spread_gray8_to_rgba64 v c)) = unat v * 257
   \<and> unat (component2 (spread_gray8_to_rgba64 v c)) = unat v * 257
   \<and> unat (component3 (spread_gray8_to_rgba64 v c)) = unat v * 257
   \<and> component4 (spread_gray8_to_rgba64 v c) = 65535
   \<and> (index < color_count pal \<longrightarrow> pal_pixel_format pal = SAIL_PIXEL_FORMAT_BPP24_RGB \<longrightarrow>
        get_palette_rgba64 s pal index c =
          Inr \<lparr>component1 = times257 (rd8 s (pal_data pal, unat (index * 3))),
               component2 = times257 (rd8 s (pal_data pal, unat (index * 3) + 1)),
               component3 = times257 (rd8 s (pal_data pal, unat (index * 3) + 2)),
               component4 = 65535\<rparr>)
   \<and> (index < color_count pal \<longrightarrow> pal_pixel_format pal = SAIL_PIXEL_FORMAT_BPP32_RGBA \<longrightarrow>
        get_palette_rgba64 s pal index c =
          Inr \<lparr>component1 = times257 (rd8 s (pal_data pal, unat (index * 4))),
               component2 = times257 (rd8 s (pal_data pal, unat (index * 4) + 1)),
               component3 = times257 (rd8 s (pal_data pal, unat (index * 4) + 2)),
               component4 = times257 (rd8 s (pal_data pal, unat (index * 4) + 3))\<rparr>)
   \<and> (valid_indexes r g b a \<longrightarrow> ib \<noteq> ob \<longrightarrow> j < n \<longrightarrow>
        holds_pixel (fill_rgba64_scan_from_rgb24_kind s (ib, io) n ri gi bi (ob, oo) r g b a)
          (ob, oo + 8 * j) r g b a
          (times257 (rd8 s (ptr_add8 (ib, io + 3 * j) ri)), times257 (rd8 s (ptr_add8 (ib, io + 3 * j) gi)),
           times257 (rd8 s (ptr_add8 (ib, io + 3 * j) bi)), 65535)
      \<and> holds_pixel (fill_rgba64_scan_from_rgba32_kind s (ib, io) n ri gi bi ai (ob, oo) r g b a)
          (ob, oo + 8 * j) r g b a
          (times257 (rd8 s (ptr_add8 (ib, io + 4 * j) ri)), times257 (rd8 s (ptr_add8 (ib, io + 4 * j) gi)),
           times257 (rd8 s (ptr_add8 (ib, io + 4 * j) bi)), times257 (rd8 s (ptr_add8 (ib, io + 4 * j) ai)))
      \<and> holds_pixel (fill_rgba64_scan_from_rgbx32_kind s (ib, io) n ri gi bi (ob, oo) r g b a)
          (ob, oo + 8 * j) r g b a
          (times257 (rd8 s (ptr_add8 (ib, io + 4 * j) ri)), times257 (rd8 s (ptr_add8 (ib, io + 4 * j) gi)),
           times257 (rd8 s (ptr_add8 (ib, io + 4 * j) bi)), 65535)
      \<and> holds_pixel (scan_cmyk32 env r g b a (ib, io) n (ob, oo) s) (ob, oo + 8 * j) r g b a
          (case convert_cmyk32_to_rgb24 env (rd8 s (ib, io + 4 * j)) (rd8 s (ib, io + 4 * j + 1))
                  (rd8 s (ib, io + 4 * j + 2)) (rd8 s (ib, io + 4 * j + 3)) of
             (rv, gv, bv) \<Rightarrow> (times257 rv, times257 gv, times257 bv, 65535))
      \<and> holds_pixel (scan_ycbcr24 env r g b a (ib, io) n (ob, oo) s) (ob, oo + 8 * j) r g b a
          (case convert_ycbcr_to_rgb env (rd8 s (ib, io + 3 * j)) (rd8 s (ib, io + 3 * j + 1))
                  (rd8 s (ib, io + 3 * j + 2)) of
             (rv, gv, bv) \<Rightarrow> (times257 rv, times257 gv, times257 bv, 65535)))
   \<and> output_sample (sail_convert_image_to_bpp64_rgba_kind example_manip_env example_indexed_image
         SAIL_PIXEL_FORMAT_BPP64_RGBA True example_rgba example_indexed_store) 0 = Inr 65535
   \<and> output_sample (sail_convert_image_to_bpp64_rgba_kind example_manip_env example_indexed_image
         SAIL_PIXEL_FORMAT_BPP64_RGBA True example_rgba example_indexed_store) 2 = Inr 0
   \<and> output_sample (sail_convert_image_to_bpp64_rgba_kind example_manip_env example_indexed_image
         SAIL_PIXEL_FORMAT_BPP64_RGBA True example_rgba example_indexed_store) 4 = Inr 32896
   \<and> output_sample (sail_convert_image_to_bpp64_rgba_kind example_manip_env example_indexed_image
         SAIL_PIXEL_FORMAT_BPP64_RGBA True example_rgba example_indexed_store) 6 = Inr 65535"
proof -
  have ends: "times257 (0 :: 8 word) = 0" "times257 (255 :: 8 word) = 65535"
    by (simp_all add: times257_def)
  have scans: "holds_pixel (fill_rgba64_scan_from_rgb24_kind s (ib, io) n ri gi bi (ob, oo) r g b a)
          (ob, oo + 8 * j) r g b a
          (times257 (rd8 s (ptr_add8 (ib, io + 3 * j) ri)), times257 (rd8 s (ptr_add8 (ib, io + 3 * j) gi)),
           times257 (rd8 s (ptr_add8 (ib, io + 3 * j) bi)), 65535)
      \<and> holds_pixel (fill_rgba64_scan_from_rgba32_kind s (ib, io) n ri gi bi ai (ob, oo) r g b a)
          (ob, oo + 8 * j) r g b a
          (times257 (rd8 s (ptr_add8 (ib, io + 4 * j) ri)), times257 (rd8 s (ptr_add8 (ib, io + 4 * j) gi)),
           times257 (rd8 s (ptr_add8 (ib, io + 4 * j) bi)), times257 (rd8 s (ptr_add8 (ib, io + 4 * j) ai)))
      \<and> holds_pixel (fill_rgba64_scan_from_rgbx32_kind s (ib, io) n ri gi bi (ob, oo) r g b a)
          (ob, oo + 8 * j) r g b a
          (times257 (rd8 s (ptr_add8 (ib, io + 4 * j) ri)), times257 (rd8 s (ptr_add8 (ib, io + 4 * j) gi)),
           times257 (rd8 s (ptr_add8 (ib, io + 4 * j) bi)), 65535)
      \<and> holds_pixel (scan_cmyk32 env r g b a (ib, io) n (ob, oo) s) (ob, oo + 8 * j) r g b a
          (case convert_cmyk32_to_rgb24 env (rd8 s (ib, io + 4 * j)) (rd8 s (ib, io + 4 * j + 1))
                  (rd8 s (ib, io + 4 * j + 2)) (rd8 s (ib, io + 4 * j + 3)) of
             (rv, gv, bv) \<Rightarrow> (times257 rv, times257 gv, times257 bv, 65535))
      \<and> holds_pixel (scan_ycbcr24 env r g b a (ib, io) n (ob, oo) s) (ob, oo + 8 * j) r g b a
          (case convert_ycbcr_to_rgb env (rd8 s (ib, io + 3 * j)) (rd8 s (ib, io + 3 * j + 1))
                  (rd8 s (ib, io + 3 * j + 2)) of
             (rv, gv, bv) \<Rightarrow> (times257 rv, times257 gv, times257 bv, 65535))"
    if "valid_indexes r g b a" "ib \<noteq> ob" "j < n"
    using scan_rows_8bit(1) [OF that, where s = s and io = io and oo = oo and ri = ri and gi = gi and bi = bi]
      scan_rows_8bit(2) [OF that, where s = s and io = io and oo = oo and ri = ri and gi = gi and bi = bi
        and ai = ai]
      scan_rows_8bit(3) [OF that, where s = s and io = io and oo = oo and ri = ri and gi = gi and bi = bi]
      scan_rows_8bit(4) [OF that, where s = s and io = io and oo = oo and env = env]
      scan_rows_8bit(5) [OF that, where s = s and io = io and oo = oo and env = env]
    by (simp add: read_rgb24_def read_rgba32_def read_cmyk32_def read_ycbcr24_def ptr_add8_numeral)
  show ?thesis
    using unat_times257_u8 [of v] ends spread_gray8_to_rgba64_value [of v c]
      get_palette_rgba64_rgb24 [of index pal s c] get_palette_rgba64_rgba32 [of index pal s c]
      scans example_indexed_conversion
    by (intro conjI impI) simp_all
qed

theorem eight_bit_promotion_witness:
  "unat (times257 (128 :: 8 word)) = 32896
   \<and> get_palette_rgba64 example_indexed_store example_palette 0 example_rgba
       = Inr \<lparr>component1 = 65535, component2 = 0, component3 = 32896, component4 = 65535\<rparr>
   \<and> holds_pixel
        (fill_rgba64_scan_from_rgb24_kind example_indexed_store (3, 0) 2 0 1 2 (2, 0) 0 1 2 3)
        (2, 8) 0 1 2 3 (0, 65535, 0, 65535)"
  using eight_bit_promotion [where v = 128 and index = 0 and pal = example_palette
      and s = example_indexed_store and c = example_rgba and r = 0 and g = 1 and b = 2 and a = 3
      and ib = 3 and ob = 2 and j = 1 and n = 2 and io = 0 and oo = 0 and ri = 0 and gi = 1 and bi = 2]
  by (simp add: valid_indexes_def example_palette_def example_indexed_store_def block_of_list_def
      rd8_def ptr_add8_def times257_def)

end
